theory Spec2Isabelle
  imports Complex_Main "HOL-Library.Word" "HOL-Library.AList"
begin

unbundle bit_operations_syntax

section \<open>JavaScript numbers and bit operations\<close>

text \<open>
  The numbers of \<^verbatim>\<open>base-logger.ts\<close> are IEEE doubles that only ever hold integers.
  They are modelled as \<open>int\<close>: sums, products, \<^verbatim>\<open>Math.floor(a / b)\<close> and \<^verbatim>\<open>%\<close>
  of integers are exact on doubles as long as every value stays below \<open>2^53\<close>, which
  \<open>fromString_loop_hex\<close> below establishes for the identifiers the converter is
  used on. \<^verbatim>\<open>NaN\<close> only arises from \<^verbatim>\<open>parseInt\<close> and is the value \<open>None\<close> there.
  The bit operators first convert their operands with \<^verbatim>\<open>ToInt32\<close>.
\<close>

datatype js_error = RangeError | TypeError | ArgumentError string | Thrown string

definition UINT_MAX :: int where
  "UINT_MAX = 4294967296"

definition ToInt32 :: "int \<Rightarrow> int" where
  "ToInt32 x = (x + 2147483648) mod 4294967296 - 2147483648"

definition ToUint8 :: "int \<Rightarrow> int" where
  "ToUint8 x = x mod 256"

definition js_bitand :: "int \<Rightarrow> int \<Rightarrow> int" where
  "js_bitand a b = (ToInt32 a AND ToInt32 b)"

definition js_sar :: "int \<Rightarrow> nat \<Rightarrow> int" where
  "js_sar a n = drop_bit n (ToInt32 a)"

definition js_shl :: "int \<Rightarrow> nat \<Rightarrow> int" where
  "js_shl a n = ToInt32 (push_bit n (ToInt32 a))"

definition js_bitnot :: "int \<Rightarrow> int" where
  "js_bitnot a = NOT (ToInt32 a)"

text \<open>\<^verbatim>\<open>a % b\<close>: the remainder takes the sign of the dividend.\<close>

definition js_rem :: "int \<Rightarrow> int \<Rightarrow> int" where
  "js_rem a b = sgn a * (\<bar>a\<bar> mod \<bar>b\<bar>)"

text \<open>\<^verbatim>\<open>Math.floor(a / b)\<close> for a positive divisor.\<close>

definition floor_div :: "int \<Rightarrow> int \<Rightarrow> int" where
  "floor_div a b = a div b"

section \<open>Trace context converter (\<^verbatim>\<open>base-logger.ts\<close>)\<close>

text \<open>
  The value of one character as a digit, as \<^verbatim>\<open>parseInt\<close> reads it: \<open>0-9\<close>, then
  \<open>a-z\<close> or \<open>A-Z\<close> for 10 to 35.
\<close>

definition digit_value :: "char \<Rightarrow> nat option" where
  "digit_value c =
     (let n = (of_char c :: nat) in
      if 48 \<le> n \<and> n \<le> 57 then Some (n - 48)
      else if 97 \<le> n \<and> n \<le> 122 then Some (n - 87)
      else if 65 \<le> n \<and> n \<le> 90 then Some (n - 55)
      else None)"

text \<open>
  \<^verbatim>\<open>parseInt(str[pos], raddix)\<close> on a one-character string; \<open>None\<close> is \<^verbatim>\<open>NaN\<close>.
  A radix of 0 means 10, any other radix outside 2..36 gives \<^verbatim>\<open>NaN\<close>.
\<close>

definition parseInt_char :: "char \<Rightarrow> int \<Rightarrow> int option" where
  "parseInt_char c raddix =
     (let r = (if raddix = 0 then 10 else raddix) in
      if r < 2 \<or> 36 < r then None
      else (case digit_value c of
              None \<Rightarrow> None
            | Some d \<Rightarrow> if int d < r then Some (int d) else None))"

text \<open>
  The \<^verbatim>\<open>while (pos < len)\<close> loop of \<^verbatim>\<open>_fromString\<close>, on the characters from
  \<open>pos\<close> on. It stops at the first character that is not a digit.
\<close>

fun fromString_loop :: "string \<Rightarrow> int \<Rightarrow> int \<Rightarrow> int \<Rightarrow> int \<times> int" where
  "fromString_loop [] raddix high low = (high, low)"
| "fromString_loop (c # cs) raddix high low =
     (case parseInt_char c raddix of
        None \<Rightarrow> (high, low)
      | Some chr \<Rightarrow>
          (let low1 = low * raddix + chr;
               high1 = high * raddix + floor_div low1 UINT_MAX;
               low2 = js_rem low1 UINT_MAX
           in fromString_loop cs raddix high1 low2))"

text \<open>
  A \<^verbatim>\<open>Uint8Array\<close> is a list of bytes; a store converts with \<^verbatim>\<open>ToUint8\<close> and a
  store outside the array is ignored, as \<open>list_update\<close> does.
\<close>

definition writeUInt32BE :: "int list \<Rightarrow> int \<Rightarrow> nat \<Rightarrow> int list" where
  "writeUInt32BE buffer value offset =
     (let buffer1 = buffer[3 + offset := ToUint8 (js_bitand value 255)];
          value1 = js_sar value 8;
          buffer2 = buffer1[2 + offset := ToUint8 (js_bitand value1 255)];
          value2 = js_sar value1 8;
          buffer3 = buffer2[1 + offset := ToUint8 (js_bitand value2 255)];
          value3 = js_sar value2 8
      in buffer3[0 + offset := ToUint8 (js_bitand value3 255)])"

definition readInt32 :: "int list \<Rightarrow> nat \<Rightarrow> int" where
  "readInt32 buffer offset =
     (buffer ! (offset + 0)) * 16777216
     + js_shl (buffer ! (offset + 1)) 16
     + js_shl (buffer ! (offset + 2)) 8
     + buffer ! (offset + 3)"

definition fromString :: "string \<Rightarrow> int \<Rightarrow> int list" where
  "fromString str raddix =
     (let buffer = replicate 8 (0::int);
          sign = (case str of [] \<Rightarrow> False | c # _ \<Rightarrow> c = CHR ''-'');
          (high, low) = fromString_loop (if sign then tl str else str) raddix 0 0;
          (high, low) =
            (if sign
             then (let high = js_bitnot high
                   in if low \<noteq> 0 then (high, UINT_MAX - low) else (high + 1, low))
             else (high, low));
          buffer = writeUInt32BE buffer high 0;
          buffer = writeUInt32BE buffer low 4
      in buffer)"

text \<open>
  \<^verbatim>\<open>Number.prototype.toString(radix)\<close> on a remainder, whose absolute value is below
  the radix: its digit, after a minus sign when it is negative. The radix check that
  throws \<^verbatim>\<open>RangeError\<close> is in the loop below.
\<close>

definition digit_char :: "int \<Rightarrow> char" where
  "digit_char d = ''0123456789abcdefghijklmnopqrstuvwxyz'' ! nat d"

definition digit_toString :: "int \<Rightarrow> string" where
  "digit_toString d = (if d < 0 then [CHR ''-'', digit_char (- d)] else [digit_char d])"

text \<open>
  The \<^verbatim>\<open>while (1)\<close> loop of \<^verbatim>\<open>_toNumberString\<close>. It has no bound of its own (on
  a negative \<open>high\<close> it never ends), so it is a partial function: \<open>None\<close> is a run
  that does not return. \<^verbatim>\<open>toString(radix)\<close> throws on a radix outside 2..36, in the
  first iteration.
\<close>

partial_function (option) toNumberString_loop ::
  "int \<Rightarrow> int \<Rightarrow> int \<Rightarrow> string \<Rightarrow> (js_error + string) option" where
  "toNumberString_loop radix high low str =
     (if radix < 2 \<or> 36 < radix then Some (Inl RangeError)
      else
        (let modv = js_rem high radix * UINT_MAX + low;
             high1 = floor_div high radix;
             low1 = floor_div modv radix;
             str1 = digit_toString (js_rem modv radix) @ str
         in if high1 = 0 \<and> low1 = 0 then Some (Inr str1)
            else toNumberString_loop radix high1 low1 str1))"

definition toNumberString :: "int list \<Rightarrow> int option \<Rightarrow> (js_error + string) option" where
  "toNumberString buffer radix =
     (let high = readInt32 buffer 0;
          low = readInt32 buffer 4;
          str = [];
          radix = (case radix of None \<Rightarrow> 10 | Some r \<Rightarrow> r)
      in toNumberString_loop radix high low str)"

subsection \<open>Reference definitions: the value of a hexadecimal string, decimal numerals\<close>

text \<open>
  These follow the specification's words, not the code: the hexadecimal digits by an
  explicit table, the value of a string as a base-16 big-endian number, and the
  decimal numeral of a natural number.
\<close>

definition hex_table :: "(char \<times> nat) list" where
  "hex_table =
     [(CHR ''0'', 0), (CHR ''1'', 1), (CHR ''2'', 2), (CHR ''3'', 3), (CHR ''4'', 4),
      (CHR ''5'', 5), (CHR ''6'', 6), (CHR ''7'', 7), (CHR ''8'', 8), (CHR ''9'', 9),
      (CHR ''a'', 10), (CHR ''b'', 11), (CHR ''c'', 12), (CHR ''d'', 13), (CHR ''e'', 14),
      (CHR ''f'', 15),
      (CHR ''A'', 10), (CHR ''B'', 11), (CHR ''C'', 12), (CHR ''D'', 13), (CHR ''E'', 14),
      (CHR ''F'', 15)]"

definition is_hex_digit :: "char \<Rightarrow> bool" where
  "is_hex_digit c = (map_of hex_table c \<noteq> None)"

definition well_formed_hex :: "string \<Rightarrow> bool" where
  "well_formed_hex h = list_all is_hex_digit h"

definition hex_digit_of :: "char \<Rightarrow> nat" where
  "hex_digit_of c = (case map_of hex_table c of None \<Rightarrow> 0 | Some d \<Rightarrow> d)"

definition hex_value :: "string \<Rightarrow> nat" where
  "hex_value h = foldl (\<lambda>acc c. 16 * acc + hex_digit_of c) 0 h"

definition decimal_digit :: "nat \<Rightarrow> char" where
  "decimal_digit d = ''0123456789'' ! d"

fun decimal_of_nat :: "nat \<Rightarrow> string" where
  "decimal_of_nat n =
     (if n < 10 then [decimal_digit n]
      else decimal_of_nat (n div 10) @ [decimal_digit (n mod 10)])"

definition decimal_digit_value :: "char \<Rightarrow> nat" where
  "decimal_digit_value c = of_char c - 48"

definition decimal_value :: "string \<Rightarrow> nat" where
  "decimal_value s = foldl (\<lambda>acc c. 10 * acc + decimal_digit_value c) 0 s"

definition no_leading_zeros :: "string \<Rightarrow> bool" where
  "no_leading_zeros s = (s \<noteq> [] \<and> (s = ''0'' \<or> hd s \<noteq> CHR ''0''))"

section \<open>Log records, configuration and the shared logger (\<^verbatim>\<open>base-logger.ts\<close>)\<close>

text \<open>
  A \<^verbatim>\<open>LogRecord\<close> is a JavaScript object: its seven declared fields, and in
  \<open>properties\<close> whatever else has been set on it (the trace fields of
  \<^verbatim>\<open>injectTrace\<close>). A \<^verbatim>\<open>SlackMessage\<close> is a \<^verbatim>\<open>LogRecord\<close> with a colour.
\<close>

record LogRecord =
  source :: string
  service :: string
  env :: string
  level :: string
  message :: string
  dateTime :: string
  time :: string
  properties :: "(string \<times> string) list"

record SlackMessage = LogRecord +
  color :: string

datatype LogPrefix = LogPrefix_debug | LogPrefix_info | LogPrefix_warning | LogPrefix_error

fun LogPrefix_value :: "LogPrefix \<Rightarrow> string" where
  "LogPrefix_value LogPrefix_debug = ''APP DEBUG:''"
| "LogPrefix_value LogPrefix_info = ''APP INFO:''"
| "LogPrefix_value LogPrefix_warning = ''APP WARNING:''"
| "LogPrefix_value LogPrefix_error = ''APP ERROR:''"

text \<open>The values of the enum \<^verbatim>\<open>LogDateTimeZone\<close>.\<close>

definition LogDateTimeZone_utc :: string where "LogDateTimeZone_utc = ''utc''"
definition LogDateTimeZone_local :: string where "LogDateTimeZone_local = ''local''"
definition LogDateTimeZone_est :: string where "LogDateTimeZone_est = ''America/New_York''"
definition LogDateTimeZone_pst :: string where "LogDateTimeZone_pst = ''America/Los_Angeles''"

text \<open>
  \<^verbatim>\<open>LoggerConfig\<close>: every option may be absent. The record a sink works on is the
  parameter \<open>'r\<close>, since the Slack sink hands its \<^verbatim>\<open>SlackMessage\<close> to the injector.
\<close>

record 'r LoggerConfig =
  logDateTimeZone :: "string option"
  useJsonFormat :: "bool option"
  logInjector :: "('r \<Rightarrow> 'r) option"
  enableOtelToDatadogTraceConversion :: "bool option"

text \<open>
  What \<^verbatim>\<open>ConfigurationManager.getConfig\<close> returns for the three keys the logger reads;
  \<open>None\<close> is \<^verbatim>\<open>null\<close>.
\<close>

record ConfigurationManager =
  config_package_name :: "string option"
  config_package_dot_name :: "string option"
  config_env :: "string option"

text \<open>The private fields of \<^verbatim>\<open>BaseLogger\<close>, without their leading underscore.\<close>

record 'r BaseLogger =
  p_source :: string
  p_service :: string
  p_env :: string
  p_logDateTimeZone :: string
  p_useJsonFormat :: bool
  p_logInjector :: "('r \<Rightarrow> 'r) option"
  p_enableOtelToDatadogTraceConversion :: bool

text \<open>\<^verbatim>\<open>String.prototype.toLowerCase\<close> on the ASCII letters.\<close>

definition toLowerCase_char :: "char \<Rightarrow> char" where
  "toLowerCase_char c =
     (let n = (of_char c :: nat) in if 65 \<le> n \<and> n \<le> 90 then char_of (n + 32) else c)"

definition toLowerCase :: "string \<Rightarrow> string" where
  "toLowerCase s = map toLowerCase_char s"

definition isWhiteSpace_char :: "char \<Rightarrow> bool" where
  "isWhiteSpace_char c = ((of_char c :: nat) \<in> {9, 10, 11, 12, 13, 32})"

definition isEmptyOrWhiteSpace :: "string \<Rightarrow> bool" where
  "isEmptyOrWhiteSpace s = list_all isWhiteSpace_char s"

definition BaseLogger_constructor ::
  "ConfigurationManager \<Rightarrow> ('r, 'z) LoggerConfig_scheme option \<Rightarrow> 'r BaseLogger" where
  "BaseLogger_constructor manager config =
     \<lparr> p_source = ''nodejs'',
       p_service =
         (case config_package_name manager of
            Some n \<Rightarrow> n
          | None \<Rightarrow> (case config_package_dot_name manager of Some n \<Rightarrow> n | None \<Rightarrow> ''n-log'')),
       p_env = (case config_env manager of Some e \<Rightarrow> toLowerCase e | None \<Rightarrow> ''dev''),
       p_logDateTimeZone =
         (case Option.bind config logDateTimeZone of
            None \<Rightarrow> LogDateTimeZone_utc
          | Some z \<Rightarrow>
              if z = [] \<or> isEmptyOrWhiteSpace z
                 \<or> z \<notin> set [LogDateTimeZone_utc, LogDateTimeZone_local,
                               LogDateTimeZone_est, LogDateTimeZone_pst]
              then LogDateTimeZone_utc else z),
       p_useJsonFormat = (Option.bind config useJsonFormat = Some True),
       p_logInjector = Option.bind config logInjector,
       p_enableOtelToDatadogTraceConversion =
         (Option.bind config enableOtelToDatadogTraceConversion = Some True) \<rparr>"

text \<open>
  The clock of one logging call: what luxon renders for "now" in each zone, what
  \<^verbatim>\<open>new Date().toISOString()\<close> gives, and \<^verbatim>\<open>Date.now()\<close> in milliseconds.
\<close>

record clock =
  now_utc :: string
  now_local :: string
  now_est :: string
  now_pst :: string
  now_iso :: string
  now_ms :: int

definition getDateTime :: "'r BaseLogger \<Rightarrow> clock \<Rightarrow> string" where
  "getDateTime logger clk =
     (if p_logDateTimeZone logger = LogDateTimeZone_utc then now_utc clk
      else if p_logDateTimeZone logger = LogDateTimeZone_local then now_local clk
      else if p_logDateTimeZone logger = LogDateTimeZone_est then now_est clk
      else if p_logDateTimeZone logger = LogDateTimeZone_pst then now_pst clk
      else now_utc clk)"

subsection \<open>Extracting the message of an error\<close>

text \<open>
  The values a caller can hand to \<^verbatim>\<open>getErrorMessage\<close>, by what the three branches
  of its \<^verbatim>\<open>try\<close> block do with them: an \<^verbatim>\<open>Exception\<close> with the outcome of its
  \<^verbatim>\<open>toString()\<close>, an \<^verbatim>\<open>Error\<close> with the outcome of reading its \<^verbatim>\<open>stack\<close>, any other
  object with the outcome of its \<^verbatim>\<open>toString()\<close>, a string, \<^verbatim>\<open>null\<close> and
  \<^verbatim>\<open>undefined\<close>. An outcome is the string returned or the error thrown.
\<close>

datatype js_value =
    ExceptionValue "js_error + string"
  | ErrorValue "js_error + string"
  | ObjectValue "js_error + string"
  | StringValue string
  | NullValue
  | UndefinedValue

datatype console_arg = Text string | Caught js_error

datatype console_call = ConsoleInfo console_arg | ConsoleWarn console_arg | ConsoleError console_arg

definition errorWhileLogging :: string where
  "errorWhileLogging =
     ''There was an error while attempting to log another error. Check earlier logs for a warning.''"

text \<open>The \<^verbatim>\<open>try\<close> block: the message, or the error it throws.\<close>

fun getErrorMessage_try :: "js_value \<Rightarrow> js_error + string" where
  "getErrorMessage_try (ExceptionValue toString) = toString"
| "getErrorMessage_try (ErrorValue stack) = stack"
| "getErrorMessage_try (ObjectValue toString) = toString"
| "getErrorMessage_try (StringValue s) = Inr s"
| "getErrorMessage_try NullValue = Inl TypeError"
| "getErrorMessage_try UndefinedValue = Inl TypeError"

text \<open>
  \<^verbatim>\<open>getErrorMessage\<close> with the console it writes to: \<open>Inl\<close> would be an exception
  leaving the method, \<open>Inr\<close> is the message returned and the console afterwards.
\<close>

definition getErrorMessage ::
  "js_value \<Rightarrow> console_call list \<Rightarrow> js_error + (string \<times> console_call list)" where
  "getErrorMessage exn console =
     (case getErrorMessage_try exn of
        Inr logMessage \<Rightarrow> Inr (logMessage, console)
      | Inl error \<Rightarrow> Inr (errorWhileLogging, console @ [ConsoleWarn (Caught error)]))"

subsection \<open>Trace injection\<close>

text \<open>
  The ambient span of \<^verbatim>\<open>@opentelemetry/api\<close>: its context, and whether
  \<^verbatim>\<open>isSpanContextValid\<close> accepts it.
\<close>

record span =
  traceId :: string
  spanId :: string
  traceFlags :: nat
  contextValid :: bool

text \<open>\<^verbatim>\<open>traceFlags.toString(16)\<close>.\<close>

fun toString16 :: "nat \<Rightarrow> string" where
  "toString16 n =
     (if n < 16 then [digit_char (int n)]
      else toString16 (n div 16) @ [digit_char (int (n mod 16))])"

text \<open>
  The string \<^verbatim>\<open>_toNumberString\<close> returns. On the buffers of \<^verbatim>\<open>_fromString\<close> it
  always returns one (\<open>toNumberString_fromString_returns\<close>), so the other branch is
  never taken.
\<close>

definition returned_string :: "(js_error + string) option \<Rightarrow> string" where
  "returned_string r = (case r of Some (Inr s) \<Rightarrow> s | _ \<Rightarrow> [])"

definition set_property :: "string \<Rightarrow> string \<Rightarrow> ('z LogRecord_scheme) \<Rightarrow> 'z LogRecord_scheme" where
  "set_property k v logRecord = logRecord\<lparr>properties := AList.update k v (properties logRecord)\<rparr>"

text \<open>
  \<^verbatim>\<open>injectTrace(log, isError)\<close>: the record with the trace fields, and the status
  message set on the span (\<open>None\<close> when \<^verbatim>\<open>setStatus\<close> is not called).
\<close>

definition injectTrace ::
  "'r BaseLogger \<Rightarrow> span option \<Rightarrow> 'z LogRecord_scheme \<Rightarrow> bool
   \<Rightarrow> 'z LogRecord_scheme \<times> string option" where
  "injectTrace logger active logRecord isError =
     (case active of
        None \<Rightarrow> (logRecord, None)
      | Some sp \<Rightarrow>
          if contextValid sp then
            (let log1 = set_property ''trace_id'' (traceId sp) logRecord;
                 log2 = set_property ''span_id'' (spanId sp) log1;
                 log3 = set_property ''trace_flags'' (''0'' @ toString16 (traceFlags sp)) log2;
                 status = (if isError then Some (message log3) else None);
                 log4 =
                   (if p_enableOtelToDatadogTraceConversion logger then
                      (let traceIdEnd = drop (length (traceId sp) div 2) (traceId sp);
                           log4 = set_property ''dd.trace_id''
                                    (returned_string (toNumberString (fromString traceIdEnd 16) None))
                                    log3
                       in set_property ''dd.span_id''
                            (returned_string (toNumberString (fromString (spanId sp) 16) None))
                            log4)
                    else log3)
             in (log4, status))
          else (logRecord, None))"


section \<open>What the sinks take from outside the repository\<close>

text \<open>
  The file system calls a sink makes, and the functions of Node, of
  \<^verbatim>\<open>n-defensive\<close>, of chalk and of the tracing API it relies on. They are parameters of
  the model: every theorem holds for all of them.
  \<^item> \<open>ensureHasValue\<close>: whether \<^verbatim>\<open>given(s, ...).ensureHasValue().ensureIsString()\<close>
    accepts the string \<open>s\<close>;
  \<^item> \<open>isAbsolute\<close>, \<open>existsSync\<close>: \<^verbatim>\<open>Path.isAbsolute\<close> and \<^verbatim>\<open>Fs.existsSync\<close>;
  \<^item> \<open>parseInt_exponent\<close>: \<^verbatim>\<open>Number.parseInt\<close> of the rendering of a number that
    \<^verbatim>\<open>toString\<close> writes in exponent notation (\<open>None\<close> is \<^verbatim>\<open>NaN\<close>);
  \<^item> \<open>stringify\<close>: \<^verbatim>\<open>JSON.stringify\<close>;
  \<^item> \<open>fs_fault\<close>: the error a file system call fails with, \<open>None\<close> when it succeeds;
  \<^item> \<open>active_span\<close>: the span \<^verbatim>\<open>trace.getSpan(context.active())\<close> finds.
  The injector and the filter a caller configures, and \<^verbatim>\<open>JSON.stringify\<close>, are total
  functions here: one that throws is not represented.
\<close>

datatype fs_op =
    Mkdir string
  | AppendFile string string
  | Readdir
  | Stat string
  | Unlink string

record externals =
  ensureHasValue :: "string \<Rightarrow> bool"
  isAbsolute :: "string \<Rightarrow> bool"
  existsSync :: "string \<Rightarrow> bool"
  parseInt_exponent :: "rat \<Rightarrow> int option"
  stringify :: "LogRecord \<Rightarrow> string"
  fs_fault :: "fs_op \<Rightarrow> js_error option"
  active_span :: "span option"
  chalk_bold :: "string \<Rightarrow> string"
  chalk_blue :: "string \<Rightarrow> string"
  chalk_yellow :: "string \<Rightarrow> string"
  chalk_red :: "string \<Rightarrow> string"

text \<open>
  A JavaScript number that need not be an integer: a finite double is a rational.
\<close>

datatype js_number = Num rat | NaN | PosInfinity | NegInfinity

text \<open>
  \<^verbatim>\<open>ensureIsNumber()\<close> of \<^verbatim>\<open>n-defensive\<close> accepts the finite numbers only.
\<close>

fun ensureIsNumber :: "js_number \<Rightarrow> bool" where
  "ensureIsNumber (Num x) = True"
| "ensureIsNumber NaN = False"
| "ensureIsNumber PosInfinity = False"
| "ensureIsNumber NegInfinity = False"

text \<open>The check \<^verbatim>\<open>t => t > 0\<close>; a comparison with \<^verbatim>\<open>NaN\<close> is false.\<close>

fun greater_than_zero :: "js_number \<Rightarrow> bool" where
  "greater_than_zero (Num x) = (0 < x)"
| "greater_than_zero PosInfinity = True"
| "greater_than_zero NaN = False"
| "greater_than_zero NegInfinity = False"

text \<open>
  \<^verbatim>\<open>Number.parseInt(t.toString())\<close>, \<open>None\<close> for \<^verbatim>\<open>NaN\<close>. \<^verbatim>\<open>toString\<close> writes a
  number from \<open>10^-6\<close> up to \<open>10^21\<close> in decimal notation, of which \<^verbatim>\<open>parseInt\<close>
  reads the digits before the point; \<^verbatim>\<open>"Infinity"\<close> and \<^verbatim>\<open>"NaN"\<close> have no digit.
\<close>

fun parseInt_toString :: "externals \<Rightarrow> js_number \<Rightarrow> int option" where
  "parseInt_toString ext (Num x) =
     (if x = 0 then Some 0
      else if 1 / 1000000 \<le> \<bar>x\<bar> \<and> \<bar>x\<bar> < 10 ^ 21
      then Some (if 0 \<le> x then \<lfloor>x\<rfloor> else \<lceil>x\<rceil>)
      else parseInt_exponent ext x)"
| "parseInt_toString ext NaN = None"
| "parseInt_toString ext PosInfinity = None"
| "parseInt_toString ext NegInfinity = None"

section \<open>The file sink (\<^verbatim>\<open>file-logger.ts\<close>)\<close>

record FileLoggerConfig = "LogRecord LoggerConfig" +
  logDirPath :: string
  retentionDays :: js_number

text \<open>
  The object: the fields of the base class, the two of the constructor, the time of
  the last purge and whether the mutex is held. \<open>p_retentionDays\<close> is the result of
  \<^verbatim>\<open>Number.parseInt\<close>: an integer, or \<open>None\<close> for \<^verbatim>\<open>NaN\<close>, which the
  constructor stores for no finite count that \<^verbatim>\<open>toString\<close> writes in decimal
  notation.
\<close>

record FileLogger =
  base :: "LogRecord BaseLogger"
  p_logDirPath :: string
  p_retentionDays :: "int option"
  p_lastPurgedAt :: int
  p_mutex_locked :: bool

text \<open>
  The constructor: the error it throws, or the object and the file system calls it
  made.
\<close>

definition FileLogger_constructor ::
  "externals \<Rightarrow> ConfigurationManager \<Rightarrow> FileLoggerConfig
   \<Rightarrow> js_error + (FileLogger \<times> fs_op list)" where
  "FileLogger_constructor ext manager config =
     (let super = BaseLogger_constructor manager (Some config) in
      if \<not> (ensureHasValue ext (logDirPath config) \<and> isAbsolute ext (logDirPath config))
      then Inl (ArgumentError ''logDirPath'')
      else if \<not> (ensureIsNumber (retentionDays config) \<and> greater_than_zero (retentionDays config))
      then Inl (ArgumentError ''retentionDays'')
      else
        (let this = \<lparr> base = super,
                       p_logDirPath = logDirPath config,
                       p_retentionDays = parseInt_toString ext (retentionDays config),
                       p_lastPurgedAt = 0,
                       p_mutex_locked = False \<rparr>
         in if existsSync ext (logDirPath config) then Inr (this, [])
            else (case fs_fault ext (Mkdir (logDirPath config)) of
                    Some e \<Rightarrow> Inl e
                  | None \<Rightarrow> Inr (this, [Mkdir (logDirPath config)]))))"

subsection \<open>The log directory\<close>

text \<open>
  The directory \<^verbatim>\<open>_logDirPath\<close> is a list of named entries;
  \<^verbatim>\<open>Path.join(this._logDirPath, name)\<close> designates the entry \<open>name\<close>. Every call is
  recorded in \<open>fs_calls\<close>, whether it fails or not. The rest of the process a sink
  acts on is in the same record: \<open>console\<close> is the diagnostic side channel,
  \<open>span_status\<close> the error status set on the active span, \<open>stdout\<close> what has been
  written to \<^verbatim>\<open>process.stdout\<close>, \<open>outbound\<close> the calls of \<^verbatim>\<open>chat.postMessage\<close>
  and \<open>fallback_calls\<close> the calls on the fallback logger of a Slack sink.
\<close>

record attachment =
  attachment_color :: string
  section_text :: string
  context_text :: string

record payload =
  username :: string
  icon_emoji :: "string option"
  icon_url :: "string option"
  channel :: string
  payload_text :: string
  attachments :: "attachment list"

datatype fallback_call =
    FallbackDebug string
  | FallbackInfo string
  | FallbackWarning console_arg
  | FallbackError console_arg

record fs_entry =
  isFile :: bool
  birthtime :: int
  content :: string

record world =
  directory :: "(string \<times> fs_entry) list"
  fs_calls :: "fs_op list"
  console :: "console_call list"
  span_status :: "string option"
  stdout :: "string list"
  outbound :: "payload list"
  fallback_calls :: "fallback_call list"

definition appendFile ::
  "externals \<Rightarrow> clock \<Rightarrow> string \<Rightarrow> string \<Rightarrow> world \<Rightarrow> js_error option \<times> world" where
  "appendFile ext clk file data w =
     (let w1 = w\<lparr>fs_calls := fs_calls w @ [AppendFile file data]\<rparr> in
      case fs_fault ext (AppendFile file data) of
        Some e \<Rightarrow> (Some e, w1)
      | None \<Rightarrow>
          (case map_of (directory w1) file of
             None \<Rightarrow>
               (None, w1\<lparr>directory := directory w1 @
                         [(file, \<lparr>isFile = True, birthtime = now_ms clk, content = data\<rparr>)]\<rparr>)
           | Some entry \<Rightarrow>
               if isFile entry
               then (None, w1\<lparr>directory :=
                              AList.update file (entry\<lparr>content := content entry @ data\<rparr>)
                                (directory w1)\<rparr>)
               else (Some (Thrown ''EISDIR''), w1)))"

definition readdir :: "externals \<Rightarrow> world \<Rightarrow> (js_error + string list) \<times> world" where
  "readdir ext w =
     (let w1 = w\<lparr>fs_calls := fs_calls w @ [Readdir]\<rparr> in
      case fs_fault ext Readdir of
        Some e \<Rightarrow> (Inl e, w1)
      | None \<Rightarrow> (Inr (map fst (directory w1)), w1))"

definition stat :: "externals \<Rightarrow> string \<Rightarrow> world \<Rightarrow> (js_error + fs_entry) \<times> world" where
  "stat ext file w =
     (let w1 = w\<lparr>fs_calls := fs_calls w @ [Stat file]\<rparr> in
      case fs_fault ext (Stat file) of
        Some e \<Rightarrow> (Inl e, w1)
      | None \<Rightarrow>
          (case map_of (directory w1) file of
             None \<Rightarrow> (Inl (Thrown ''ENOENT''), w1)
           | Some entry \<Rightarrow> (Inr entry, w1)))"

definition unlink :: "externals \<Rightarrow> string \<Rightarrow> world \<Rightarrow> js_error option \<times> world" where
  "unlink ext file w =
     (let w1 = w\<lparr>fs_calls := fs_calls w @ [Unlink file]\<rparr> in
      case fs_fault ext (Unlink file) of
        Some e \<Rightarrow> (Some e, w1)
      | None \<Rightarrow>
          (case map_of (directory w1) file of
             None \<Rightarrow> (Some (Thrown ''ENOENT''), w1)
           | Some entry \<Rightarrow> (None, w1\<lparr>directory := AList.delete file (directory w1)\<rparr>)))"

subsection \<open>Purging\<close>

text \<open>
  \<^verbatim>\<open>Duration.fromDays(d).toMilliSeconds()\<close> of \<^verbatim>\<open>n-util\<close>: the days in
  milliseconds. For a count that is \<^verbatim>\<open>NaN\<close>, where \<^verbatim>\<open>fromDays\<close> throws, there is no
  value here and the two comparisons below are false; the constructor stores no such
  count for a number \<^verbatim>\<open>toString\<close> writes in decimal notation, and every statement
  about purging is about a stored count.
\<close>

definition fromDays_toMilliSeconds :: "int option \<Rightarrow> int option" where
  "fromDays_toMilliSeconds days = map_option (\<lambda>d. d * 24 * 60 * 60 * 1000) days"

text \<open>\<^verbatim>\<open>a < now - ms\<close> and \<^verbatim>\<open>a > now - ms\<close>; false when \<open>ms\<close> is \<^verbatim>\<open>NaN\<close>.\<close>

definition lt_minus :: "int \<Rightarrow> int \<Rightarrow> int option \<Rightarrow> bool" where
  "lt_minus a now ms = (case ms of None \<Rightarrow> False | Some r \<Rightarrow> a < now - r)"

definition gt_minus :: "int \<Rightarrow> int \<Rightarrow> int option \<Rightarrow> bool" where
  "gt_minus a now ms = (case ms of None \<Rightarrow> False | Some r \<Rightarrow> a > now - r)"

text \<open>
  \<^verbatim>\<open>forEachAsync(f, 1)\<close> of \<^verbatim>\<open>n-ext\<close>: one element after the other, in order; the
  first rejection ends the iteration and is the rejection of the whole.
\<close>

fun forEachAsync ::
  "('a \<Rightarrow> 'w \<Rightarrow> js_error option \<times> 'w) \<Rightarrow> 'a list \<Rightarrow> 'w \<Rightarrow> js_error option \<times> 'w" where
  "forEachAsync f [] w = (None, w)"
| "forEachAsync f (x # xs) w =
     (case f x w of
        (Some e, w1) \<Rightarrow> (Some e, w1)
      | (None, w1) \<Rightarrow> forEachAsync f xs w1)"

text \<open>The body of the callback of \<^verbatim>\<open>_purgeLogs\<close>, for one file name.\<close>

definition purgeLogs_file ::
  "externals \<Rightarrow> FileLogger \<Rightarrow> int \<Rightarrow> string \<Rightarrow> world \<Rightarrow> js_error option \<times> world" where
  "purgeLogs_file ext this now file w =
     (case stat ext file w of
        (Inl e, w1) \<Rightarrow> (Some e, w1)
      | (Inr stats, w1) \<Rightarrow>
          if isFile stats
             \<and> lt_minus (birthtime stats) now (fromDays_toMilliSeconds (p_retentionDays this))
          then unlink ext file w1
          else (None, w1))"

definition purgeLogs ::
  "externals \<Rightarrow> clock \<Rightarrow> FileLogger \<times> world
   \<Rightarrow> js_error option \<times> FileLogger \<times> world" where
  "purgeLogs ext clk state =
     (let (this, w) = state;
          now = now_ms clk
      in if p_lastPurgedAt this \<noteq> 0
            \<and> gt_minus (p_lastPurgedAt this) now (fromDays_toMilliSeconds (p_retentionDays this))
         then (None, this, w)
         else
           (case readdir ext w of
              (Inl e, w1) \<Rightarrow> (Some e, this, w1)
            | (Inr files, w1) \<Rightarrow>
                (case forEachAsync (purgeLogs_file ext this now) files w1 of
                   (Some e, w2) \<Rightarrow> (Some e, this, w2)
                 | (None, w2) \<Rightarrow> (None, this\<lparr>p_lastPurgedAt := now\<rparr>, w2))))"

subsection \<open>Writing\<close>

definition level_of :: "LogPrefix \<Rightarrow> string" where
  "level_of status =
     (case status of
        LogPrefix_debug \<Rightarrow> ''Debug''
      | LogPrefix_info \<Rightarrow> ''Info''
      | LogPrefix_warning \<Rightarrow> ''Warn''
      | LogPrefix_error \<Rightarrow> ''Error'')"

text \<open>
  The part of \<^verbatim>\<open>_writeToLog\<close> before the lock: the line to write, and the status
  set on the active span.
\<close>

definition writeToLog_line ::
  "externals \<Rightarrow> clock \<Rightarrow> FileLogger \<Rightarrow> LogPrefix \<Rightarrow> string \<Rightarrow> string \<times> string option" where
  "writeToLog_line ext clk this status msg =
     (let dateTime = getDateTime (base this) clk in
      if p_useJsonFormat (base this) then
        (let level = level_of status;
             logRecord = \<lparr> source = p_source (base this),
                           service = p_service (base this),
                           env = p_env (base this),
                           level = level,
                           message = msg,
                           dateTime = dateTime,
                           time = now_iso clk,
                           properties = [] \<rparr>;
             (logRecord, status_set) =
               injectTrace (base this) (active_span ext) logRecord (level = ''Error'');
             logRecord = (case p_logInjector (base this) of
                            Some inject \<Rightarrow> inject logRecord
                          | None \<Rightarrow> logRecord)
         in (stringify ext logRecord, status_set))
      else (dateTime @ '' '' @ LogPrefix_value status @ '' '' @ msg, None))"

text \<open>
  \<^verbatim>\<open>_writeToLog\<close>. The first component of the result is the rejection of the
  returned promise, \<open>None\<close> when it resolves. \<^verbatim>\<open>this._mutex.lock()\<close> waits until the
  mutex is free, so a call proceeds from a state where it is.
\<close>

definition writeToLog ::
  "externals \<Rightarrow> clock \<Rightarrow> LogPrefix \<Rightarrow> string \<Rightarrow> FileLogger \<times> world
   \<Rightarrow> js_error option \<times> FileLogger \<times> world" where
  "writeToLog ext clk status msg state =
     (let (this, w) = state in
      if \<not> ensureHasValue ext msg then (Some (ArgumentError ''message''), this, w)
      else
        (let dateTime = getDateTime (base this) clk;
             (line, status_set) = writeToLog_line ext clk this status msg;
             w = (case status_set of None \<Rightarrow> w | Some s \<Rightarrow> w\<lparr>span_status := Some s\<rparr>);
             logFileName = take 13 dateTime @ ''.log'';
             this = this\<lparr>p_mutex_locked := True\<rparr>;
             (failure, this, w) =
               (case appendFile ext clk logFileName (CHR 0x0A # line) w of
                  (Some e, w1) \<Rightarrow> (Some e, this, w1)
                | (None, w1) \<Rightarrow> purgeLogs ext clk (this, w1));
             w = (case failure of
                    Some error \<Rightarrow> w\<lparr>console := console w @ [ConsoleError (Caught error)]\<rparr>
                  | None \<Rightarrow> w);
             this = this\<lparr>p_mutex_locked := False\<rparr>
         in (None, this, w)))"

definition FileLogger_logDebug ::
  "externals \<Rightarrow> clock \<Rightarrow> string \<Rightarrow> FileLogger \<times> world
   \<Rightarrow> js_error option \<times> FileLogger \<times> world" where
  "FileLogger_logDebug ext clk debug state =
     (if p_env (base (fst state)) = ''dev''
      then writeToLog ext clk LogPrefix_debug debug state
      else (None, state))"

definition FileLogger_logInfo ::
  "externals \<Rightarrow> clock \<Rightarrow> string \<Rightarrow> FileLogger \<times> world
   \<Rightarrow> js_error option \<times> FileLogger \<times> world" where
  "FileLogger_logInfo ext clk info state = writeToLog ext clk LogPrefix_info info state"

definition FileLogger_logWarning ::
  "externals \<Rightarrow> clock \<Rightarrow> js_value \<Rightarrow> FileLogger \<times> world
   \<Rightarrow> js_error option \<times> FileLogger \<times> world" where
  "FileLogger_logWarning ext clk warning state =
     (let (this, w) = state in
      case getErrorMessage warning (console w) of
        Inl e \<Rightarrow> (Some e, this, w)
      | Inr (msg, console1) \<Rightarrow>
          writeToLog ext clk LogPrefix_warning msg (this, w\<lparr>console := console1\<rparr>))"

definition FileLogger_logError ::
  "externals \<Rightarrow> clock \<Rightarrow> js_value \<Rightarrow> FileLogger \<times> world
   \<Rightarrow> js_error option \<times> FileLogger \<times> world" where
  "FileLogger_logError ext clk error state =
     (let (this, w) = state in
      case getErrorMessage error (console w) of
        Inl e \<Rightarrow> (Some e, this, w)
      | Inr (msg, console1) \<Rightarrow>
          writeToLog ext clk LogPrefix_error msg (this, w\<lparr>console := console1\<rparr>))"


section \<open>The console sink (\<^verbatim>\<open>console-logger.ts\<close>)\<close>

text \<open>
  The JSON branch the four operations share: the record is built, the trace is
  injected, the injector is applied and the result is serialised.
\<close>

definition ConsoleLogger_json ::
  "externals \<Rightarrow> clock \<Rightarrow> LogRecord BaseLogger \<Rightarrow> string \<Rightarrow> string \<Rightarrow> bool
   \<Rightarrow> string \<times> string option" where
  "ConsoleLogger_json ext clk this lvl msg isError =
     (let logRecord = \<lparr> source = p_source this,
                         service = p_service this,
                         env = p_env this,
                         level = lvl,
                         message = msg,
                         dateTime = getDateTime this clk,
                         time = now_iso clk,
                         properties = [] \<rparr>;
          (logRecord, status_set) = injectTrace this (active_span ext) logRecord isError;
          logRecord = (case p_logInjector this of
                         Some inject \<Rightarrow> inject logRecord
                       | None \<Rightarrow> logRecord)
      in (stringify ext logRecord @ [CHR 0x0A], status_set))"

definition stream_write :: "string \<times> string option \<Rightarrow> world \<Rightarrow> world" where
  "stream_write out w =
     (let w1 = (case snd out of None \<Rightarrow> w | Some s \<Rightarrow> w\<lparr>span_status := Some s\<rparr>)
      in w1\<lparr>stdout := stdout w1 @ [fst out]\<rparr>)"

definition ConsoleLogger_logDebug ::
  "externals \<Rightarrow> clock \<Rightarrow> string \<Rightarrow> LogRecord BaseLogger \<times> world \<Rightarrow> js_error option \<times> world" where
  "ConsoleLogger_logDebug ext clk debug state =
     (let (this, w) = state in
      if p_env this = ''dev'' then
        (if p_useJsonFormat this
         then (None, stream_write (ConsoleLogger_json ext clk this ''Debug'' debug False) w)
         else (None, stream_write
                 (getDateTime this clk @ '' '' @ LogPrefix_value LogPrefix_debug @ '' '' @ debug
                    @ [CHR 0x0A], None) w))
      else (None, w))"

definition ConsoleLogger_logInfo ::
  "externals \<Rightarrow> clock \<Rightarrow> string \<Rightarrow> LogRecord BaseLogger \<times> world \<Rightarrow> js_error option \<times> world" where
  "ConsoleLogger_logInfo ext clk info state =
     (let (this, w) = state in
      if p_useJsonFormat this
      then (None, stream_write (ConsoleLogger_json ext clk this ''Info'' info False) w)
      else (None, stream_write
              (chalk_blue ext (getDateTime this clk @ '' ''
                 @ chalk_bold ext (LogPrefix_value LogPrefix_info) @ '' '' @ info @ [CHR 0x0A]),
               None) w))"

definition ConsoleLogger_logWarning ::
  "externals \<Rightarrow> clock \<Rightarrow> js_value \<Rightarrow> LogRecord BaseLogger \<times> world \<Rightarrow> js_error option \<times> world" where
  "ConsoleLogger_logWarning ext clk warning state =
     (let (this, w) = state in
      case getErrorMessage warning (console w) of
        Inl e \<Rightarrow> (Some e, w)
      | Inr (msg, console1) \<Rightarrow>
          (let w1 = w\<lparr>console := console1\<rparr> in
           if p_useJsonFormat this
           then (None, stream_write (ConsoleLogger_json ext clk this ''Warn'' msg False) w1)
           else (None, stream_write
                   (chalk_yellow ext (getDateTime this clk @ '' ''
                      @ chalk_bold ext (LogPrefix_value LogPrefix_warning) @ '' '' @ msg
                      @ [CHR 0x0A]),
                    None) w1)))"

definition ConsoleLogger_logError ::
  "externals \<Rightarrow> clock \<Rightarrow> js_value \<Rightarrow> LogRecord BaseLogger \<times> world \<Rightarrow> js_error option \<times> world" where
  "ConsoleLogger_logError ext clk error state =
     (let (this, w) = state in
      case getErrorMessage error (console w) of
        Inl e \<Rightarrow> (Some e, w)
      | Inr (msg, console1) \<Rightarrow>
          (let w1 = w\<lparr>console := console1\<rparr> in
           if p_useJsonFormat this
           then (None, stream_write (ConsoleLogger_json ext clk this ''Error'' msg True) w1)
           else (None, stream_write
                   (chalk_red ext (getDateTime this clk @ '' ''
                      @ chalk_bold ext (LogPrefix_value LogPrefix_error) @ '' '' @ msg
                      @ [CHR 0x0A]),
                    None) w1)))"


section \<open>The Slack sink (\<^verbatim>\<open>slack-logger.ts\<close>)\<close>

text \<open>
  \<^verbatim>\<open>SlackLoggerConfig\<close> picks \<^verbatim>\<open>logDateTimeZone\<close> and \<^verbatim>\<open>logInjector\<close> from
  \<^verbatim>\<open>LoggerConfig\<close>: it has no \<^verbatim>\<open>useJsonFormat\<close>. A fallback logger is given by the
  outcome of each call on it: \<open>None\<close> when the promise it returns resolves, the
  error when it rejects.
\<close>

record SlackLoggerConfig =
  slack_logDateTimeZone :: "string option"
  slack_logInjector :: "(SlackMessage \<Rightarrow> SlackMessage) option"
  slackBotToken :: string
  slackBotChannel :: string
  slackUserName :: "string option"
  slackUserImage :: "string option"
  filter_levels :: "string list option"
  logFilter :: "(SlackMessage \<Rightarrow> bool) option"
  fallback :: "(fallback_call \<Rightarrow> js_error option) option"

record SlackLogger =
  slack_base :: "SlackMessage BaseLogger"
  p_includeInfo :: bool
  p_includeWarn :: bool
  p_includeError :: bool
  p_logFilter :: "SlackMessage \<Rightarrow> bool"
  p_fallbackLogger :: "(fallback_call \<Rightarrow> js_error option) option"
  p_channel :: string
  p_userName :: string
  p_userImage :: string
  p_userImageIsEmoji :: bool
  p_messages :: "SlackMessage list"
  p_timer_active :: bool
  p_isDisposed :: bool
  p_disposePromise :: "js_error option option"

definition trim :: "string \<Rightarrow> string" where
  "trim s = rev (dropWhile isWhiteSpace_char (rev (dropWhile isWhiteSpace_char s)))"

definition SlackLogger_constructor ::
  "externals \<Rightarrow> ConfigurationManager \<Rightarrow> SlackLoggerConfig \<Rightarrow> js_error + SlackLogger" where
  "SlackLogger_constructor ext manager config =
     (let super = BaseLogger_constructor manager
                    (Some \<lparr> logDateTimeZone = slack_logDateTimeZone config,
                             useJsonFormat = None,
                             logInjector = slack_logInjector config,
                             enableOtelToDatadogTraceConversion = None \<rparr>);
          allFilters = [''Info'', ''Warn'', ''Error''];
          filter_list = (case filter_levels config of None \<Rightarrow> allFilters | Some f \<Rightarrow> f);
          userName =
            (case slackUserName config of
               None \<Rightarrow> p_service super
             | Some n \<Rightarrow> if \<not> isEmptyOrWhiteSpace n then n else p_service super);
          userImage =
            (case slackUserImage config of
               None \<Rightarrow> '':robot_face:''
             | Some i \<Rightarrow> if \<not> isEmptyOrWhiteSpace i then trim i else '':robot_face:'')
      in if \<not> ensureHasValue ext (slackBotToken config) then Inl (ArgumentError ''slackBotToken'')
         else if \<not> ensureHasValue ext (slackBotChannel config)
         then Inl (ArgumentError ''slackBotChannel'')
         else if \<not> list_all (\<lambda>u. u \<in> set allFilters) filter_list then Inl (ArgumentError ''filter'')
         else Inr \<lparr> slack_base = super,
                    p_includeInfo = (''Info'' \<in> set filter_list),
                    p_includeWarn = (''Warn'' \<in> set filter_list),
                    p_includeError = (''Error'' \<in> set filter_list),
                    p_logFilter = (case logFilter config of None \<Rightarrow> (\<lambda>_. True) | Some f \<Rightarrow> f),
                    p_fallbackLogger = fallback config,
                    p_channel = slackBotChannel config,
                    p_userName = userName,
                    p_userImage = userImage,
                    p_userImageIsEmoji =
                      (userImage \<noteq> [] \<and> hd userImage = CHR '':'' \<and> last userImage = CHR '':''),
                    p_messages = [],
                    p_timer_active = True,
                    p_isDisposed = False,
                    p_disposePromise = None \<rparr>)"

text \<open>\<^verbatim>\<open>this._messages.push(log)\<close>.\<close>

definition push :: "SlackMessage \<Rightarrow> SlackLogger \<Rightarrow> SlackLogger" where
  "push logRecord this = this\<lparr>p_messages := p_messages this @ [logRecord]\<rparr>"

definition SlackLogger_record ::
  "SlackLogger \<Rightarrow> clock \<Rightarrow> string \<Rightarrow> string \<Rightarrow> string \<Rightarrow> SlackMessage" where
  "SlackLogger_record this clk lvl msg col =
     \<lparr> source = p_source (slack_base this),
       service = p_service (slack_base this),
       env = p_env (slack_base this),
       level = lvl,
       message = msg,
       dateTime = getDateTime (slack_base this) clk,
       time = now_iso clk,
       properties = [],
       color = col \<rparr>"

definition apply_logInjector :: "SlackLogger \<Rightarrow> SlackMessage \<Rightarrow> SlackMessage" where
  "apply_logInjector this logRecord =
     (case p_logInjector (slack_base this) of
        Some inject \<Rightarrow> inject logRecord
      | None \<Rightarrow> logRecord)"

definition SlackLogger_logDebug ::
  "clock \<Rightarrow> string \<Rightarrow> SlackLogger \<times> world \<Rightarrow> js_error option \<times> SlackLogger \<times> world" where
  "SlackLogger_logDebug clk debug state =
     (let (this, w) = state in
      if p_env (slack_base this) = ''dev'' then
        (let logRecord = SlackLogger_record this clk ''Debug'' debug ''#F8F8F8'';
             logRecord = apply_logInjector this logRecord
         in (None, push logRecord this, w))
      else (None, this, w))"

definition SlackLogger_logInfo ::
  "clock \<Rightarrow> string \<Rightarrow> SlackLogger \<times> world \<Rightarrow> js_error option \<times> SlackLogger \<times> world" where
  "SlackLogger_logInfo clk info state =
     (let (this, w) = state in
      if \<not> p_includeInfo this then (None, this, w)
      else
        (let logRecord = SlackLogger_record this clk ''Info'' info ''#259D2F'' in
         if \<not> p_logFilter this logRecord then (None, this, w)
         else (let logRecord = apply_logInjector this logRecord
               in (None, push logRecord this, w))))"

definition SlackLogger_logWarning ::
  "clock \<Rightarrow> js_value \<Rightarrow> SlackLogger \<times> world \<Rightarrow> js_error option \<times> SlackLogger \<times> world" where
  "SlackLogger_logWarning clk warning state =
     (let (this, w) = state in
      if \<not> p_includeWarn this then (None, this, w)
      else
        (case getErrorMessage warning (console w) of
           Inl e \<Rightarrow> (Some e, this, w)
         | Inr (msg, console1) \<Rightarrow>
             (let w1 = w\<lparr>console := console1\<rparr>;
                  logRecord = SlackLogger_record this clk ''Warn'' msg ''#F1AB2A''
              in if \<not> p_logFilter this logRecord then (None, this, w1)
                 else (let logRecord = apply_logInjector this logRecord
                       in (None, push logRecord this, w1)))))"

definition SlackLogger_logError ::
  "clock \<Rightarrow> js_value \<Rightarrow> SlackLogger \<times> world \<Rightarrow> js_error option \<times> SlackLogger \<times> world" where
  "SlackLogger_logError clk error state =
     (let (this, w) = state in
      if \<not> p_includeError this then (None, this, w)
      else
        (case getErrorMessage error (console w) of
           Inl e \<Rightarrow> (Some e, this, w)
         | Inr (msg, console1) \<Rightarrow>
             (let w1 = w\<lparr>console := console1\<rparr>;
                  logRecord = SlackLogger_record this clk ''Error'' msg ''#EF401D''
              in if \<not> p_logFilter this logRecord then (None, this, w1)
                 else (let logRecord = apply_logInjector this logRecord
                       in (None, push logRecord this, w1)))))"

subsection \<open>Posting and the fallback\<close>

definition attachment_of :: "SlackMessage \<Rightarrow> attachment" where
  "attachment_of logRecord =
     \<lparr> attachment_color = color logRecord,
       section_text = message logRecord,
       context_text = dateTime logRecord \<rparr>"

text \<open>The argument of \<^verbatim>\<open>chat.postMessage\<close>.\<close>

definition postMessages_request :: "SlackLogger \<Rightarrow> SlackMessage list \<Rightarrow> payload" where
  "postMessages_request this msgs =
     \<lparr> username = p_userName this,
       icon_emoji = (if p_userImageIsEmoji this then Some (p_userImage this) else None),
       icon_url = (if \<not> p_userImageIsEmoji this then Some (p_userImage this) else None),
       channel = p_channel this,
       payload_text = p_service (slack_base this) @ '' ['' @ p_env (slack_base this) @ '']'',
       attachments = map attachment_of msgs \<rparr>"

text \<open>The two \<^verbatim>\<open>switch (log.level)\<close> of the \<^verbatim>\<open>catch\<close> block.\<close>

definition replay_call :: "SlackMessage \<Rightarrow> fallback_call" where
  "replay_call logRecord =
     (if level logRecord = ''Debug'' then FallbackDebug (message logRecord)
      else if level logRecord = ''Info'' then FallbackInfo (message logRecord)
      else if level logRecord = ''Warn'' then FallbackWarning (Text (message logRecord))
      else if level logRecord = ''Error'' then FallbackError (Text (message logRecord))
      else FallbackError (Text (message logRecord)))"

definition replay_console :: "SlackMessage \<Rightarrow> console_call" where
  "replay_console logRecord =
     (if level logRecord = ''Debug'' then ConsoleInfo (Text (message logRecord))
      else if level logRecord = ''Info'' then ConsoleInfo (Text (message logRecord))
      else if level logRecord = ''Warn'' then ConsoleWarn (Text (message logRecord))
      else if level logRecord = ''Error'' then ConsoleError (Text (message logRecord))
      else ConsoleError (Text (message logRecord)))"

text \<open>
  One awaited call on the fallback logger: the call is recorded, and its outcome is
  the rejection that \<^verbatim>\<open>await\<close> rethrows.
\<close>

definition call_fallback ::
  "(fallback_call \<Rightarrow> js_error option) \<Rightarrow> fallback_call \<Rightarrow> world \<Rightarrow> js_error option \<times> world" where
  "call_fallback fb c w = (fb c, w\<lparr>fallback_calls := fallback_calls w @ [c]\<rparr>)"

text \<open>The \<^verbatim>\<open>catch\<close> block of \<^verbatim>\<open>_postMessages\<close>.\<close>

definition postMessages_catch ::
  "SlackLogger \<Rightarrow> SlackMessage list \<Rightarrow> js_error \<Rightarrow> world \<Rightarrow> js_error option \<times> world" where
  "postMessages_catch this msgs error w =
     (case p_fallbackLogger this of
        Some fb \<Rightarrow>
          (case call_fallback fb (FallbackWarning (Text ''Error while posting to slack.'')) w of
             (Some e, w1) \<Rightarrow> (Some e, w1)
           | (None, w1) \<Rightarrow>
               (case call_fallback fb (FallbackError (Caught error)) w1 of
                  (Some e, w2) \<Rightarrow> (Some e, w2)
                | (None, w2) \<Rightarrow>
                    (case call_fallback fb (FallbackWarning (Text ''Original messages below'')) w2 of
                       (Some e, w3) \<Rightarrow> (Some e, w3)
                     | (None, w3) \<Rightarrow>
                         forEachAsync (\<lambda>logRecord. call_fallback fb (replay_call logRecord))
                           msgs w3)))
      | None \<Rightarrow>
          (None, w\<lparr>console := console w
                     @ [ConsoleWarn (Text ''Error while posting to slack.''),
                        ConsoleError (Caught error),
                        ConsoleWarn (Text ''Original messages below'')]
                     @ map replay_console msgs\<rparr>))"

text \<open>
  \<^verbatim>\<open>_postMessages\<close>, given the outcome of the call of \<^verbatim>\<open>chat.postMessage\<close>: \<open>None\<close>
  when it resolves, the error when it rejects.
\<close>

definition postMessages ::
  "SlackLogger \<Rightarrow> SlackMessage list \<Rightarrow> js_error option \<Rightarrow> world \<Rightarrow> js_error option \<times> world" where
  "postMessages this msgs outcome w =
     (let w1 = w\<lparr>outbound := outbound w @ [postMessages_request this msgs]\<rparr> in
      case outcome of
        None \<Rightarrow> (None, w1)
      | Some error \<Rightarrow> postMessages_catch this msgs error w1)"

definition flushMessages ::
  "js_error option \<Rightarrow> SlackLogger \<times> world \<Rightarrow> js_error option \<times> SlackLogger \<times> world" where
  "flushMessages outcome state =
     (let (this, w) = state in
      if p_messages this = [] then (None, this, w)
      else
        (let messagesToFlush = p_messages this;
             this = this\<lparr>p_messages := []\<rparr>;
             (r, w) = postMessages this messagesToFlush outcome w
         in (r, this, w)))"

definition dispose ::
  "js_error option \<Rightarrow> SlackLogger \<times> world \<Rightarrow> js_error option \<times> SlackLogger \<times> world" where
  "dispose outcome state =
     (let (this, w) = state in
      if \<not> p_isDisposed this then
        (let this = this\<lparr>p_isDisposed := True, p_timer_active := False\<rparr>;
             (r, this, w) = flushMessages outcome (this, w)
         in (r, this\<lparr>p_disposePromise := Some r\<rparr>, w))
      else ((case p_disposePromise this of Some r \<Rightarrow> r | None \<Rightarrow> None), this, w))"

subsection \<open>A flush between its two suspension points\<close>

text \<open>
  \<^verbatim>\<open>_flushMessages\<close> runs without interruption up to the call of
  \<^verbatim>\<open>chat.postMessage\<close>: it takes the batch, installs the empty array and issues
  the request. Logging calls can run before the request settles; they see the new
  array. \<open>flush_start\<close> is the first part and returns the batch in flight,
  \<open>flush_settle\<close> is what runs once the request has settled. The replay of a
  failed batch awaits each of its calls; it is one step here, so what is stated of
  it is the order of the calls made for one batch, not how the calls of two replays
  interleave.
\<close>

definition flush_start ::
  "SlackLogger \<times> world \<Rightarrow> SlackMessage list option \<times> SlackLogger \<times> world" where
  "flush_start state =
     (let (this, w) = state in
      if p_messages this = [] then (None, this, w)
      else
        (let messagesToFlush = p_messages this;
             this = this\<lparr>p_messages := []\<rparr>
         in (Some messagesToFlush, this,
             w\<lparr>outbound := outbound w @ [postMessages_request this messagesToFlush]\<rparr>)))"

definition flush_settle ::
  "SlackLogger \<Rightarrow> SlackMessage list \<Rightarrow> js_error option \<Rightarrow> world \<Rightarrow> js_error option \<times> world" where
  "flush_settle this msgs outcome w =
     (case outcome of
        None \<Rightarrow> (None, w)
      | Some error \<Rightarrow> postMessages_catch this msgs error w)"

text \<open>
  The handler the timer attaches to a flush:
  \<^verbatim>\<open>.catch(e => this._fallbackLogger?.logError(e).catch(e => console.error(e)) ?? console.error(e))\<close>.
\<close>

definition timer_catch :: "SlackLogger \<Rightarrow> js_error \<Rightarrow> world \<Rightarrow> world" where
  "timer_catch this e w =
     (case p_fallbackLogger this of
        Some fb \<Rightarrow>
          (case call_fallback fb (FallbackError (Caught e)) w of
             (Some e2, w1) \<Rightarrow> w1\<lparr>console := console w1 @ [ConsoleError (Caught e2)]\<rparr>
           | (None, w1) \<Rightarrow> w1)
      | None \<Rightarrow> w\<lparr>console := console w @ [ConsoleError (Caught e)]\<rparr>)"

text \<open>
  The first part of \<^verbatim>\<open>dispose\<close>: the first call marks the sink disposed, clears the
  timer and starts a flush; a later call starts nothing. The promise \<^verbatim>\<open>dispose\<close>
  stores and returns is the promise of that flush.
\<close>

definition dispose_start ::
  "SlackLogger \<times> world \<Rightarrow> SlackMessage list option \<times> SlackLogger \<times> world" where
  "dispose_start state =
     (let (this, w) = state in
      if \<not> p_isDisposed this
      then flush_start (this\<lparr>p_isDisposed := True, p_timer_active := False\<rparr>, w)
      else (None, this, w))"

text \<open>
  What happens to the batch of a Slack sink, one uninterrupted step at a time: a
  logging call appends an event, the timer fires (which starts a flush as long as the
  interval has not been cleared), \<^verbatim>\<open>dispose\<close> is called, one of the requests in
  flight settles with an outcome. The state is the sink, the world and the batches in
  flight, oldest first, each with what started its flush: a rejection of a flush of
  the timer goes to the timer's handler, a rejection of the flush of \<^verbatim>\<open>dispose\<close> to
  the caller of \<^verbatim>\<open>dispose\<close>. \<open>Settle i outcome\<close> settles the request at position
  \<open>i\<close>.
\<close>

datatype flush_origin = ByTimer | ByDispose

datatype batch_op = Append SlackMessage | TimerTick | Dispose | Settle nat "js_error option"

fun batch_step ::
  "batch_op \<Rightarrow> SlackLogger \<times> world \<times> (flush_origin \<times> SlackMessage list) list
   \<Rightarrow> SlackLogger \<times> world \<times> (flush_origin \<times> SlackMessage list) list" where
  "batch_step (Append logRecord) (this, w, inflight) = (push logRecord this, w, inflight)"
| "batch_step TimerTick (this, w, inflight) =
     (if p_timer_active this then
        (case flush_start (this, w) of
           (None, this1, w1) \<Rightarrow> (this1, w1, inflight)
         | (Some batch, this1, w1) \<Rightarrow> (this1, w1, inflight @ [(ByTimer, batch)]))
      else (this, w, inflight))"
| "batch_step Dispose (this, w, inflight) =
     (case dispose_start (this, w) of
        (None, this1, w1) \<Rightarrow> (this1, w1, inflight)
      | (Some batch, this1, w1) \<Rightarrow> (this1, w1, inflight @ [(ByDispose, batch)]))"
| "batch_step (Settle i outcome) (this, w, inflight) =
     (if i < length inflight then
        (let (origin, batch) = inflight ! i;
             rest = take i inflight @ drop (Suc i) inflight
         in case flush_settle this batch outcome w of
              (None, w1) \<Rightarrow> (this, w1, rest)
            | (Some e, w1) \<Rightarrow>
                (case origin of
                   ByTimer \<Rightarrow> (this, timer_catch this e w1, rest)
                 | ByDispose \<Rightarrow> (this, w1, rest)))
      else (this, w, inflight))"

fun batch_run ::
  "batch_op list \<Rightarrow> SlackLogger \<times> world \<times> (flush_origin \<times> SlackMessage list) list
   \<Rightarrow> SlackLogger \<times> world \<times> (flush_origin \<times> SlackMessage list) list" where
  "batch_run [] s = s"
| "batch_run (op # ops) s = batch_run ops (batch_step op s)"

fun appended :: "batch_op list \<Rightarrow> SlackMessage list" where
  "appended [] = []"
| "appended (Append logRecord # ops) = logRecord # appended ops"
| "appended (_ # ops) = appended ops"


section \<open>Predicates of the statements, and concrete inputs\<close>

fun is_AppendFile :: "fs_op \<Rightarrow> bool" where
  "is_AppendFile (AppendFile file data) = True"
| "is_AppendFile _ = False"

text \<open>The condition under which \<^verbatim>\<open>_purgeLogs\<close> unlinks an entry.\<close>

definition expired :: "FileLogger \<Rightarrow> int \<Rightarrow> fs_entry \<Rightarrow> bool" where
  "expired this now entry =
     (isFile entry \<and> lt_minus (birthtime entry) now (fromDays_toMilliSeconds (p_retentionDays this)))"

text \<open>
  Two worlds that differ at most in the directory and in file system calls other than
  \<^verbatim>\<open>appendFile\<close>.
\<close>

definition same_channels :: "world \<Rightarrow> world \<Rightarrow> bool" where
  "same_channels w1 w =
     (console w1 = console w \<and> span_status w1 = span_status w \<and> stdout w1 = stdout w
      \<and> outbound w1 = outbound w \<and> fallback_calls w1 = fallback_calls w
      \<and> filter is_AppendFile (fs_calls w1) = filter is_AppendFile (fs_calls w))"

text \<open>
  What a sequence of awaited calls on a fallback comes to: the calls made, up to and
  with the first that rejects, and that rejection (\<open>None\<close> when every call
  resolves).
\<close>

fun until_rejected ::
  "(fallback_call \<Rightarrow> js_error option) \<Rightarrow> fallback_call list \<Rightarrow> fallback_call list" where
  "until_rejected fb [] = []"
| "until_rejected fb (c # cs) = c # (case fb c of None \<Rightarrow> until_rejected fb cs | Some e \<Rightarrow> [])"

fun first_rejection ::
  "(fallback_call \<Rightarrow> js_error option) \<Rightarrow> fallback_call list \<Rightarrow> js_error option" where
  "first_rejection fb [] = None"
| "first_rejection fb (c # cs) = (case fb c of None \<Rightarrow> first_rejection fb cs | Some e \<Rightarrow> Some e)"

text \<open>The three calls that precede the replay, on the fallback and on the console.\<close>

definition framing_calls :: "js_error \<Rightarrow> fallback_call list" where
  "framing_calls error =
     [FallbackWarning (Text ''Error while posting to slack.''),
      FallbackError (Caught error),
      FallbackWarning (Text ''Original messages below'')]"

definition framing_console :: "js_error \<Rightarrow> console_call list" where
  "framing_console error =
     [ConsoleWarn (Text ''Error while posting to slack.''),
      ConsoleError (Caught error),
      ConsoleWarn (Text ''Original messages below'')]"

text \<open>A positive integer, in the specification's sense.\<close>

definition is_positive_integer :: "js_number \<Rightarrow> bool" where
  "is_positive_integer n = (case n of Num x \<Rightarrow> 0 < x \<and> x = of_int \<lfloor>x\<rfloor> | _ \<Rightarrow> False)"

definition succeeds :: "'e + 'a \<Rightarrow> bool" where
  "succeeds r = (case r of Inr _ \<Rightarrow> True | Inl _ \<Rightarrow> False)"

text \<open>
  Concrete inputs for the examples: a POSIX host on which no file system call fails,
  the same host with a full disk, an unconfigured process, an instant, an empty
  world.
\<close>

definition example_externals :: externals where
  "example_externals =
     \<lparr> ensureHasValue = (\<lambda>s. \<not> isEmptyOrWhiteSpace s),
       isAbsolute = (\<lambda>p. p \<noteq> [] \<and> hd p = CHR ''/''),
       existsSync = (\<lambda>_. True),
       parseInt_exponent = (\<lambda>_. Some 1),
       stringify = message,
       fs_fault = (\<lambda>_. None),
       active_span = None,
       chalk_bold = (\<lambda>s. s),
       chalk_blue = (\<lambda>s. s),
       chalk_yellow = (\<lambda>s. s),
       chalk_red = (\<lambda>s. s) \<rparr>"


definition example_manager :: ConfigurationManager where
  "example_manager =
     \<lparr> config_package_name = None, config_package_dot_name = None, config_env = None \<rparr>"

definition example_clock :: clock where
  "example_clock =
     \<lparr> now_utc = ''2026-01-02T03:04:05.000Z'',
       now_local = ''2026-01-02T03:04:05.000+00:00'',
       now_est = ''2026-01-01T22:04:05.000-05:00'',
       now_pst = ''2026-01-01T19:04:05.000-08:00'',
       now_iso = ''2026-01-02T03:04:05.000Z'',
       now_ms = 1767323045000 \<rparr>"

definition example_world :: world where
  "example_world =
     \<lparr> directory = [], fs_calls = [], console = [], span_status = None, stdout = [],
       outbound = [], fallback_calls = [] \<rparr>"

definition example_FileLoggerConfig :: "js_number \<Rightarrow> FileLoggerConfig" where
  "example_FileLoggerConfig days =
     \<lparr> logDateTimeZone = None, useJsonFormat = None, logInjector = None,
       enableOtelToDatadogTraceConversion = None,
       logDirPath = ''/var/log/app'', retentionDays = days \<rparr>"

text \<open>The file sink of an unconfigured process, with a retention of two days.\<close>

definition example_FileLogger :: FileLogger where
  "example_FileLogger =
     \<lparr> base = BaseLogger_constructor example_manager (Some (example_FileLoggerConfig (Num 2))),
       p_logDirPath = ''/var/log/app'',
       p_retentionDays = Some 2,
       p_lastPurgedAt = 0,
       p_mutex_locked = False \<rparr>"

text \<open>
  A Slack sink whose injector marks the message, with a fallback that resolves every
  call, and a batch of one event of each level.
\<close>

definition example_injector :: "SlackMessage \<Rightarrow> SlackMessage" where
  "example_injector logRecord = logRecord\<lparr>message := ''injected: '' @ message logRecord\<rparr>"

definition example_SlackLoggerConfig :: SlackLoggerConfig where
  "example_SlackLoggerConfig =
     \<lparr> slack_logDateTimeZone = None,
       slack_logInjector = Some example_injector,
       slackBotToken = ''xoxb-token'',
       slackBotChannel = ''#logs'',
       slackUserName = None,
       slackUserImage = None,
       filter_levels = None,
       logFilter = None,
       fallback = Some (\<lambda>_. None) \<rparr>"

definition example_SlackLogger :: SlackLogger where
  "example_SlackLogger =
     \<lparr> slack_base = BaseLogger_constructor example_manager
                      (Some \<lparr> logDateTimeZone = None, useJsonFormat = None,
                               logInjector = Some example_injector,
                               enableOtelToDatadogTraceConversion = None \<rparr>),
       p_includeInfo = True,
       p_includeWarn = True,
       p_includeError = True,
       p_logFilter = (\<lambda>_. True),
       p_fallbackLogger = Some (\<lambda>_. None),
       p_channel = ''#logs'',
       p_userName = ''n-log'',
       p_userImage = '':robot_face:'',
       p_userImageIsEmoji = True,
       p_messages = [],
       p_timer_active = True,
       p_isDisposed = False,
       p_disposePromise = None \<rparr>"

definition example_event :: "string \<Rightarrow> string \<Rightarrow> SlackMessage" where
  "example_event lvl msg =
     \<lparr> source = ''nodejs'', service = ''n-log'', env = ''dev'', level = lvl, message = msg,
       dateTime = ''2026-01-02T03:04:05.000Z'', time = ''2026-01-02T03:04:05.000Z'',
       properties = [], color = ''#000000'' \<rparr>"

text \<open>
  A log directory with a file created three days before the example instant and one
  created one day before it.
\<close>

definition example_log_world :: world where
  "example_log_world =
     example_world
       \<lparr> directory :=
           [(''2025-12-30T03.log'', \<lparr>isFile = True, birthtime = 1767063845000, content = ''old''\<rparr>),
            (''2026-01-01T03.log'', \<lparr>isFile = True, birthtime = 1767236645000, content = ''recent''\<rparr>)] \<rparr>"


text \<open>The example sinks in production.\<close>

definition production_FileLogger :: FileLogger where
  "production_FileLogger =
     example_FileLogger\<lparr>base := (base example_FileLogger)\<lparr>p_env := ''production''\<rparr>\<rparr>"

definition production_SlackLogger :: SlackLogger where
  "production_SlackLogger =
     example_SlackLogger\<lparr>slack_base := (slack_base example_SlackLogger)\<lparr>p_env := ''production''\<rparr>\<rparr>"

text \<open>The example file sink in JSON mode, with an injector that marks the message.\<close>

definition example_file_injector :: "LogRecord \<Rightarrow> LogRecord" where
  "example_file_injector logRecord = logRecord\<lparr>message := ''injected: '' @ message logRecord\<rparr>"

definition json_FileLogger :: FileLogger where
  "json_FileLogger =
     example_FileLogger
       \<lparr>base := (base example_FileLogger)
                  \<lparr>p_useJsonFormat := True, p_logInjector := Some example_file_injector\<rparr>\<rparr>"

text \<open>An element of a \<^verbatim>\<open>Uint8Array\<close>.\<close>

definition is_byte :: "int \<Rightarrow> bool" where
  "is_byte b = (0 \<le> b \<and> b < 256)"

text \<open>
  The repository's file sink as the fallback of a Slack sink: the outcome of each
  call. Whether a call of the file sink rejects does not depend on the state of the
  sink (\<open>writeToLog_outcome\<close>), so the state is a parameter. A caught error is an
  \<^verbatim>\<open>Error\<close> with a stack.
\<close>

fun FileLogger_as_fallback ::
  "externals \<Rightarrow> clock \<Rightarrow> FileLogger \<times> world \<Rightarrow> fallback_call \<Rightarrow> js_error option" where
  "FileLogger_as_fallback ext clk state (FallbackDebug m) = fst (FileLogger_logDebug ext clk m state)"
| "FileLogger_as_fallback ext clk state (FallbackInfo m) = fst (FileLogger_logInfo ext clk m state)"
| "FileLogger_as_fallback ext clk state (FallbackWarning (Text m)) =
     fst (FileLogger_logWarning ext clk (StringValue m) state)"
| "FileLogger_as_fallback ext clk state (FallbackWarning (Caught e)) =
     fst (FileLogger_logWarning ext clk (ErrorValue (Inr ''Error: at <anonymous>'')) state)"
| "FileLogger_as_fallback ext clk state (FallbackError (Text m)) =
     fst (FileLogger_logError ext clk (StringValue m) state)"
| "FileLogger_as_fallback ext clk state (FallbackError (Caught e)) =
     fst (FileLogger_logError ext clk (ErrorValue (Inr ''Error: at <anonymous>'')) state)"

text \<open>
  The example Slack sink with no injector and with the example file sink as its
  fallback.
\<close>

definition file_backed_SlackLogger :: SlackLogger where
  "file_backed_SlackLogger =
     example_SlackLogger
       \<lparr>slack_base := (slack_base example_SlackLogger)\<lparr>p_logInjector := None\<rparr>,
        p_fallbackLogger :=
          Some (FileLogger_as_fallback example_externals example_clock
                  (example_FileLogger, example_world))\<rparr>"


section \<open>The converter is exact on 64-bit identifiers\<close>

lemma parseInt_char_hex:
  "is_hex_digit c \<Longrightarrow> parseInt_char c 16 = Some (int (hex_digit_of c)) \<and> hex_digit_of c < 16"
  unfolding is_hex_digit_def hex_digit_of_def hex_table_def parseInt_char_def digit_value_def
  by (auto split: if_splits)

lemma js_rem_nonneg: "0 \<le> a \<Longrightarrow> 0 < b \<Longrightarrow> js_rem a b = a mod b"
  by (cases "a = 0") (simp_all add: js_rem_def)

lemma fromString_loop_value:
  "well_formed_hex cs \<Longrightarrow> 0 \<le> high \<Longrightarrow> 0 \<le> low \<Longrightarrow> low < UINT_MAX \<Longrightarrow>
   fromString_loop cs 16 high low = (h', l') \<Longrightarrow>
   h' * UINT_MAX + l' = int (foldl (\<lambda>acc c. 16 * acc + hex_digit_of c) (nat (high * UINT_MAX + low)) cs)
   \<and> 0 \<le> h' \<and> 0 \<le> l' \<and> l' < UINT_MAX"
proof (induction cs arbitrary: high low)
  case Nil
  then show ?case by (simp add: UINT_MAX_def)
next
  case (Cons c cs)
  from Cons.prems(1) have hc: "is_hex_digit c" and wf: "well_formed_hex cs"
    by (simp_all add: well_formed_hex_def)
  define d where "d = int (hex_digit_of c)"
  from parseInt_char_hex [OF hc] have pc: "parseInt_char c 16 = Some d" and d16: "0 \<le> d" "d < 16"
    by (simp_all add: d_def)
  define low1 where "low1 = low * 16 + d"
  define high1 where "high1 = high * 16 + low1 div UINT_MAX"
  define low2 where "low2 = low1 mod UINT_MAX"
  have low1_nonneg: "0 \<le> low1" using Cons.prems(3) d16 by (simp add: low1_def)
  have U: "0 < UINT_MAX" by (simp add: UINT_MAX_def)
  have step: "fromString_loop (c # cs) 16 high low = fromString_loop cs 16 high1 low2"
    using pc low1_nonneg U
    by (simp add: Let_def floor_div_def js_rem_nonneg low1_def high1_def low2_def)
  have h1: "0 \<le> high1"
    using Cons.prems(2) low1_nonneg U by (simp add: high1_def pos_imp_zdiv_nonneg_iff)
  have l2: "0 \<le> low2" "low2 < UINT_MAX" using U by (simp_all add: low2_def)
  have val: "high1 * UINT_MAX + low2 = 16 * (high * UINT_MAX + low) + d"
    by (simp add: high1_def low2_def low1_def algebra_simps)
  have nonneg: "0 \<le> high * UINT_MAX + low" using Cons.prems(2,3) U by simp
  have natval: "nat (high1 * UINT_MAX + low2) = 16 * nat (high * UINT_MAX + low) + hex_digit_of c"
    using nonneg by (simp add: val d_def nat_add_distrib nat_mult_distrib)
  from Cons.prems(5) step have "fromString_loop cs 16 high1 low2 = (h', l')" by simp
  from Cons.IH [OF wf h1 l2 this] show ?case by (simp add: natval)
qed

lemma hex_value_bound: "well_formed_hex h \<Longrightarrow> hex_value h < 16 ^ length h"
proof (induction h rule: rev_induct)
  case Nil
  show ?case by (simp add: hex_value_def)
next
  case (snoc c h)
  then have "hex_value h < 16 ^ length h" and "is_hex_digit c"
    by (simp_all add: well_formed_hex_def)
  moreover from \<open>is_hex_digit c\<close> have "hex_digit_of c < 16"
    using parseInt_char_hex by blast
  ultimately show ?case by (simp add: hex_value_def)
qed

lemma ToInt32_id: "- 2147483648 \<le> x \<Longrightarrow> x < 2147483648 \<Longrightarrow> ToInt32 x = x"
  by (simp add: ToInt32_def)

lemma ToInt32_range: "- 2147483648 \<le> ToInt32 x \<and> ToInt32 x < 2147483648"
proof -
  have "0 \<le> (x + 2147483648) mod 4294967296" "(x + 2147483648) mod 4294967296 < 4294967296"
    by simp_all
  then show ?thesis unfolding ToInt32_def by linarith
qed

lemma take_bit_ToInt32: "take_bit 32 (ToInt32 x) = take_bit 32 x"
proof -
  have "(ToInt32 x) mod 4294967296 = ((x + 2147483648) mod 4294967296 - 2147483648 mod 4294967296) mod 4294967296"
    unfolding ToInt32_def by (simp add: mod_diff_left_eq)
  also have "\<dots> = (x + 2147483648 - 2147483648) mod 4294967296"
    by (simp only: mod_diff_eq)
  finally show ?thesis by (simp add: take_bit_eq_mod)
qed

lemma and_255: "(y::int) AND 255 = take_bit 8 y"
proof -
  have "y AND mask 8 = take_bit 8 y" by (simp add: take_bit_eq_mask)
  then show ?thesis by (simp add: mask_eq_exp_minus_1)
qed

lemma drop_bit_8_range:
  "- 2147483648 \<le> (y::int) \<Longrightarrow> y < 2147483648 \<Longrightarrow> - 2147483648 \<le> drop_bit 8 y \<and> drop_bit 8 y < 2147483648"
proof -
  assume y: "- 2147483648 \<le> y" "y < 2147483648"
  have "(- 2147483648) div 256 \<le> y div 256" using y(1) by (intro zdiv_mono1) simp_all
  moreover have "y div 256 \<le> 2147483648 div 256" using y(2) by (intro zdiv_mono1) simp_all
  ultimately show ?thesis by (simp add: drop_bit_eq_div)
qed

lemma js_bitand_255: "- 2147483648 \<le> y \<Longrightarrow> y < 2147483648 \<Longrightarrow> js_bitand y 255 = take_bit 8 y"
  by (simp add: js_bitand_def ToInt32_id and_255)

lemma js_sar_8: "- 2147483648 \<le> y \<Longrightarrow> y < 2147483648 \<Longrightarrow> js_sar y 8 = drop_bit 8 y"
  by (simp add: js_sar_def ToInt32_id)

lemma byte_of_ToInt32:
  "k \<le> 24 \<Longrightarrow> take_bit 8 (drop_bit k (ToInt32 v)) = take_bit 8 (drop_bit k (take_bit 32 v))"
proof -
  assume k: "k \<le> 24"
  then have m: "min 8 (32 - k) = 8" by simp
  have "take_bit 8 (drop_bit k (take_bit 32 (ToInt32 v))) = take_bit 8 (drop_bit k (ToInt32 v))"
    by (simp only: drop_bit_take_bit take_bit_take_bit m)
  then show ?thesis by (simp add: take_bit_ToInt32)
qed

lemma writeUInt32BE_bytes:
  assumes "0 \<le> v" "v < 4294967296"
  shows "writeUInt32BE buffer v offset =
         buffer[3 + offset := take_bit 8 v, 2 + offset := take_bit 8 (drop_bit 8 v),
                1 + offset := take_bit 8 (drop_bit 16 v), 0 + offset := take_bit 8 (drop_bit 24 v)]"
proof -
  define y where "y = ToInt32 v"
  have y: "- 2147483648 \<le> y" "y < 2147483648"
    using ToInt32_range [of v] by (simp_all add: y_def)
  have v32: "take_bit 32 v = v"
    using assms by (simp add: take_bit_eq_mod)
  define y1 where "y1 = drop_bit 8 y"
  define y2 where "y2 = drop_bit 8 y1"
  define y3 where "y3 = drop_bit 8 y2"
  have y1: "- 2147483648 \<le> y1" "y1 < 2147483648" using drop_bit_8_range [OF y] by (simp_all add: y1_def)
  have y2: "- 2147483648 \<le> y2" "y2 < 2147483648" using drop_bit_8_range [OF y1] by (simp_all add: y2_def)
  have y3: "- 2147483648 \<le> y3" "y3 < 2147483648" using drop_bit_8_range [OF y2] by (simp_all add: y3_def)
  have s0: "js_bitand v 255 = take_bit 8 y"
    by (simp add: js_bitand_def y_def [symmetric] ToInt32_id and_255)
  have s1: "js_sar v 8 = y1"
    by (simp add: js_sar_def y_def [symmetric] y1_def)
  have b0: "take_bit 8 y = take_bit 8 v"
    using byte_of_ToInt32 [of 0 v] by (simp add: y_def v32)
  have b1: "take_bit 8 y1 = take_bit 8 (drop_bit 8 v)"
    using byte_of_ToInt32 [of 8 v] by (simp add: y_def y1_def v32)
  have b2: "take_bit 8 y2 = take_bit 8 (drop_bit 16 v)"
    using byte_of_ToInt32 [of 16 v] by (simp add: y_def y1_def y2_def v32)
  have b3: "take_bit 8 y3 = take_bit 8 (drop_bit 24 v)"
    using byte_of_ToInt32 [of 24 v] by (simp add: y_def y1_def y2_def y3_def v32)
  have t: "\<And>x::int. ToUint8 (take_bit 8 x) = take_bit 8 x"
    by (simp add: ToUint8_def take_bit_eq_mod)
  show ?thesis
    unfolding writeUInt32BE_def Let_def s0 s1
    by (simp only: js_bitand_255 [OF y1] js_sar_8 [OF y1] y2_def [symmetric]
          js_bitand_255 [OF y2] js_sar_8 [OF y2] y3_def [symmetric]
          js_bitand_255 [OF y3] t b0 b1 b2 b3)
qed

lemma bytes_recompose:
  assumes "0 \<le> (v::int)" "v < 4294967296"
  shows "take_bit 8 (drop_bit 24 v) * 16777216 + take_bit 8 (drop_bit 16 v) * 65536
         + take_bit 8 (drop_bit 8 v) * 256 + take_bit 8 v = v"
proof -
  define a where "a = v div 256"
  define b where "b = a div 256"
  define c where "c = b div 256"
  have e0: "v = 256 * a + v mod 256" by (simp add: a_def)
  have e1: "a = 256 * b + a mod 256" by (simp add: b_def)
  have e2: "b = 256 * c + b mod 256" by (simp add: c_def)
  have "0 \<le> c" "c < 256" using assms by (simp_all add: a_def b_def c_def)
  then have e3: "c mod 256 = c" by simp
  have d8: "drop_bit 8 v = a" by (simp add: drop_bit_eq_div a_def)
  have d16: "drop_bit 16 v = b"
    using drop_bit_drop_bit [of 8 8 v] by (simp add: drop_bit_eq_div a_def b_def)
  have d24: "drop_bit 24 v = c"
    using drop_bit_drop_bit [of 8 16 v] d16 by (simp add: drop_bit_eq_div c_def)
  have "c mod 256 * 16777216 + b mod 256 * 65536 + a mod 256 * 256 + v mod 256 = v"
    using e0 e1 e2 e3 by linarith
  then show ?thesis by (simp add: take_bit_eq_mod d8 d16 d24)
qed

lemma js_shl_byte: "0 \<le> b \<Longrightarrow> b < 256 \<Longrightarrow> n \<le> 16 \<Longrightarrow> js_shl b n = b * 2 ^ n"
proof -
  assume b: "0 \<le> b" "b < 256" and n: "n \<le> 16"
  have "(2::int) ^ n \<le> 2 ^ 16" using n by (intro power_increasing) simp_all
  then have "b * 2 ^ n \<le> 255 * 2 ^ 16" using b by (intro mult_mono) simp_all
  then have "b * 2 ^ n < 2147483648" by simp
  moreover have "0 \<le> b * 2 ^ n" using b by simp
  ultimately have "ToInt32 (b * 2 ^ n) = b * 2 ^ n" by (intro ToInt32_id) linarith+
  moreover have "ToInt32 b = b" using b by (intro ToInt32_id) linarith+
  ultimately show ?thesis by (simp add: js_shl_def push_bit_eq_mult)
qed

lemma read_write_roundtrip:
  assumes hi: "0 \<le> hi" "hi < 4294967296" and lo: "0 \<le> lo" "lo < 4294967296"
  defines "buffer \<equiv> writeUInt32BE (writeUInt32BE (replicate 8 0) hi 0) lo 4"
  shows "readInt32 buffer 0 = hi" and "readInt32 buffer 4 = lo"
proof -
  have byte: "\<And>x::int. 0 \<le> take_bit 8 x \<and> take_bit 8 x < 256"
    by (simp add: take_bit_eq_mod)
  have buf: "buffer = [take_bit 8 (drop_bit 24 hi), take_bit 8 (drop_bit 16 hi),
                       take_bit 8 (drop_bit 8 hi), take_bit 8 hi,
                       take_bit 8 (drop_bit 24 lo), take_bit 8 (drop_bit 16 lo),
                       take_bit 8 (drop_bit 8 lo), take_bit 8 lo]"
    unfolding buffer_def writeUInt32BE_bytes [OF hi] writeUInt32BE_bytes [OF lo]
    by (simp add: numeral_eq_Suc)
  show "readInt32 buffer 0 = hi"
    unfolding buf readInt32_def
    using bytes_recompose [OF hi] byte js_shl_byte [of _ 16] js_shl_byte [of _ 8]
    by (simp add: numeral_eq_Suc)
  show "readInt32 buffer 4 = lo"
    unfolding buf readInt32_def
    using bytes_recompose [OF lo] byte js_shl_byte [of _ 16] js_shl_byte [of _ 8]
    by (simp add: numeral_eq_Suc)
qed

lemma digit_char_decimal: "0 \<le> d \<Longrightarrow> d < 10 \<Longrightarrow> digit_char d = decimal_digit (nat d)"
proof -
  assume "0 \<le> d" "d < 10"
  then have "d = 0 \<or> d = 1 \<or> d = 2 \<or> d = 3 \<or> d = 4 \<or> d = 5 \<or> d = 6 \<or> d = 7 \<or> d = 8 \<or> d = 9"
    by arith
  then show ?thesis
    by (elim disjE) (simp_all add: digit_char_def decimal_digit_def numeral_eq_Suc)
qed

lemma limb_division:
  fixes high low :: int
  shows "floor_div high 10 * UINT_MAX + floor_div (high mod 10 * UINT_MAX + low) 10
           = (high * UINT_MAX + low) div 10"
    and "(high mod 10 * UINT_MAX + low) mod 10 = (high * UINT_MAX + low) mod 10"
proof -
  define q where "q = high div 10"
  define r where "r = high mod 10"
  have "high = q * 10 + r" by (simp add: q_def r_def)
  then have "high * UINT_MAX + low = (q * 10 + r) * UINT_MAX + low" by simp
  also have "\<dots> = (r * UINT_MAX + low) + (q * UINT_MAX) * 10" by (simp add: algebra_simps)
  finally have split: "high * UINT_MAX + low = (high mod 10 * UINT_MAX + low) + (high div 10 * UINT_MAX) * 10"
    by (simp only: q_def r_def)
  show "floor_div high 10 * UINT_MAX + floor_div (high mod 10 * UINT_MAX + low) 10
           = (high * UINT_MAX + low) div 10"
    unfolding floor_div_def by (subst split) simp
  show "(high mod 10 * UINT_MAX + low) mod 10 = (high * UINT_MAX + low) mod 10"
    by (subst split) simp
qed

lemma toNumberString_loop_decimal:
  "0 \<le> high \<Longrightarrow> 0 \<le> low \<Longrightarrow> nat (high * UINT_MAX + low) = n \<Longrightarrow>
   toNumberString_loop 10 high low str = Some (Inr (decimal_of_nat n @ str))"
proof (induction n arbitrary: high low str rule: less_induct)
  case (less n)
  have U: "0 < UINT_MAX" by (simp add: UINT_MAX_def)
  define V where "V = high * UINT_MAX + low"
  have V: "0 \<le> V" "nat V = n" using less.prems U by (simp_all add: V_def)
  define modv where "modv = js_rem high 10 * UINT_MAX + low"
  define high1 where "high1 = floor_div high 10"
  define low1 where "low1 = floor_div modv 10"
  have hm: "js_rem high 10 = high mod 10" using less.prems(1) by (simp add: js_rem_nonneg)
  have modv_nonneg: "0 \<le> modv" using less.prems(2) U by (simp add: modv_def hm)
  have mm: "js_rem modv 10 = V mod 10"
    using limb_division(2) [of high low] modv_nonneg by (simp add: js_rem_nonneg modv_def hm V_def)
  have V1: "high1 * UINT_MAX + low1 = V div 10"
    using limb_division(1) [of high low] by (simp add: high1_def low1_def modv_def hm V_def)
  have h1: "0 \<le> high1" using less.prems(1) by (simp add: high1_def floor_div_def)
  have l1: "0 \<le> low1" using modv_nonneg by (simp add: low1_def floor_div_def)
  have dig: "digit_toString (js_rem modv 10) = [decimal_digit (n mod 10)]"
  proof -
    have "0 \<le> V mod 10" "V mod 10 < 10" by simp_all
    then have "digit_char (V mod 10) = decimal_digit (nat (V mod 10))" by (rule digit_char_decimal)
    moreover have "nat (V mod 10) = n mod 10" using V by (simp add: nat_mod_distrib)
    ultimately show ?thesis by (simp add: mm digit_toString_def)
  qed
  have ndiv: "nat (V div 10) = n div 10" using V by (simp add: nat_div_distrib)
  have unfold: "toNumberString_loop 10 high low str =
      (if high1 = 0 \<and> low1 = 0 then Some (Inr (decimal_digit (n mod 10) # str))
       else toNumberString_loop 10 high1 low1 (decimal_digit (n mod 10) # str))"
    by (subst toNumberString_loop.simps)
       (simp add: Let_def modv_def [symmetric] high1_def [symmetric] low1_def [symmetric] dig)
  show ?case
  proof (cases "high1 = 0 \<and> low1 = 0")
    case True
    then have "V div 10 = 0" using V1 by simp
    then have "n < 10" using V by (simp add: zdiv_eq_0_iff) linarith
    then show ?thesis using True unfold by simp
  next
    case False
    have "0 < high1 * UINT_MAX + low1"
    proof (cases "high1 = 0")
      case True
      with False l1 show ?thesis by simp
    next
      case nz: False
      with h1 have "0 < high1" by simp
      then have "0 < high1 * UINT_MAX" using U by (rule mult_pos_pos)
      with l1 show ?thesis by linarith
    qed
    then have "V div 10 \<noteq> 0" using V1 by simp
    then have "\<not> n < 10" using V by (auto simp: zdiv_eq_0_iff)
    then have lt: "n div 10 < n" by simp
    have "toNumberString_loop 10 high1 low1 (decimal_digit (n mod 10) # str)
          = Some (Inr (decimal_of_nat (n div 10) @ decimal_digit (n mod 10) # str))"
      using less.IH [OF lt h1 l1] V1 ndiv by simp
    then show ?thesis
      using False unfold \<open>\<not> n < 10\<close> by (subst decimal_of_nat.simps) simp
  qed
qed

lemma decimal_digit_value_digit: "d < 10 \<Longrightarrow> decimal_digit_value (decimal_digit d) = d"
proof -
  assume "d < 10"
  then have "d = 0 \<or> d = 1 \<or> d = 2 \<or> d = 3 \<or> d = 4 \<or> d = 5 \<or> d = 6 \<or> d = 7 \<or> d = 8 \<or> d = 9"
    by arith
  then show ?thesis
    by (elim disjE) (simp_all add: decimal_digit_value_def decimal_digit_def numeral_eq_Suc)
qed

lemma decimal_digit_zero: "d < 10 \<Longrightarrow> decimal_digit d = CHR ''0'' \<longleftrightarrow> d = 0"
proof -
  assume "d < 10"
  then have "d = 0 \<or> d = 1 \<or> d = 2 \<or> d = 3 \<or> d = 4 \<or> d = 5 \<or> d = 6 \<or> d = 7 \<or> d = 8 \<or> d = 9"
    by arith
  then show ?thesis
    by (elim disjE) (simp_all add: decimal_digit_def numeral_eq_Suc)
qed

lemma decimal_value_decimal_of_nat: "decimal_value (decimal_of_nat n) = n"
proof (induction n rule: decimal_of_nat.induct)
  case (1 n)
  show ?case
  proof (cases "n < 10")
    case True
    then show ?thesis by (simp add: decimal_value_def decimal_digit_value_digit)
  next
    case False
    with 1 have "decimal_value (decimal_of_nat (n div 10)) = n div 10" by simp
    with False show ?thesis
      by (subst decimal_of_nat.simps) (simp add: decimal_value_def decimal_digit_value_digit)
  qed
qed

lemma decimal_of_nat_nonempty: "decimal_of_nat n \<noteq> []"
  by (subst decimal_of_nat.simps) simp

lemma hd_decimal_of_nat: "0 < n \<Longrightarrow> hd (decimal_of_nat n) \<noteq> CHR ''0''"
proof (induction n rule: decimal_of_nat.induct)
  case (1 n)
  show ?case
  proof (cases "n < 10")
    case True
    with 1(2) show ?thesis by (simp add: decimal_digit_zero)
  next
    case False
    then have "0 < n div 10" by simp
    with 1(1) False have "hd (decimal_of_nat (n div 10)) \<noteq> CHR ''0''" by simp
    with False show ?thesis
      by (subst decimal_of_nat.simps) (simp add: decimal_of_nat_nonempty)
  qed
qed

lemma no_leading_zeros_decimal_of_nat: "no_leading_zeros (decimal_of_nat n)"
proof (cases "n = 0")
  case True
  then show ?thesis by (simp add: no_leading_zeros_def decimal_digit_def)
next
  case False
  then show ?thesis
    using hd_decimal_of_nat [of n] decimal_of_nat_nonempty [of n]
    by (simp add: no_leading_zeros_def)
qed

lemma well_formed_hex_no_sign:
  "well_formed_hex h \<Longrightarrow> (case h of [] \<Rightarrow> False | c # _ \<Rightarrow> c = CHR ''-'') = False"
  by (cases h) (auto simp: well_formed_hex_def is_hex_digit_def hex_table_def)

lemma fromString_loop_hex:
  assumes "well_formed_hex h" and "length h \<le> 16" and "fromString_loop h 16 0 0 = (hi, lo)"
  shows "hi * UINT_MAX + lo = int (hex_value h)"
    and "0 \<le> hi" and "hi < 4294967296" and "0 \<le> lo" and "lo < 4294967296"
proof -
  have U: "UINT_MAX = 4294967296" by (simp add: UINT_MAX_def)
  from fromString_loop_value [OF assms(1) _ _ _ assms(3)]
  have v: "hi * UINT_MAX + lo = int (hex_value h)" and b: "0 \<le> hi" "0 \<le> lo" "lo < UINT_MAX"
    by (simp_all add: U hex_value_def)
  have "(16::nat) ^ length h \<le> 16 ^ 16" using assms(2) by (intro power_increasing) simp_all
  with hex_value_bound [OF assms(1)] have "hex_value h < 16 ^ 16" by linarith
  then have "int (hex_value h) < 18446744073709551616" by simp
  with v b have "hi * 4294967296 < 18446744073709551616" by (simp add: U)
  then have hi: "hi < 4294967296" by simp
  show "hi * UINT_MAX + lo = int (hex_value h)" by (rule v)
  show "0 \<le> hi" "0 \<le> lo" by (rule b)+
  show "hi < 4294967296" by (rule hi)
  show "lo < 4294967296" using b(3) by (simp add: U)
qed

lemma fromString_hex_halves:
  assumes "well_formed_hex h" and "length h \<le> 16"
  shows "readInt32 (fromString h 16) 0 * UINT_MAX + readInt32 (fromString h 16) 4 = int (hex_value h)
         \<and> 0 \<le> readInt32 (fromString h 16) 0 \<and> 0 \<le> readInt32 (fromString h 16) 4"
proof -
  obtain hi lo where loop: "fromString_loop h 16 0 0 = (hi, lo)" by (cases "fromString_loop h 16 0 0")
  note facts = fromString_loop_hex [OF assms loop]
  have buf: "fromString h 16 = writeUInt32BE (writeUInt32BE (replicate 8 0) hi 0) lo 4"
    by (simp add: fromString_def well_formed_hex_no_sign [OF assms(1)] loop)
  from read_write_roundtrip [OF facts(2,3,4,5)]
  have "readInt32 (fromString h 16) 0 = hi" "readInt32 (fromString h 16) 4 = lo"
    by (simp_all add: buf)
  with facts show ?thesis by simp
qed

text \<open>
  Claim C1. For every well-formed hexadecimal string \<open>h\<close> of at most 16 digits,
  \<^verbatim>\<open>_toNumberString(_fromString(h, 16), 10)\<close> returns, and returns the decimal
  numeral of the value of \<open>h\<close>, also with the default radix: the value is below \<open>2^64\<close>, the numeral reads back
  as that value, and it has no leading zero unless it is \<open>0\<close> itself.
\<close>

theorem hex_to_decimal_exact:
  assumes "well_formed_hex h" and "length h \<le> 16"
  shows "toNumberString (fromString h 16) (Some 10) = Some (Inr (decimal_of_nat (hex_value h)))
         \<and> toNumberString (fromString h 16) None = Some (Inr (decimal_of_nat (hex_value h)))
         \<and> hex_value h < 2 ^ 64
         \<and> decimal_value (decimal_of_nat (hex_value h)) = hex_value h
         \<and> no_leading_zeros (decimal_of_nat (hex_value h))"
proof -
  from fromString_hex_halves [OF assms]
  have v: "readInt32 (fromString h 16) 0 * UINT_MAX + readInt32 (fromString h 16) 4 = int (hex_value h)"
    and nn: "0 \<le> readInt32 (fromString h 16) 0" "0 \<le> readInt32 (fromString h 16) 4"
    by simp_all
  have "toNumberString_loop 10 (readInt32 (fromString h 16) 0) (readInt32 (fromString h 16) 4) []
        = Some (Inr (decimal_of_nat (hex_value h) @ []))"
    using nn by (rule toNumberString_loop_decimal) (simp add: v)
  then have a: "toNumberString (fromString h 16) (Some 10) = Some (Inr (decimal_of_nat (hex_value h)))"
    and a': "toNumberString (fromString h 16) None = Some (Inr (decimal_of_nat (hex_value h)))"
    by (simp_all add: toNumberString_def)
  have "(16::nat) ^ length h \<le> 16 ^ 16" using assms(2) by (intro power_increasing) simp_all
  with hex_value_bound [OF assms(1)] have b: "hex_value h < 2 ^ 64" by simp
  show ?thesis
    using a a' b decimal_value_decimal_of_nat no_leading_zeros_decimal_of_nat by simp
qed

theorem hex_to_decimal_exact_witness:
  "well_formed_hex ''fFfffffffffffff0'' \<and> length ''fFfffffffffffff0'' \<le> 16
   \<and> toNumberString (fromString ''fFfffffffffffff0'' 16) (Some 10) = Some (Inr ''18446744073709551600'')"
  using hex_to_decimal_exact [of "''fFfffffffffffff0''"]
  by (simp add: well_formed_hex_def is_hex_digit_def hex_table_def hex_value_def hex_digit_of_def
        decimal_digit_def)

subsection \<open>The converter returns on every buffer it builds\<close>

lemma list_all_update: "list_all P xs \<Longrightarrow> P x \<Longrightarrow> list_all P (xs[i := x])"
proof -
  assume a: "list_all P xs" "P x"
  have "set (xs[i := x]) \<subseteq> insert x (set xs)" by (rule set_update_subset_insert)
  with a show ?thesis by (auto simp: list_all_iff)
qed

lemma ToUint8_is_byte: "is_byte (ToUint8 x)"
  by (simp add: is_byte_def ToUint8_def)

lemma writeUInt32BE_bytes_in_range:
  assumes "list_all is_byte buffer"
  shows "list_all is_byte (writeUInt32BE buffer v offset)"
  unfolding writeUInt32BE_def Let_def
  by (intro list_all_update assms ToUint8_is_byte)

lemma readInt32_nonneg:
  assumes "list_all is_byte buffer" and "offset + 3 < length buffer"
  shows "0 \<le> readInt32 buffer offset"
proof -
  have b: "\<And>i. i < length buffer \<Longrightarrow> 0 \<le> buffer ! i \<and> buffer ! i < 256"
    using assms(1) by (simp add: list_all_length is_byte_def)
  have "0 \<le> buffer ! (offset + 0) * 16777216" using b [of "offset + 0"] assms(2) by simp
  moreover have "js_shl (buffer ! (offset + 1)) 16 = buffer ! (offset + 1) * 2 ^ 16"
    using b [of "offset + 1"] assms(2) by (intro js_shl_byte) simp_all
  moreover have "js_shl (buffer ! (offset + 2)) 8 = buffer ! (offset + 2) * 2 ^ 8"
    using b [of "offset + 2"] assms(2) by (intro js_shl_byte) simp_all
  moreover have "0 \<le> buffer ! (offset + 1)" "0 \<le> buffer ! (offset + 2)" "0 \<le> buffer ! (offset + 3)"
    using b [of "offset + 1"] b [of "offset + 2"] b [of "offset + 3"] assms(2) by simp_all
  ultimately show ?thesis by (simp add: readInt32_def)
qed

lemma length_writeUInt32BE: "length (writeUInt32BE buffer v offset) = length buffer"
  by (simp add: writeUInt32BE_def Let_def)

lemma fromString_buffer:
  "list_all is_byte (fromString str raddix) \<and> length (fromString str raddix) = 8"
proof -
  have zero: "list_all is_byte (replicate 8 (0::int))" by (simp add: is_byte_def list_all_iff)
  have w: "\<And>hi lo. list_all is_byte (writeUInt32BE (writeUInt32BE (replicate 8 0) hi 0) lo 4)
                  \<and> length (writeUInt32BE (writeUInt32BE (replicate 8 0) hi 0) lo 4) = 8"
    by (simp add: writeUInt32BE_bytes_in_range zero length_writeUInt32BE)
  show ?thesis
    unfolding fromString_def Let_def
    by (simp only: split_beta w)
qed

lemma toNumberString_fromString_returns:
  "\<exists>digits. toNumberString (fromString str raddix) None = Some (Inr digits)"
proof -
  from fromString_buffer [of str raddix]
  have "0 \<le> readInt32 (fromString str raddix) 0" "0 \<le> readInt32 (fromString str raddix) 4"
    by (simp_all add: readInt32_nonneg)
  then have "toNumberString_loop 10 (readInt32 (fromString str raddix) 0)
               (readInt32 (fromString str raddix) 4) []
             = Some (Inr (decimal_of_nat (nat (readInt32 (fromString str raddix) 0 * UINT_MAX
                   + readInt32 (fromString str raddix) 4)) @ []))"
    by (rule toNumberString_loop_decimal) simp
  then show ?thesis by (simp add: toNumberString_def)
qed

section \<open>Error messages and construction\<close>

text \<open>
  Claim C4. For every input value, \<^verbatim>\<open>getErrorMessage\<close> returns: a message and the
  console afterwards, never an exception. When rendering the input succeeds the
  message is the rendering and nothing is written; when rendering throws (as it does
  on \<^verbatim>\<open>null\<close> and \<^verbatim>\<open>undefined\<close>), the error is written to the console as a warning
  and the message is the fixed fallback text.
\<close>

theorem getErrorMessage_never_raises:
  "\<exists>logMessage console1.
     getErrorMessage exn console0 = Inr (logMessage, console1)
     \<and> (case getErrorMessage_try exn of
           Inr rendered \<Rightarrow> logMessage = rendered \<and> console1 = console0
         | Inl error \<Rightarrow>
             logMessage = ''There was an error while attempting to log another error. Check earlier logs for a warning.''
             \<and> console1 = console0 @ [ConsoleWarn (Caught error)])"
  by (cases "getErrorMessage_try exn") (simp_all add: getErrorMessage_def errorWhileLogging_def)

lemma getErrorMessage_null:
  "getErrorMessage NullValue console0 = Inr (errorWhileLogging, console0 @ [ConsoleWarn (Caught TypeError)])"
  "getErrorMessage UndefinedValue console0 = Inr (errorWhileLogging, console0 @ [ConsoleWarn (Caught TypeError)])"
  by (simp_all add: getErrorMessage_def)

text \<open>
  Claim C6, as stated, fails: the constructor accepts a retention count of 2.5, which
  is not a positive integer.
\<close>

theorem constructor_accepts_fraction:
  "succeeds (FileLogger_constructor example_externals example_manager (example_FileLoggerConfig (Num (5 / 2))))
   \<and> \<not> is_positive_integer (retentionDays (example_FileLoggerConfig (Num (5 / 2))))"
proof -
  have "\<lfloor>5 / 2 :: rat\<rfloor> = 2" by (simp add: floor_eq_iff)
  then have "\<not> is_positive_integer (Num (5 / 2))"
    by (simp add: is_positive_integer_def)
  then show ?thesis
    by (simp add: succeeds_def FileLogger_constructor_def example_externals_def
          example_FileLoggerConfig_def isEmptyOrWhiteSpace_def isWhiteSpace_char_def Let_def)
qed

text \<open>
  Claim C6, amended. Construction fails on a path that is not absolute, and on a
  retention count that is not greater than zero. When it succeeds, the path is
  absolute, the count is greater than zero (it need not be an integer), and the
  stored \<^verbatim>\<open>_retentionDays\<close> is the count itself when it is a positive integer below
  \<open>10^21\<close>, and the integer part of any count from 1 up to \<open>10^21\<close>.
\<close>

theorem constructor_validation:
  "(\<not> isAbsolute ext (logDirPath config) \<longrightarrow>
      FileLogger_constructor ext manager config = Inl (ArgumentError ''logDirPath''))
   \<and> (ensureHasValue ext (logDirPath config) \<and> isAbsolute ext (logDirPath config)
        \<and> \<not> greater_than_zero (retentionDays config) \<longrightarrow>
      FileLogger_constructor ext manager config = Inl (ArgumentError ''retentionDays''))
   \<and> (\<forall>this ops. FileLogger_constructor ext manager config = Inr (this, ops) \<longrightarrow>
        isAbsolute ext (logDirPath config)
        \<and> greater_than_zero (retentionDays config)
        \<and> (\<forall>n. retentionDays config = Num (of_int n) \<and> n < 10 ^ 21 \<longrightarrow> p_retentionDays this = Some n)
        \<and> (\<forall>x. retentionDays config = Num x \<and> 1 \<le> x \<and> x < 10 ^ 21 \<longrightarrow> p_retentionDays this = Some \<lfloor>x\<rfloor>))"
proof (intro conjI allI impI)
  assume "\<not> isAbsolute ext (logDirPath config)"
  then show "FileLogger_constructor ext manager config = Inl (ArgumentError ''logDirPath'')"
    by (simp add: FileLogger_constructor_def)
next
  assume "ensureHasValue ext (logDirPath config) \<and> isAbsolute ext (logDirPath config)
        \<and> \<not> greater_than_zero (retentionDays config)"
  then show "FileLogger_constructor ext manager config = Inl (ArgumentError ''retentionDays'')"
    by (simp add: FileLogger_constructor_def)
next
  fix this ops
  assume ok: "FileLogger_constructor ext manager config = Inr (this, ops)"
  then have abs: "ensureHasValue ext (logDirPath config) \<and> isAbsolute ext (logDirPath config)"
    and pos: "greater_than_zero (retentionDays config)"
    by (auto simp: FileLogger_constructor_def Let_def split: if_splits)
  from ok abs pos have stored: "p_retentionDays this = parseInt_toString ext (retentionDays config)"
    by (auto simp: FileLogger_constructor_def Let_def split: if_splits option.splits)
  show "isAbsolute ext (logDirPath config)" using abs by simp
  show "greater_than_zero (retentionDays config)" by (rule pos)
  { fix n :: int
    assume n: "retentionDays config = Num (of_int n) \<and> n < 10 ^ 21"
    with pos have "0 < n" by simp
    then have "1 \<le> n" by simp
    then have "(1::rat) / 1000000 \<le> \<bar>of_int n\<bar>" by simp
    moreover have "\<bar>of_int n :: rat\<bar> < 10 ^ 21" using n \<open>0 < n\<close> 
      by (metis abs_of_pos of_int_0_less_iff of_int_less_numeral_power_cancel_iff)
    ultimately show "p_retentionDays this = Some n"
      using n \<open>0 < n\<close> by (simp add: stored)
  }
  { fix x :: rat
    assume x: "retentionDays config = Num x \<and> 1 \<le> x \<and> x < 10 ^ 21"
    then show "p_retentionDays this = Some \<lfloor>x\<rfloor>" by (simp add: stored)
  }
qed

section \<open>The file sink: writing and purging\<close>

lemma same_channels_refl: "same_channels w w"
  by (simp add: same_channels_def)

lemma same_channels_trans: "same_channels w2 w1 \<Longrightarrow> same_channels w1 w \<Longrightarrow> same_channels w2 w"
  by (simp add: same_channels_def)

lemma stat_frame:
  "stat ext file w = (r, w1) \<Longrightarrow> w1 = w\<lparr>fs_calls := fs_calls w @ [Stat file]\<rparr>"
  by (auto simp: stat_def Let_def split: option.splits)

lemma unlink_frame:
  "unlink ext file w = (r, w1) \<Longrightarrow> same_channels w1 w"
  by (auto simp: unlink_def Let_def same_channels_def split: option.splits)

lemma purgeLogs_file_frame:
  assumes "purgeLogs_file ext this now file w = (r, w1)"
  shows "same_channels w1 w"
proof -
  obtain rs ws where st: "stat ext file w = (rs, ws)" by (cases "stat ext file w")
  note ws = stat_frame [OF st]
  show ?thesis
  proof (cases rs)
    case (Inl e)
    with assms st have "w1 = ws" by (simp add: purgeLogs_file_def)
    then show ?thesis by (simp add: ws same_channels_def)
  next
    case (Inr stats)
    show ?thesis
    proof (cases "isFile stats \<and> lt_minus (birthtime stats) now (fromDays_toMilliSeconds (p_retentionDays this))")
      case True
      with assms st Inr have u: "unlink ext file ws = (r, w1)" by (simp add: purgeLogs_file_def)
      from unlink_frame [OF u] have "same_channels w1 ws" .
      moreover have "same_channels ws w" by (simp add: ws same_channels_def)
      ultimately show ?thesis by (rule same_channels_trans)
    next
      case False
      with assms st Inr have "w1 = ws" by (auto simp: purgeLogs_file_def)
      then show ?thesis by (simp add: ws same_channels_def)
    qed
  qed
qed

lemma forEachAsync_purge_frame:
  "forEachAsync (purgeLogs_file ext this now) files w = (r, w1) \<Longrightarrow> same_channels w1 w"
proof (induction files arbitrary: w)
  case Nil
  then show ?case by (simp add: same_channels_refl)
next
  case (Cons f fs)
  obtain r0 w0 where one: "purgeLogs_file ext this now f w = (r0, w0)"
    by (cases "purgeLogs_file ext this now f w")
  note fr = purgeLogs_file_frame [OF one]
  show ?case
  proof (cases r0)
    case (Some e)
    with Cons.prems one have "w1 = w0" by simp
    with fr show ?thesis by simp
  next
    case None
    with Cons.prems one have "forEachAsync (purgeLogs_file ext this now) fs w0 = (r, w1)" by simp
    from Cons.IH [OF this] fr show ?thesis by (rule same_channels_trans)
  qed
qed

lemma purgeLogs_frame:
  assumes "purgeLogs ext clk (this, w) = (r, this1, w1)"
  shows "same_channels w1 w"
    and "this1 = this \<or> this1 = this\<lparr>p_lastPurgedAt := now_ms clk\<rparr>"
proof -
  let ?skip = "p_lastPurgedAt this \<noteq> 0
       \<and> gt_minus (p_lastPurgedAt this) (now_ms clk) (fromDays_toMilliSeconds (p_retentionDays this))"
  have "same_channels w1 w \<and> (this1 = this \<or> this1 = this\<lparr>p_lastPurgedAt := now_ms clk\<rparr>)"
  proof (cases ?skip)
    case True
    with assms have "this1 = this" "w1 = w" by (simp_all add: purgeLogs_def Let_def)
    then show ?thesis by (simp add: same_channels_refl)
  next
    case False
    obtain rd wd where rd: "readdir ext w = (rd, wd)" by (cases "readdir ext w")
    then have wd: "wd = w\<lparr>fs_calls := fs_calls w @ [Readdir]\<rparr>"
      by (auto simp: readdir_def Let_def split: option.splits)
    then have swd: "same_channels wd w" by (simp add: same_channels_def)
    show ?thesis
    proof (cases rd)
      case (Inl e)
      with assms False rd have "this1 = this" "w1 = wd" by (simp_all add: purgeLogs_def Let_def)
      with swd show ?thesis by simp
    next
      case (Inr files)
      obtain rf wf where fe: "forEachAsync (purgeLogs_file ext this (now_ms clk)) files wd = (rf, wf)"
        by (cases "forEachAsync (purgeLogs_file ext this (now_ms clk)) files wd")
      from forEachAsync_purge_frame [OF fe] swd have swf: "same_channels wf w"
        by (rule same_channels_trans)
      from assms False rd Inr fe have "w1 = wf"
        and "this1 = this \<or> this1 = this\<lparr>p_lastPurgedAt := now_ms clk\<rparr>"
        by (auto simp: purgeLogs_def Let_def split: option.splits)
      with swf show ?thesis by simp
    qed
  qed
  then show "same_channels w1 w"
    and "this1 = this \<or> this1 = this\<lparr>p_lastPurgedAt := now_ms clk\<rparr>" by simp_all
qed

lemma appendFile_frame:
  assumes "appendFile ext clk file data w = (r, w1)"
  shows "console w1 = console w \<and> span_status w1 = span_status w \<and> stdout w1 = stdout w
         \<and> outbound w1 = outbound w \<and> fallback_calls w1 = fallback_calls w
         \<and> fs_calls w1 = fs_calls w @ [AppendFile file data]"
    and "fs_fault ext (AppendFile file data) = Some e \<Longrightarrow> r = Some e \<and> directory w1 = directory w"
  using assms by (auto simp: appendFile_def Let_def split: option.splits if_splits)

text \<open>The result of \<^verbatim>\<open>_writeToLog\<close> once the guard on the message has passed.\<close>

lemma writeToLog_unfold:
  assumes "ensureHasValue ext msg"
    and "writeToLog_line ext clk this status msg = (line, st)"
    and "appendFile ext clk (take 13 (getDateTime (base this) clk) @ ''.log'') (CHR 0x0A # line)
           (case st of None \<Rightarrow> w | Some s \<Rightarrow> w\<lparr>span_status := Some s\<rparr>) = (r1, w1)"
    and "purgeLogs ext clk (this\<lparr>p_mutex_locked := True\<rparr>, w1) = (r2, this2, w2)"
  shows "writeToLog ext clk status msg (this, w) =
           (case r1 of
              Some e \<Rightarrow> (None, this\<lparr>p_mutex_locked := False\<rparr>,
                          w1\<lparr>console := console w1 @ [ConsoleError (Caught e)]\<rparr>)
            | None \<Rightarrow>
                (None, this2\<lparr>p_mutex_locked := False\<rparr>,
                 (case r2 of
                    Some e \<Rightarrow> w2\<lparr>console := console w2 @ [ConsoleError (Caught e)]\<rparr>
                  | None \<Rightarrow> w2)))"
  using assms by (simp add: writeToLog_def Let_def split: option.splits)

lemma writeToLog_result:
  assumes "ensureHasValue ext msg"
  shows "\<exists>this1 w1. writeToLog ext clk status msg (this, w) = (None, this1, w1)
           \<and> \<not> p_mutex_locked this1
           \<and> filter is_AppendFile (fs_calls w1)
               = filter is_AppendFile (fs_calls w)
                 @ [AppendFile (take 13 (getDateTime (base this) clk) @ ''.log'')
                      (CHR 0x0A # fst (writeToLog_line ext clk this status msg))]
           \<and> (\<forall>e. fs_fault ext (AppendFile (take 13 (getDateTime (base this) clk) @ ''.log'')
                                   (CHR 0x0A # fst (writeToLog_line ext clk this status msg))) = Some e
                \<longrightarrow> console w1 = console w @ [ConsoleError (Caught e)]
                    \<and> directory w1 = directory w)"
proof -
  obtain line st where ln: "writeToLog_line ext clk this status msg = (line, st)"
    by (cases "writeToLog_line ext clk this status msg")
  define w0 where "w0 = (case st of None \<Rightarrow> w | Some s \<Rightarrow> w\<lparr>span_status := Some s\<rparr>)"
  have w0: "console w0 = console w" "fs_calls w0 = fs_calls w" "directory w0 = directory w"
    by (simp_all add: w0_def split: option.splits)
  let ?file = "take 13 (getDateTime (base this) clk) @ ''.log''"
  obtain r1 w1 where ap: "appendFile ext clk ?file (CHR 0x0A # line) w0 = (r1, w1)"
    by (cases "appendFile ext clk ?file (CHR 0x0A # line) w0")
  obtain r2 this2 w2 where pg: "purgeLogs ext clk (this\<lparr>p_mutex_locked := True\<rparr>, w1) = (r2, this2, w2)"
    by (cases "purgeLogs ext clk (this\<lparr>p_mutex_locked := True\<rparr>, w1)") auto
  note unf = writeToLog_unfold [OF assms ln ap [unfolded w0_def] pg]
  note apf = appendFile_frame [OF ap]
  note pgf = purgeLogs_frame [OF pg]
  show ?thesis
  proof (cases r1)
    case (Some e1)
    have "\<And>e. fs_fault ext (AppendFile ?file (CHR 0x0A # line)) = Some e \<Longrightarrow> e = e1 \<and> directory w1 = directory w"
      using apf(2) Some w0 by auto
    then show ?thesis
      using unf Some apf(1) w0 ln by auto
  next
    case None
    have nofault: "\<And>e. fs_fault ext (AppendFile ?file (CHR 0x0A # line)) \<noteq> Some e"
      using apf(2) None by auto
    have calls: "filter is_AppendFile (fs_calls w2)
                 = filter is_AppendFile (fs_calls w) @ [AppendFile ?file (CHR 0x0A # line)]"
      using pgf(1) apf(1) w0 by (simp add: same_channels_def)
    have calls': "filter is_AppendFile (fs_calls (case r2 of
                    Some e \<Rightarrow> w2\<lparr>console := console w2 @ [ConsoleError (Caught e)]\<rparr>
                  | None \<Rightarrow> w2)) = filter is_AppendFile (fs_calls w2)"
      by (simp split: option.splits)
    have unlocked: "\<not> p_mutex_locked (this2\<lparr>p_mutex_locked := False\<rparr>)" by simp
    show ?thesis
      using unf None calls calls' nofault ln by auto
  qed
qed

text \<open>Whether \<^verbatim>\<open>_writeToLog\<close> rejects is decided by the guard on the message alone.\<close>

lemma writeToLog_outcome:
  "fst (writeToLog ext clk status msg (this, w))
   = (if ensureHasValue ext msg then None else Some (ArgumentError ''message''))"
proof (cases "ensureHasValue ext msg")
  case True
  from writeToLog_result [OF True, of clk status this w] obtain this1 w1
    where "writeToLog ext clk status msg (this, w) = (None, this1, w1)" by blast
  with True show ?thesis by simp
next
  case False
  then show ?thesis by (simp add: writeToLog_def)
qed

lemma FileLogger_as_fallback_outcome:
  "FileLogger_as_fallback ext clk (this, w) (FallbackDebug m)
   = (if p_env (base this) = ''dev'' \<and> \<not> ensureHasValue ext m
      then Some (ArgumentError ''message'') else None)"
  "FileLogger_as_fallback ext clk (this, w) (FallbackInfo m)
   = (if ensureHasValue ext m then None else Some (ArgumentError ''message''))"
  "FileLogger_as_fallback ext clk (this, w) (FallbackWarning (Text m))
   = (if ensureHasValue ext m then None else Some (ArgumentError ''message''))"
  "FileLogger_as_fallback ext clk (this, w) (FallbackError (Text m))
   = (if ensureHasValue ext m then None else Some (ArgumentError ''message''))"
  "FileLogger_as_fallback ext clk (this, w) (FallbackWarning (Caught e))
   = (if ensureHasValue ext ''Error: at <anonymous>'' then None
      else Some (ArgumentError ''message''))"
  "FileLogger_as_fallback ext clk (this, w) (FallbackError (Caught e))
   = (if ensureHasValue ext ''Error: at <anonymous>'' then None
      else Some (ArgumentError ''message''))"
  by (simp_all add: FileLogger_logDebug_def FileLogger_logInfo_def FileLogger_logWarning_def
        FileLogger_logError_def getErrorMessage_def writeToLog_outcome)

lemma map_of_distinct_entry:
  "distinct (map fst dir) \<Longrightarrow> (n, e) \<in> set dir \<Longrightarrow> map_of dir n = Some e"
  by simp

lemma forEachAsync_purge_directory:
  assumes nofault: "\<forall>op. fs_fault ext op = None"
  shows "distinct (map fst (directory w)) \<Longrightarrow> set ns \<subseteq> fst ` set (directory w) \<Longrightarrow> distinct ns \<Longrightarrow>
         \<exists>w1. forEachAsync (purgeLogs_file ext this now) ns w = (None, w1)
            \<and> directory w1 = filter (\<lambda>(n, e). n \<notin> set ns \<or> \<not> expired this now e) (directory w)"
proof (induction ns arbitrary: w)
  case Nil
  then show ?case by simp
next
  case (Cons x xs)
  from Cons.prems(2) obtain e where xe: "(x, e) \<in> set (directory w)" by auto
  with Cons.prems(1) have look: "map_of (directory w) x = Some e" by simp
  define ws where "ws = w\<lparr>fs_calls := fs_calls w @ [Stat x]\<rparr>"
  have st: "stat ext x w = (Inr e, ws)"
    using nofault look by (simp add: stat_def Let_def ws_def)
  have dws: "directory ws = directory w" by (simp add: ws_def)
  have uniq: "\<And>e'. (x, e') \<in> set (directory w) \<Longrightarrow> e' = e"
    using Cons.prems(1) look by (metis map_of_distinct_entry option.inject)
  show ?case
  proof (cases "expired this now e")
    case True
    define wu where "wu = ws\<lparr>fs_calls := fs_calls ws @ [Unlink x], directory := AList.delete x (directory ws)\<rparr>"
    have un: "unlink ext x ws = (None, wu)"
      using nofault look dws by (simp add: unlink_def Let_def wu_def)
    have one: "purgeLogs_file ext this now x w = (None, wu)"
      using st un True by (simp add: purgeLogs_file_def expired_def)
    have dwu: "directory wu = filter (\<lambda>p. fst p \<noteq> x) (directory w)"
      by (simp add: wu_def dws AList.delete_eq case_prod_unfold) (metis)
    have d1: "distinct (map fst (directory wu))"
      using Cons.prems(1) by (simp add: dwu distinct_map_filter)
    have d2: "set xs \<subseteq> fst ` set (directory wu)"
    proof
      fix n
      assume n: "n \<in> set xs"
      with Cons.prems(2) obtain b where b: "(n, b) \<in> set (directory w)" by auto
      from n Cons.prems(3) have "n \<noteq> x" by auto
      with b have "(n, b) \<in> set (directory wu)" by (simp add: dwu)
      then show "n \<in> fst ` set (directory wu)" by (rule rev_image_eqI) simp
    qed
    have d3: "distinct xs" using Cons.prems(3) by simp
    from Cons.IH [OF d1 d2 d3] obtain w1
      where r: "forEachAsync (purgeLogs_file ext this now) xs wu = (None, w1)"
        and d: "directory w1 = filter (\<lambda>(n, e). n \<notin> set xs \<or> \<not> expired this now e) (directory wu)"
      by blast
    have "directory w1 = filter (\<lambda>(n, e). n \<notin> set (x # xs) \<or> \<not> expired this now e) (directory w)"
      unfolding d dwu filter_filter
      by (rule filter_cong) (use True uniq in auto)
    with one r show ?thesis by simp
  next
    case False
    have one: "purgeLogs_file ext this now x w = (None, ws)"
      using st False by (auto simp: purgeLogs_file_def expired_def)
    have d1: "distinct (map fst (directory ws))" using Cons.prems(1) by (simp add: dws)
    have d2: "set xs \<subseteq> fst ` set (directory ws)" using Cons.prems(2) by (simp add: dws)
    have d3: "distinct xs" using Cons.prems(3) by simp
    from Cons.IH [OF d1 d2 d3] obtain w1
      where r: "forEachAsync (purgeLogs_file ext this now) xs ws = (None, w1)"
        and d: "directory w1 = filter (\<lambda>(n, e). n \<notin> set xs \<or> \<not> expired this now e) (directory ws)"
      by blast
    have "directory w1 = filter (\<lambda>(n, e). n \<notin> set (x # xs) \<or> \<not> expired this now e) (directory w)"
      unfolding d dws
      by (rule filter_cong) (use False uniq in auto)
    with one r show ?thesis by simp
  qed
qed

lemma purgeLogs_skip:
  assumes "p_retentionDays this = Some days"
    and "p_lastPurgedAt this \<noteq> 0" and "now_ms clk - days * 86400000 < p_lastPurgedAt this"
  shows "purgeLogs ext clk (this, w) = (None, this, w)"
  using assms by (simp add: purgeLogs_def Let_def gt_minus_def fromDays_toMilliSeconds_def)

lemma purgeLogs_sweep:
  assumes nofault: "\<forall>op. fs_fault ext op = None"
    and dist: "distinct (map fst (directory w))"
    and days: "p_retentionDays this = Some days"
    and due: "p_lastPurgedAt this = 0 \<or> p_lastPurgedAt this \<le> now_ms clk - days * 86400000"
  shows "\<exists>w1. purgeLogs ext clk (this, w) = (None, this\<lparr>p_lastPurgedAt := now_ms clk\<rparr>, w1)
           \<and> directory w1 = filter (\<lambda>(name, entry). \<not> (isFile entry \<and> birthtime entry < now_ms clk - days * 86400000))
                               (directory w)"
proof -
  define wd where "wd = w\<lparr>fs_calls := fs_calls w @ [Readdir]\<rparr>"
  have rd: "readdir ext w = (Inr (map fst (directory w)), wd)"
    using nofault by (simp add: readdir_def Let_def wd_def)
  have dwd: "directory wd = directory w" by (simp add: wd_def)
  have "\<exists>w1. forEachAsync (purgeLogs_file ext this (now_ms clk)) (map fst (directory w)) wd = (None, w1)
     \<and> directory w1 = filter (\<lambda>(n, e). n \<notin> set (map fst (directory w)) \<or> \<not> expired this (now_ms clk) e) (directory wd)"
    by (rule forEachAsync_purge_directory [OF nofault]) (use dist in \<open>simp_all add: dwd\<close>)
  then obtain w1 where r: "forEachAsync (purgeLogs_file ext this (now_ms clk)) (map fst (directory w)) wd = (None, w1)"
    and d: "directory w1 = filter (\<lambda>(n, e). n \<notin> set (map fst (directory w)) \<or> \<not> expired this (now_ms clk) e) (directory w)"
    by (auto simp: dwd)
  have exp: "\<And>e. expired this (now_ms clk) e = (isFile e \<and> birthtime e < now_ms clk - days * 86400000)"
    by (simp add: expired_def lt_minus_def fromDays_toMilliSeconds_def days mult.commute)
  have d': "directory w1 = filter (\<lambda>(name, entry). \<not> (isFile entry \<and> birthtime entry < now_ms clk - days * 86400000)) (directory w)"
    unfolding d by (rule filter_cong) (auto simp: exp intro: rev_image_eqI)
  have "purgeLogs ext clk (this, w) = (None, this\<lparr>p_lastPurgedAt := now_ms clk\<rparr>, w1)"
    using due rd r days by (auto simp: purgeLogs_def Let_def gt_minus_def fromDays_toMilliSeconds_def)
  with d' show ?thesis by blast
qed








text \<open>
  Claim C7. With a retention of \<open>days\<close> days and a file system that does not fail:
  \<^verbatim>\<open>_purgeLogs\<close> does nothing when the last purge is less than the retention window
  ago; otherwise it removes exactly the files whose creation time is more than the
  retention window before now, keeps every other entry, and records now as the time
  of the last purge. A file created \<open>days - 1\<close> days ago is still there after the
  call; a file older than the window is gone after a sweep.
\<close>

theorem purge_policy:
  assumes "\<forall>op. fs_fault ext op = None"
    and "distinct (map fst (directory w))"
    and "p_retentionDays this = Some days"
  shows "(p_lastPurgedAt this \<noteq> 0 \<and> now_ms clk - days * 86400000 < p_lastPurgedAt this \<longrightarrow>
            purgeLogs ext clk (this, w) = (None, this, w))
         \<and> (p_lastPurgedAt this = 0 \<or> p_lastPurgedAt this \<le> now_ms clk - days * 86400000 \<longrightarrow>
              (\<exists>w1. purgeLogs ext clk (this, w) = (None, this\<lparr>p_lastPurgedAt := now_ms clk\<rparr>, w1)
                 \<and> directory w1
                     = filter (\<lambda>(name, entry).
                                 \<not> (isFile entry \<and> birthtime entry < now_ms clk - days * 86400000))
                         (directory w)))
         \<and> (\<forall>name entry. (name, entry) \<in> set (directory w)
                \<and> birthtime entry = now_ms clk - (days - 1) * 86400000 \<longrightarrow>
              (name, entry) \<in> set (directory (snd (snd (purgeLogs ext clk (this, w))))))
         \<and> (\<forall>name entry. (p_lastPurgedAt this = 0 \<or> p_lastPurgedAt this \<le> now_ms clk - days * 86400000)
                \<and> isFile entry \<and> birthtime entry < now_ms clk - days * 86400000 \<longrightarrow>
              (name, entry) \<notin> set (directory (snd (snd (purgeLogs ext clk (this, w))))))"
proof -
  let ?due = "p_lastPurgedAt this = 0 \<or> p_lastPurgedAt this \<le> now_ms clk - days * 86400000"
  have skip: "\<not> ?due \<Longrightarrow> purgeLogs ext clk (this, w) = (None, this, w)"
    using purgeLogs_skip [OF assms(3), of clk ext w] by auto
  have sweep: "?due \<Longrightarrow> \<exists>w1. purgeLogs ext clk (this, w) = (None, this\<lparr>p_lastPurgedAt := now_ms clk\<rparr>, w1)
                 \<and> directory w1
                     = filter (\<lambda>(name, entry).
                                 \<not> (isFile entry \<and> birthtime entry < now_ms clk - days * 86400000))
                         (directory w)"
    by (rule purgeLogs_sweep [OF assms])
  have kept: "(name, entry) \<in> set (directory (snd (snd (purgeLogs ext clk (this, w)))))"
    if "(name, entry) \<in> set (directory w)" "birthtime entry = now_ms clk - (days - 1) * 86400000"
    for name entry
  proof (cases ?due)
    case True
    from sweep [OF True] that show ?thesis by (auto simp: algebra_simps)
  next
    case False
    from skip [OF False] that show ?thesis by simp
  qed
  have gone: "(name, entry) \<notin> set (directory (snd (snd (purgeLogs ext clk (this, w)))))"
    if "?due" "isFile entry" "birthtime entry < now_ms clk - days * 86400000" for name entry
    using sweep [OF that(1)] that(2,3) by auto
  show ?thesis
    using skip sweep kept gone by (intro conjI allI impI) (auto simp: not_le)
qed

theorem purge_policy_witness:
  "(\<forall>op. fs_fault example_externals op = None)
   \<and> distinct (map fst (directory example_log_world))
   \<and> p_retentionDays example_FileLogger = Some 2
   \<and> p_lastPurgedAt example_FileLogger = 0
   \<and> map fst (directory (snd (snd (purgeLogs example_externals example_clock
                                      (example_FileLogger, example_log_world)))))
       = [''2026-01-01T03.log'']"
proof -
  have h1: "\<forall>op. fs_fault example_externals op = None"
    by (simp add: example_externals_def)
  have h2: "distinct (map fst (directory example_log_world))"
    by (simp add: example_log_world_def example_world_def)
  have h3: "p_retentionDays example_FileLogger = Some 2"
    and h4: "p_lastPurgedAt example_FileLogger = 0"
    by (simp_all add: example_FileLogger_def)
  from purge_policy [OF h1 h2 h3, of example_clock] h4
  obtain w1 where run: "purgeLogs example_externals example_clock (example_FileLogger, example_log_world)
                        = (None, example_FileLogger\<lparr>p_lastPurgedAt := now_ms example_clock\<rparr>, w1)"
    and dir: "directory w1
              = filter (\<lambda>(name, entry).
                          \<not> (isFile entry \<and> birthtime entry < now_ms example_clock - 2 * 86400000))
                  (directory example_log_world)"
    by auto
  have "map fst (directory w1) = [''2026-01-01T03.log'']"
    unfolding dir by (simp add: example_log_world_def example_world_def example_clock_def)
  with run h1 h2 h3 h4 show ?thesis by simp
qed

text \<open>
  The retention a constructed sink stores, for a count \<^verbatim>\<open>toString\<close> writes in decimal
  notation: it is not negative.
\<close>

lemma constructed_retention:
  assumes "FileLogger_constructor ext manager config = Inr (this, ops)"
    and "retentionDays config = Num x" and "1 / 1000000 \<le> x" and "x < 10 ^ 21"
  shows "p_retentionDays this = Some \<lfloor>x\<rfloor> \<and> 0 \<le> \<lfloor>x\<rfloor>"
proof -
  from assms(3) have pos: "0 < x" by simp
  then have ab: "\<bar>x\<bar> = x" by simp
  from assms(1) have "p_retentionDays this = parseInt_toString ext (retentionDays config)"
    by (auto simp: FileLogger_constructor_def Let_def split: if_splits option.splits)
  with assms(2,3,4) pos ab have "p_retentionDays this = Some \<lfloor>x\<rfloor>" by simp
  moreover from pos have "0 \<le> \<lfloor>x\<rfloor>" by simp
  ultimately show ?thesis by simp
qed



lemma example_base_env:
  "p_env (base example_FileLogger) = ''dev''"
  "p_env (slack_base example_SlackLogger) = ''dev''"
  "p_env (base production_FileLogger) = ''production''"
  "p_env (slack_base production_SlackLogger) = ''production''"
  by (simp_all add: example_FileLogger_def example_SlackLogger_def production_FileLogger_def
        production_SlackLogger_def BaseLogger_constructor_def example_manager_def)



text \<open>
  Claim C10. The environment of a logger is the configured one in lower case, and
  \<^verbatim>\<open>"dev"\<close> when none is configured. In an unconfigured process, \<^verbatim>\<open>logDebug\<close> of a
  file sink is the write of a debug line, and \<^verbatim>\<open>logDebug\<close> of a Slack sink appends
  its event: debug output is on by default.
\<close>

theorem unconfigured_env_is_dev:
  "p_env (BaseLogger_constructor manager config)
     = (case config_env manager of None \<Rightarrow> ''dev'' | Some e \<Rightarrow> toLowerCase e)
   \<and> (config_env manager = None \<longrightarrow>
        (\<forall>this ops. FileLogger_constructor ext manager fconfig = Inr (this, ops) \<longrightarrow>
           FileLogger_logDebug ext clk msg (this, w) = writeToLog ext clk LogPrefix_debug msg (this, w))
        \<and> (\<forall>slack. SlackLogger_constructor ext manager sconfig = Inr slack \<longrightarrow>
             p_messages (fst (snd (SlackLogger_logDebug clk msg (slack, w))))
               = [apply_logInjector slack (SlackLogger_record slack clk ''Debug'' msg ''#F8F8F8'')]))"
proof (intro conjI impI allI)
  show "p_env (BaseLogger_constructor manager config)
     = (case config_env manager of None \<Rightarrow> ''dev'' | Some e \<Rightarrow> toLowerCase e)"
    by (simp add: BaseLogger_constructor_def split: option.splits)
next
  fix this ops
  assume none: "config_env manager = None"
    and ok: "FileLogger_constructor ext manager fconfig = Inr (this, ops)"
  from ok have "base this = BaseLogger_constructor manager (Some fconfig)"
    by (auto simp: FileLogger_constructor_def Let_def split: if_splits option.splits)
  with none have "p_env (base this) = ''dev''" by (simp add: BaseLogger_constructor_def)
  then show "FileLogger_logDebug ext clk msg (this, w) = writeToLog ext clk LogPrefix_debug msg (this, w)"
    by (simp add: FileLogger_logDebug_def)
next
  fix slack
  assume none: "config_env manager = None"
    and ok: "SlackLogger_constructor ext manager sconfig = Inr slack"
  from ok have "p_env (slack_base slack) = (case config_env manager of None \<Rightarrow> ''dev'' | Some e \<Rightarrow> toLowerCase e)"
    and "p_messages slack = []"
    by (auto simp: SlackLogger_constructor_def Let_def BaseLogger_constructor_def split: if_splits)
  with none show "p_messages (fst (snd (SlackLogger_logDebug clk msg (slack, w))))
               = [apply_logInjector slack (SlackLogger_record slack clk ''Debug'' msg ''#F8F8F8'')]"
    by (simp add: SlackLogger_logDebug_def push_def Let_def)
qed

lemma example_FileLogger_constructed:
  "FileLogger_constructor example_externals example_manager (example_FileLoggerConfig (Num 2))
   = Inr (example_FileLogger, [])"
  by (simp add: FileLogger_constructor_def example_externals_def example_FileLoggerConfig_def
        example_FileLogger_def isEmptyOrWhiteSpace_def isWhiteSpace_char_def Let_def)

lemma example_SlackLogger_constructed:
  "SlackLogger_constructor example_externals example_manager example_SlackLoggerConfig
   = Inr example_SlackLogger"
  by (simp add: SlackLogger_constructor_def example_externals_def example_SlackLoggerConfig_def
        example_SlackLogger_def isEmptyOrWhiteSpace_def isWhiteSpace_char_def Let_def
        BaseLogger_constructor_def example_manager_def)

theorem unconfigured_env_is_dev_witness:
  "config_env example_manager = None
   \<and> FileLogger_constructor example_externals example_manager (example_FileLoggerConfig (Num 2))
       = Inr (example_FileLogger, [])
   \<and> SlackLogger_constructor example_externals example_manager example_SlackLoggerConfig
       = Inr example_SlackLogger
   \<and> p_env (base example_FileLogger) = ''dev''
   \<and> FileLogger_logDebug example_externals example_clock ''hello'' (example_FileLogger, example_world)
       = writeToLog example_externals example_clock LogPrefix_debug ''hello''
           (example_FileLogger, example_world)
   \<and> length (p_messages (fst (snd (SlackLogger_logDebug example_clock ''hello''
        (example_SlackLogger, example_world))))) = 1"
proof -
  have n: "config_env example_manager = None" by (simp add: example_manager_def)
  note t = unconfigured_env_is_dev [of example_manager "Some (example_FileLoggerConfig (Num 2))"
          example_externals "example_FileLoggerConfig (Num 2)" example_clock "''hello''" example_world
          example_SlackLoggerConfig]
  from t n example_FileLogger_constructed
  have f: "FileLogger_logDebug example_externals example_clock ''hello'' (example_FileLogger, example_world)
       = writeToLog example_externals example_clock LogPrefix_debug ''hello''
           (example_FileLogger, example_world)"
    by blast
  from t n example_SlackLogger_constructed
  have "p_messages (fst (snd (SlackLogger_logDebug example_clock ''hello'' (example_SlackLogger, example_world))))
        = [apply_logInjector example_SlackLogger
             (SlackLogger_record example_SlackLogger example_clock ''Debug'' ''hello'' ''#F8F8F8'')]"
    by blast
  then have s: "length (p_messages (fst (snd (SlackLogger_logDebug example_clock ''hello''
        (example_SlackLogger, example_world))))) = 1"
    by simp
  show ?thesis
    using n f s example_FileLogger_constructed example_SlackLogger_constructed example_base_env(1)
    by simp
qed

section \<open>The Slack sink: batches and the fallback\<close>

lemma forEachAsync_fallback_frame:
  "forEachAsync (\<lambda>logRecord. call_fallback fb (f logRecord)) msgs w = (r, w1) \<Longrightarrow>
   outbound w1 = outbound w \<and> console w1 = console w
   \<and> (\<exists>k \<le> length msgs. fallback_calls w1 = fallback_calls w @ map f (take k msgs)
         \<and> (r = None \<longrightarrow> k = length msgs))"
proof (induction msgs arbitrary: w)
  case Nil
  then show ?case by auto
next
  case (Cons m ms)
  show ?case
  proof (cases "fb (f m)")
    case (Some e)
    then have step: "call_fallback fb (f m) w = (Some e, w\<lparr>fallback_calls := fallback_calls w @ [f m]\<rparr>)"
      by (simp add: call_fallback_def)
    with Cons.prems have "w1 = w\<lparr>fallback_calls := fallback_calls w @ [f m]\<rparr>" "r = Some e"
      by simp_all
    then show ?thesis by (auto intro!: exI [of _ 1])
  next
    case None
    then have step: "call_fallback fb (f m) w = (None, w\<lparr>fallback_calls := fallback_calls w @ [f m]\<rparr>)"
      by (simp add: call_fallback_def)
    with Cons.prems
    have "forEachAsync (\<lambda>logRecord. call_fallback fb (f logRecord)) ms
            (w\<lparr>fallback_calls := fallback_calls w @ [f m]\<rparr>) = (r, w1)"
      by simp
    from Cons.IH [OF this] obtain k where "k \<le> length ms"
      and "fallback_calls w1 = (fallback_calls w @ [f m]) @ map f (take k ms)"
      and "r = None \<longrightarrow> k = length ms"
      and "outbound w1 = outbound w" "console w1 = console w"
      by auto
    then show ?thesis by (auto intro!: exI [of _ "Suc k"])
  qed
qed

lemma call_fallback_frame:
  "call_fallback fb c w = (r, w1) \<Longrightarrow>
   w1 = w\<lparr>fallback_calls := fallback_calls w @ [c]\<rparr> \<and> r = fb c"
  by (auto simp: call_fallback_def)

lemma postMessages_catch_outbound:
  assumes "postMessages_catch this msgs error w = (r, w1)"
  shows "outbound w1 = outbound w"
proof (cases "p_fallbackLogger this")
  case None
  with assms show ?thesis by (auto simp: postMessages_catch_def)
next
  case (Some fb)
  obtain r1 wa where c1: "call_fallback fb (FallbackWarning (Text ''Error while posting to slack.'')) w = (r1, wa)"
    by (cases "call_fallback fb (FallbackWarning (Text ''Error while posting to slack.'')) w")
  obtain r2 wb where c2: "call_fallback fb (FallbackError (Caught error)) wa = (r2, wb)"
    by (cases "call_fallback fb (FallbackError (Caught error)) wa")
  obtain r3 wc where c3: "call_fallback fb (FallbackWarning (Text ''Original messages below'')) wb = (r3, wc)"
    by (cases "call_fallback fb (FallbackWarning (Text ''Original messages below'')) wb")
  obtain r4 wd where c4: "forEachAsync (\<lambda>logRecord. call_fallback fb (replay_call logRecord)) msgs wc = (r4, wd)"
    by (cases "forEachAsync (\<lambda>logRecord. call_fallback fb (replay_call logRecord)) msgs wc")
  have o: "outbound wa = outbound w" "outbound wb = outbound w" "outbound wc = outbound w"
    "outbound wd = outbound w"
    using call_fallback_frame [OF c1] call_fallback_frame [OF c2] call_fallback_frame [OF c3]
      forEachAsync_fallback_frame [OF c4] by simp_all
  have "w1 = wa \<or> w1 = wb \<or> w1 = wc \<or> w1 = wd"
    using assms Some c1 c2 c3 c4 by (auto simp: postMessages_catch_def split: option.splits)
  with o show ?thesis by auto
qed

lemma timer_catch_outbound: "outbound (timer_catch this e w) = outbound w"
  by (simp add: timer_catch_def call_fallback_def split: option.splits)

text \<open>The awaited calls on a fallback, whatever it does.\<close>

lemma forEachAsync_fallback_exact:
  "forEachAsync (\<lambda>logRecord. call_fallback fb (f logRecord)) msgs w
   = (first_rejection fb (map f msgs),
      w\<lparr>fallback_calls := fallback_calls w @ until_rejected fb (map f msgs)\<rparr>)"
proof (induction msgs arbitrary: w)
  case Nil
  show ?case by simp
next
  case (Cons m ms)
  show ?case
  proof (cases "fb (f m)")
    case None
    then have step: "call_fallback fb (f m) w = (None, w\<lparr>fallback_calls := fallback_calls w @ [f m]\<rparr>)"
      by (simp add: call_fallback_def)
    show ?thesis by (simp add: step Cons.IH None)
  next
    case (Some e)
    then have step: "call_fallback fb (f m) w = (Some e, w\<lparr>fallback_calls := fallback_calls w @ [f m]\<rparr>)"
      by (simp add: call_fallback_def)
    show ?thesis by (simp add: step Some)
  qed
qed

lemma postMessages_catch_exact:
  assumes "p_fallbackLogger this = Some fb"
  shows "postMessages_catch this msgs error w
         = (first_rejection fb (framing_calls error @ map replay_call msgs),
            w\<lparr>fallback_calls := fallback_calls w
                  @ until_rejected fb (framing_calls error @ map replay_call msgs)\<rparr>)"
proof -
  let ?c1 = "FallbackWarning (Text ''Error while posting to slack.'')"
  let ?c2 = "FallbackError (Caught error)"
  let ?c3 = "FallbackWarning (Text ''Original messages below'')"
  have call: "\<And>c w. call_fallback fb c w = (fb c, w\<lparr>fallback_calls := fallback_calls w @ [c]\<rparr>)"
    by (simp add: call_fallback_def)
  show ?thesis
  proof (cases "fb ?c1")
    case (Some e1)
    then show ?thesis by (simp add: postMessages_catch_def assms call framing_calls_def)
  next
    case n1: None
    show ?thesis
    proof (cases "fb ?c2")
      case (Some e2)
      with n1 show ?thesis by (simp add: postMessages_catch_def assms call framing_calls_def)
    next
      case n2: None
      show ?thesis
      proof (cases "fb ?c3")
        case (Some e3)
        with n1 n2 show ?thesis by (simp add: postMessages_catch_def assms call framing_calls_def)
      next
        case n3: None
        with n1 n2 show ?thesis
          by (simp add: postMessages_catch_def assms call framing_calls_def
                forEachAsync_fallback_exact)
      qed
    qed
  qed
qed

lemma postMessages_catch_console:
  assumes "p_fallbackLogger this = None"
  shows "postMessages_catch this msgs error w
         = (None, w\<lparr>console := console w @ framing_console error @ map replay_console msgs\<rparr>)"
  using assms by (simp add: postMessages_catch_def framing_console_def)

lemma until_rejected_resolving:
  "\<forall>c. fb c = None \<Longrightarrow> until_rejected fb cs = cs \<and> first_rejection fb cs = None"
  by (induction cs) simp_all

lemma until_rejected_prefix:
  "take (length (until_rejected fb cs)) cs = until_rejected fb cs"
  by (induction cs) (simp_all split: option.splits)

lemma flush_settle_outbound:
  assumes "flush_settle this batch outcome w = (r, w1)"
  shows "outbound w1 = outbound w"
proof (cases outcome)
  case None
  with assms show ?thesis by (simp add: flush_settle_def)
next
  case (Some error)
  with assms have "postMessages_catch this batch error w = (r, w1)" by (simp add: flush_settle_def)
  then show ?thesis by (rule postMessages_catch_outbound)
qed

lemma batch_step_conserves:
  assumes "batch_step op (this, w, inflight) = (this1, w1, inflight1)"
  shows "concat (map attachments (outbound w1)) @ map attachment_of (p_messages this1)
         = concat (map attachments (outbound w)) @ map attachment_of (p_messages this)
           @ map attachment_of (appended [op])"
proof (cases op)
  case (Append logRecord)
  with assms show ?thesis by (auto simp: push_def)
next
  case TimerTick
  with assms show ?thesis
    by (auto simp: flush_start_def Let_def postMessages_request_def split: if_splits)
next
  case Dispose
  with assms show ?thesis
    by (auto simp: dispose_start_def flush_start_def Let_def postMessages_request_def
          split: if_splits)
next
  case (Settle i outcome)
  show ?thesis
  proof (cases "i < length inflight")
    case False
    with assms Settle show ?thesis by simp
  next
    case True
    obtain origin batch where first: "inflight ! i = (origin, batch)" by (cases "inflight ! i")
    obtain r ws where st: "flush_settle this batch outcome w = (r, ws)"
      by (cases "flush_settle this batch outcome w")
    note o = flush_settle_outbound [OF st]
    from assms Settle True first st o show ?thesis
      by (cases r; cases origin) (auto simp: timer_catch_outbound)
  qed
qed

text \<open>A flush is its first part followed by the settlement of its request.\<close>

lemma flushMessages_in_two_parts:
  "flushMessages outcome (this, w)
   = (case flush_start (this, w) of
        (None, this1, w1) \<Rightarrow> (None, this1, w1)
      | (Some batch, this1, w1) \<Rightarrow>
          (case flush_settle this1 batch outcome w1 of (r, w2) \<Rightarrow> (r, this1, w2)))"
  by (simp add: flushMessages_def flush_start_def flush_settle_def postMessages_def Let_def
        split: option.splits prod.splits)

lemma appended_append: "appended (ops @ ops') = appended ops @ appended ops'"
  by (induction ops rule: appended.induct) simp_all

lemma batch_run_conserves:
  "batch_run ops (this, w, inflight) = (this1, w1, inflight1) \<Longrightarrow>
   concat (map attachments (outbound w1)) @ map attachment_of (p_messages this1)
   = concat (map attachments (outbound w)) @ map attachment_of (p_messages this @ appended ops)"
proof (induction ops arbitrary: this w inflight)
  case Nil
  then show ?case by simp
next
  case (Cons op ops)
  obtain this0 w0 inflight0 where step: "batch_step op (this, w, inflight) = (this0, w0, inflight0)"
    by (cases "batch_step op (this, w, inflight)") auto
  with Cons.prems have "batch_run ops (this0, w0, inflight0) = (this1, w1, inflight1)" by simp
  from Cons.IH [OF this] batch_step_conserves [OF step]
  show ?case using appended_append [of "[op]" ops] by simp
qed

lemma timer_tick_empties:
  "p_timer_active this \<Longrightarrow> p_messages (fst (batch_step TimerTick (this, w, inflight))) = []"
  by (auto simp: flush_start_def Let_def split: if_splits)

lemma dispose_empties:
  "\<not> p_isDisposed this \<Longrightarrow> p_messages (fst (batch_step Dispose (this, w, inflight))) = []"
  by (auto simp: dispose_start_def flush_start_def Let_def split: if_splits)

text \<open>Once the sink is disposed nothing starts a flush: what is appended stays.\<close>

lemma batch_step_after_dispose:
  assumes "p_isDisposed this" and "\<not> p_timer_active this"
    and "batch_step op (this, w, inflight) = (this1, w1, inflight1)"
  shows "p_isDisposed this1 \<and> \<not> p_timer_active this1 \<and> outbound w1 = outbound w
         \<and> p_messages this1 = p_messages this @ appended [op]"
proof (cases op)
  case (Append logRecord)
  with assms show ?thesis by (auto simp: push_def)
next
  case TimerTick
  with assms show ?thesis by auto
next
  case Dispose
  with assms show ?thesis by (auto simp: dispose_start_def)
next
  case (Settle i outcome)
  show ?thesis
  proof (cases "i < length inflight")
    case False
    with assms Settle show ?thesis by simp
  next
    case True
    obtain origin batch where first: "inflight ! i = (origin, batch)" by (cases "inflight ! i")
    obtain r ws where st: "flush_settle this batch outcome w = (r, ws)"
      by (cases "flush_settle this batch outcome w")
    note o = flush_settle_outbound [OF st]
    from assms Settle True first st o show ?thesis
      by (cases r; cases origin) (auto simp: timer_catch_outbound)
  qed
qed

lemma batch_run_after_dispose:
  "p_isDisposed this \<Longrightarrow> \<not> p_timer_active this \<Longrightarrow>
   batch_run ops (this, w, inflight) = (this1, w1, inflight1) \<Longrightarrow>
   outbound w1 = outbound w \<and> p_messages this1 = p_messages this @ appended ops"
proof (induction ops arbitrary: this w inflight)
  case Nil
  then show ?case by simp
next
  case (Cons op ops)
  obtain this0 w0 inflight0 where step: "batch_step op (this, w, inflight) = (this0, w0, inflight0)"
    by (cases "batch_step op (this, w, inflight)") auto
  note s = batch_step_after_dispose [OF Cons.prems(1,2) step]
  from Cons.prems(3) step have "batch_run ops (this0, w0, inflight0) = (this1, w1, inflight1)" by simp
  from Cons.IH [OF _ _ this] s
  show ?case using appended_append [of "[op]" ops] by simp
qed

text \<open>Every logging call leaves the batch as it is or appends one event to it.\<close>

lemma logging_call_is_push:
  "fst (snd (SlackLogger_logDebug clk msg (this, w))) = this
     \<or> (\<exists>logRecord. fst (snd (SlackLogger_logDebug clk msg (this, w))) = push logRecord this)"
  "fst (snd (SlackLogger_logInfo clk msg (this, w))) = this
     \<or> (\<exists>logRecord. fst (snd (SlackLogger_logInfo clk msg (this, w))) = push logRecord this)"
  "fst (snd (SlackLogger_logWarning clk v (this, w))) = this
     \<or> (\<exists>logRecord. fst (snd (SlackLogger_logWarning clk v (this, w))) = push logRecord this)"
  "fst (snd (SlackLogger_logError clk v (this, w))) = this
     \<or> (\<exists>logRecord. fst (snd (SlackLogger_logError clk v (this, w))) = push logRecord this)"
  by (auto simp: SlackLogger_logDebug_def SlackLogger_logInfo_def SlackLogger_logWarning_def
        SlackLogger_logError_def Let_def split: sum.splits)

text \<open>
  Claim C2, as stated, fails: an event logged after \<^verbatim>\<open>dispose\<close> is appended to the
  batch and is in no outbound call; a second \<^verbatim>\<open>dispose\<close> changes nothing and the timer,
  cleared, starts no flush, so the event is never delivered.
\<close>

theorem event_after_dispose_never_sent:
  "map message (p_messages (fst (snd (SlackLogger_logInfo example_clock ''late''
       (snd (dispose None (example_SlackLogger, example_world)))))))
     = [''injected: late'']
   \<and> outbound (snd (snd (SlackLogger_logInfo example_clock ''late''
       (snd (dispose None (example_SlackLogger, example_world)))))) = []
   \<and> snd (dispose None (snd (SlackLogger_logInfo example_clock ''late''
       (snd (dispose None (example_SlackLogger, example_world))))))
     = snd (SlackLogger_logInfo example_clock ''late''
       (snd (dispose None (example_SlackLogger, example_world))))
   \<and> batch_step TimerTick
       (fst (snd (SlackLogger_logInfo example_clock ''late''
          (snd (dispose None (example_SlackLogger, example_world))))),
        snd (snd (SlackLogger_logInfo example_clock ''late''
          (snd (dispose None (example_SlackLogger, example_world))))), [])
     = (fst (snd (SlackLogger_logInfo example_clock ''late''
          (snd (dispose None (example_SlackLogger, example_world))))),
        snd (snd (SlackLogger_logInfo example_clock ''late''
          (snd (dispose None (example_SlackLogger, example_world))))), [])
   \<and> appended [Dispose, Append (example_event ''Info'' ''late''), TimerTick, Dispose, TimerTick]
     = [example_event ''Info'' ''late'']
   \<and> outbound (fst (snd (batch_run
         [Dispose, Append (example_event ''Info'' ''late''), TimerTick, Dispose, TimerTick]
         (example_SlackLogger, example_world, [])))) = []
   \<and> p_messages (fst (batch_run
         [Dispose, Append (example_event ''Info'' ''late''), TimerTick, Dispose, TimerTick]
         (example_SlackLogger, example_world, []))) = [example_event ''Info'' ''late'']"
proof -
  define s1 where "s1 = snd (dispose None (example_SlackLogger, example_world))"
  define s2 where "s2 = snd (SlackLogger_logInfo example_clock ''late'' s1)"
  have s1: "s1 = (example_SlackLogger\<lparr>p_isDisposed := True, p_timer_active := False,
                    p_disposePromise := Some None\<rparr>, example_world)"
    by (simp add: s1_def dispose_def flushMessages_def example_SlackLogger_def Let_def)
  have s2: "s2 = (push (apply_logInjector (fst s1)
                     (SlackLogger_record (fst s1) example_clock ''Info'' ''late'' ''#259D2F''))
                   (fst s1), example_world)"
    by (simp add: s2_def s1 SlackLogger_logInfo_def example_SlackLogger_def Let_def)
  have flags: "p_isDisposed (fst s2)" "\<not> p_timer_active (fst s2)"
    by (simp_all add: s2 s1 push_def)
  have a: "map message (p_messages (fst s2)) = [''injected: late'']"
    by (simp add: s2 s1 push_def apply_logInjector_def example_SlackLogger_def
          BaseLogger_constructor_def example_injector_def SlackLogger_record_def)
  have b: "outbound (snd s2) = []" by (simp add: s2 example_world_def)
  have c: "snd (dispose None s2) = s2"
    using flags by (cases s2) (simp add: dispose_def)
  have d: "batch_step TimerTick (fst s2, snd s2, []) = (fst s2, snd s2, [])"
    using flags by simp
  have e: "appended [Dispose, Append (example_event ''Info'' ''late''), TimerTick, Dispose, TimerTick]
             = [example_event ''Info'' ''late'']
   \<and> outbound (fst (snd (batch_run
         [Dispose, Append (example_event ''Info'' ''late''), TimerTick, Dispose, TimerTick]
         (example_SlackLogger, example_world, [])))) = []
   \<and> p_messages (fst (batch_run
         [Dispose, Append (example_event ''Info'' ''late''), TimerTick, Dispose, TimerTick]
         (example_SlackLogger, example_world, []))) = [example_event ''Info'' ''late'']"
    by (simp add: dispose_start_def flush_start_def example_SlackLogger_def example_world_def
          push_def Let_def)
  from a b c d e show ?thesis unfolding s2_def s1_def by blast
qed

text \<open>
  Claim C2, amended. After any sequence of appends, timer ticks, calls of
  \<^verbatim>\<open>dispose\<close> and settled requests, the events of the outbound calls made so far, call
  after call, followed by the events still in the batch, are the events that were in
  the batch at the start followed by the appended ones, in order: no event is
  duplicated, none is lost, and the order is kept. A timer tick while the interval is
  set, and the first \<^verbatim>\<open>dispose\<close>, leave the batch empty: a flush swaps the batch for
  the empty array and issues one request carrying the whole batch in order, in one
  uninterrupted step, and \<^verbatim>\<open>_flushMessages\<close> is that step followed by the settlement of
  the request. Once the sink is disposed no step makes an outbound call: what is
  appended stays in the batch. When a request fails, its batch is replayed in the
  order of the batch, after the three framing calls: on the console when there is no
  fallback, and on the fallback up to and including its first call that rejects, which
  is all of them when none rejects.
\<close>

theorem every_event_in_one_place:
  "concat (map attachments (outbound (fst (snd (batch_run ops (this, w, inflight))))))
     @ map attachment_of (p_messages (fst (batch_run ops (this, w, inflight))))
   = concat (map attachments (outbound w)) @ map attachment_of (p_messages this @ appended ops)
   \<and> (p_timer_active this \<longrightarrow> p_messages (fst (batch_step TimerTick (this, w, inflight))) = [])
   \<and> (\<not> p_isDisposed this \<longrightarrow> p_messages (fst (batch_step Dispose (this, w, inflight))) = [])
   \<and> (p_messages this \<noteq> [] \<longrightarrow>
        flush_start (this, w)
          = (Some (p_messages this), this\<lparr>p_messages := []\<rparr>,
             w\<lparr>outbound := outbound w @ [postMessages_request this (p_messages this)]\<rparr>)
        \<and> attachments (postMessages_request this (p_messages this))
            = map attachment_of (p_messages this))
   \<and> (p_messages this = [] \<longrightarrow> flush_start (this, w) = (None, this, w))
   \<and> flushMessages outcome (this, w)
       = (case flush_start (this, w) of
            (None, this1, w1) \<Rightarrow> (None, this1, w1)
          | (Some batch, this1, w1) \<Rightarrow>
              (case flush_settle this1 batch outcome w1 of (r, w2) \<Rightarrow> (r, this1, w2)))
   \<and> (p_isDisposed this \<and> \<not> p_timer_active this \<longrightarrow>
        outbound (fst (snd (batch_run ops (this, w, inflight)))) = outbound w
        \<and> p_messages (fst (batch_run ops (this, w, inflight))) = p_messages this @ appended ops)
   \<and> flush_settle this batch None w = (None, w)
   \<and> (p_fallbackLogger this = None \<longrightarrow>
        flush_settle this batch (Some error) w
          = (None, w\<lparr>console := console w @ framing_console error @ map replay_console batch\<rparr>))
   \<and> (\<forall>fb. p_fallbackLogger this = Some fb \<longrightarrow>
        flush_settle this batch (Some error) w
          = (first_rejection fb (framing_calls error @ map replay_call batch),
             w\<lparr>fallback_calls := fallback_calls w
                   @ until_rejected fb (framing_calls error @ map replay_call batch)\<rparr>)
        \<and> ((\<forall>c. fb c = None) \<longrightarrow>
              until_rejected fb (framing_calls error @ map replay_call batch)
                = framing_calls error @ map replay_call batch)
        \<and> take (length (until_rejected fb (framing_calls error @ map replay_call batch)))
              (framing_calls error @ map replay_call batch)
            = until_rejected fb (framing_calls error @ map replay_call batch))"
proof -
  obtain this1 w1 inflight1 where r: "batch_run ops (this, w, inflight) = (this1, w1, inflight1)"
    by (cases "batch_run ops (this, w, inflight)") auto
  have a: "concat (map attachments (outbound (fst (snd (batch_run ops (this, w, inflight))))))
     @ map attachment_of (p_messages (fst (batch_run ops (this, w, inflight))))
   = concat (map attachments (outbound w)) @ map attachment_of (p_messages this @ appended ops)"
    using batch_run_conserves [OF r] by (simp add: r)
  have b: "p_isDisposed this \<and> \<not> p_timer_active this \<Longrightarrow>
        outbound (fst (snd (batch_run ops (this, w, inflight)))) = outbound w
        \<and> p_messages (fst (batch_run ops (this, w, inflight))) = p_messages this @ appended ops"
    using batch_run_after_dispose [OF _ _ r] by (simp add: r)
  have c: "p_messages this \<noteq> [] \<Longrightarrow>
        flush_start (this, w)
          = (Some (p_messages this), this\<lparr>p_messages := []\<rparr>,
             w\<lparr>outbound := outbound w @ [postMessages_request this (p_messages this)]\<rparr>)
        \<and> attachments (postMessages_request this (p_messages this))
            = map attachment_of (p_messages this)"
    by (simp add: flush_start_def Let_def postMessages_request_def)
  have d: "p_messages this = [] \<Longrightarrow> flush_start (this, w) = (None, this, w)"
    by (simp add: flush_start_def)
  have e: "flush_settle this batch None w = (None, w)" by (simp add: flush_settle_def)
  have f: "p_fallbackLogger this = None \<Longrightarrow>
        flush_settle this batch (Some error) w
          = (None, w\<lparr>console := console w @ framing_console error @ map replay_console batch\<rparr>)"
    by (simp add: flush_settle_def postMessages_catch_console)
  have g: "\<And>fb. p_fallbackLogger this = Some fb \<Longrightarrow>
        flush_settle this batch (Some error) w
          = (first_rejection fb (framing_calls error @ map replay_call batch),
             w\<lparr>fallback_calls := fallback_calls w
                   @ until_rejected fb (framing_calls error @ map replay_call batch)\<rparr>)"
    by (simp add: flush_settle_def postMessages_catch_exact)
  show ?thesis
    apply (intro conjI impI allI)
    subgoal by (rule a)
    subgoal by (rule timer_tick_empties)
    subgoal by (rule dispose_empties)
    subgoal using c by simp
    subgoal using c by simp
    subgoal by (rule d)
    subgoal by (rule flushMessages_in_two_parts)
    subgoal using b by simp
    subgoal using b by simp
    subgoal by (rule e)
    subgoal by (rule f)
    subgoal by (rule g)
    subgoal using until_rejected_resolving by blast
    subgoal by (rule until_rejected_prefix)
    done
qed

theorem every_event_in_one_place_witness:
  "p_timer_active (example_SlackLogger\<lparr>p_messages := [example_event ''Warn'' ''first'']\<rparr>)
   \<and> \<not> p_isDisposed (example_SlackLogger\<lparr>p_messages := [example_event ''Warn'' ''first'']\<rparr>)
   \<and> p_fallbackLogger (example_SlackLogger\<lparr>p_messages := [example_event ''Warn'' ''first'']\<rparr>)
       = Some (\<lambda>_. None)
   \<and> concat (map attachments (outbound (fst (snd (batch_run
         [Append (example_event ''Info'' ''second''), TimerTick,
          Append (example_event ''Error'' ''third''), Settle 0 (Some (Thrown ''slack is down'')),
          Dispose, Settle 0 None]
         (example_SlackLogger\<lparr>p_messages := [example_event ''Warn'' ''first'']\<rparr>,
          example_world, []))))))
       @ map attachment_of (p_messages (fst (batch_run
         [Append (example_event ''Info'' ''second''), TimerTick,
          Append (example_event ''Error'' ''third''), Settle 0 (Some (Thrown ''slack is down'')),
          Dispose, Settle 0 None]
         (example_SlackLogger\<lparr>p_messages := [example_event ''Warn'' ''first'']\<rparr>,
          example_world, []))))
     = map attachment_of
         [example_event ''Warn'' ''first'', example_event ''Info'' ''second'',
          example_event ''Error'' ''third'']
   \<and> p_messages (fst (batch_step TimerTick
         (example_SlackLogger\<lparr>p_messages := [example_event ''Warn'' ''first'']\<rparr>,
          example_world, []))) = []
   \<and> p_messages (fst (batch_step Dispose
         (example_SlackLogger\<lparr>p_messages := [example_event ''Warn'' ''first'']\<rparr>,
          example_world, []))) = []
   \<and> flush_settle (example_SlackLogger\<lparr>p_messages := [example_event ''Warn'' ''first'']\<rparr>)
        [example_event ''Warn'' ''first'', example_event ''Info'' ''second'']
        (Some (Thrown ''slack is down'')) example_world
     = (None, example_world\<lparr>fallback_calls :=
          [FallbackWarning (Text ''Error while posting to slack.''),
           FallbackError (Caught (Thrown ''slack is down'')),
           FallbackWarning (Text ''Original messages below''),
           FallbackWarning (Text ''first''), FallbackInfo ''second'']\<rparr>)
   \<and> p_isDisposed (example_SlackLogger
        \<lparr>p_fallbackLogger := None, p_timer_active := False, p_isDisposed := True\<rparr>)
   \<and> \<not> p_timer_active (example_SlackLogger
        \<lparr>p_fallbackLogger := None, p_timer_active := False, p_isDisposed := True\<rparr>)
   \<and> outbound (fst (snd (batch_run
         [Append (example_event ''Info'' ''late''), TimerTick, Dispose, TimerTick]
         (example_SlackLogger
            \<lparr>p_fallbackLogger := None, p_timer_active := False, p_isDisposed := True\<rparr>,
          example_world, [])))) = []
   \<and> p_messages (fst (batch_run
         [Append (example_event ''Info'' ''late''), TimerTick, Dispose, TimerTick]
         (example_SlackLogger
            \<lparr>p_fallbackLogger := None, p_timer_active := False, p_isDisposed := True\<rparr>,
          example_world, []))) = [example_event ''Info'' ''late'']
   \<and> flush_settle (example_SlackLogger
          \<lparr>p_fallbackLogger := None, p_timer_active := False, p_isDisposed := True\<rparr>)
        [example_event ''Warn'' ''first'', example_event ''Debug'' ''second'']
        (Some (Thrown ''slack is down'')) example_world
     = (None, example_world\<lparr>console :=
          [ConsoleWarn (Text ''Error while posting to slack.''),
           ConsoleError (Caught (Thrown ''slack is down'')),
           ConsoleWarn (Text ''Original messages below''),
           ConsoleWarn (Text ''first''), ConsoleInfo (Text ''second'')]\<rparr>)"
proof -
  let ?A = "example_SlackLogger\<lparr>p_messages := [example_event ''Warn'' ''first'']\<rparr>"
  let ?B = "example_SlackLogger
              \<lparr>p_fallbackLogger := None, p_timer_active := False, p_isDisposed := True\<rparr>"
  have hA: "p_timer_active ?A" "\<not> p_isDisposed ?A" "p_fallbackLogger ?A = Some (\<lambda>_. None)"
    "p_messages ?A = [example_event ''Warn'' ''first'']"
    by (simp_all add: example_SlackLogger_def)
  have hB: "p_isDisposed ?B" "\<not> p_timer_active ?B" "p_fallbackLogger ?B = None"
    "p_messages ?B = []"
    by (simp_all add: example_SlackLogger_def)
  have ew: "outbound example_world = []" "fallback_calls example_world = []"
    "console example_world = []"
    by (simp_all add: example_world_def)
  note A = every_event_in_one_place [where this = ?A and w = example_world
      and ops = "[Append (example_event ''Info'' ''second''), TimerTick,
          Append (example_event ''Error'' ''third''), Settle 0 (Some (Thrown ''slack is down'')),
          Dispose, Settle 0 None]"
      and inflight = "[]"
      and batch = "[example_event ''Warn'' ''first'', example_event ''Info'' ''second'']"
      and error = "Thrown ''slack is down''"]
  note B = every_event_in_one_place [where this = ?B and w = example_world
      and ops = "[Append (example_event ''Info'' ''late''), TimerTick, Dispose, TimerTick]"
      and inflight = "[]"
      and batch = "[example_event ''Warn'' ''first'', example_event ''Debug'' ''second'']"
      and error = "Thrown ''slack is down''"]
  have a1: "concat (map attachments (outbound (fst (snd (batch_run
         [Append (example_event ''Info'' ''second''), TimerTick,
          Append (example_event ''Error'' ''third''), Settle 0 (Some (Thrown ''slack is down'')),
          Dispose, Settle 0 None] (?A, example_world, []))))))
       @ map attachment_of (p_messages (fst (batch_run
         [Append (example_event ''Info'' ''second''), TimerTick,
          Append (example_event ''Error'' ''third''), Settle 0 (Some (Thrown ''slack is down'')),
          Dispose, Settle 0 None] (?A, example_world, []))))
     = map attachment_of
         [example_event ''Warn'' ''first'', example_event ''Info'' ''second'',
          example_event ''Error'' ''third'']"
    using A [THEN conjunct1] by (simp add: hA ew)
  have a2: "p_messages (fst (batch_step TimerTick (?A, example_world, []))) = []"
    using A hA(1) by blast
  have a3: "p_messages (fst (batch_step Dispose (?A, example_world, []))) = []"
    using A hA(2) by blast
  from A hA(3) have "flush_settle ?A
        [example_event ''Warn'' ''first'', example_event ''Info'' ''second'']
        (Some (Thrown ''slack is down'')) example_world
     = (first_rejection (\<lambda>_. None) (framing_calls (Thrown ''slack is down'') @ map replay_call
           [example_event ''Warn'' ''first'', example_event ''Info'' ''second'']),
        example_world\<lparr>fallback_calls := fallback_calls example_world
           @ until_rejected (\<lambda>_. None) (framing_calls (Thrown ''slack is down'') @ map replay_call
           [example_event ''Warn'' ''first'', example_event ''Info'' ''second''])\<rparr>)"
    by blast
  then have a4: "flush_settle ?A
        [example_event ''Warn'' ''first'', example_event ''Info'' ''second'']
        (Some (Thrown ''slack is down'')) example_world
     = (None, example_world\<lparr>fallback_calls :=
          [FallbackWarning (Text ''Error while posting to slack.''),
           FallbackError (Caught (Thrown ''slack is down'')),
           FallbackWarning (Text ''Original messages below''),
           FallbackWarning (Text ''first''), FallbackInfo ''second'']\<rparr>)"
    by (simp add: ew framing_calls_def replay_call_def example_event_def)
  from B hB(1,2) have b1: "outbound (fst (snd (batch_run
         [Append (example_event ''Info'' ''late''), TimerTick, Dispose, TimerTick]
         (?B, example_world, [])))) = outbound example_world
     \<and> p_messages (fst (batch_run
         [Append (example_event ''Info'' ''late''), TimerTick, Dispose, TimerTick]
         (?B, example_world, []))) = p_messages ?B
           @ appended [Append (example_event ''Info'' ''late''), TimerTick, Dispose, TimerTick]"
    by blast
  from B hB(3) have "flush_settle ?B
        [example_event ''Warn'' ''first'', example_event ''Debug'' ''second'']
        (Some (Thrown ''slack is down'')) example_world
     = (None, example_world\<lparr>console := console example_world
          @ framing_console (Thrown ''slack is down'')
          @ map replay_console
              [example_event ''Warn'' ''first'', example_event ''Debug'' ''second'']\<rparr>)"
    by blast
  then have b2: "flush_settle ?B
        [example_event ''Warn'' ''first'', example_event ''Debug'' ''second'']
        (Some (Thrown ''slack is down'')) example_world
     = (None, example_world\<lparr>console :=
          [ConsoleWarn (Text ''Error while posting to slack.''),
           ConsoleError (Caught (Thrown ''slack is down'')),
           ConsoleWarn (Text ''Original messages below''),
           ConsoleWarn (Text ''first''), ConsoleInfo (Text ''second'')]\<rparr>)"
    by (simp add: ew framing_console_def replay_console_def example_event_def)
  from b1 have b1': "outbound (fst (snd (batch_run
         [Append (example_event ''Info'' ''late''), TimerTick, Dispose, TimerTick]
         (?B, example_world, [])))) = []"
    "p_messages (fst (batch_run
         [Append (example_event ''Info'' ''late''), TimerTick, Dispose, TimerTick]
         (?B, example_world, []))) = [example_event ''Info'' ''late'']"
    by (simp_all add: ew hB)
  from hA(1,2,3) a1 a2 a3 a4 hB(1,2) b1' b2 show ?thesis by blast
qed

lemma postMessages_exact:
  assumes "p_fallbackLogger this = Some fb"
  shows "postMessages this msgs (Some error) w
         = (first_rejection fb (framing_calls error @ map replay_call msgs),
            w\<lparr>outbound := outbound w @ [postMessages_request this msgs],
              fallback_calls := fallback_calls w
                @ until_rejected fb (framing_calls error @ map replay_call msgs)\<rparr>)"
  by (simp add: postMessages_def Let_def postMessages_catch_exact [OF assms])

lemma flushMessages_exact:
  assumes "p_fallbackLogger this = Some fb" and "p_messages this \<noteq> []"
  shows "flushMessages (Some error) (this, w)
         = (first_rejection fb (framing_calls error @ map replay_call (p_messages this)),
            this\<lparr>p_messages := []\<rparr>,
            w\<lparr>outbound := outbound w @ [postMessages_request this (p_messages this)],
              fallback_calls := fallback_calls w
                @ until_rejected fb (framing_calls error @ map replay_call (p_messages this))\<rparr>)"
proof -
  have fb: "p_fallbackLogger (this\<lparr>p_messages := []\<rparr>) = Some fb" using assms(1) by simp
  have req: "\<And>msgs. postMessages_request (this\<lparr>p_messages := []\<rparr>) msgs = postMessages_request this msgs"
    by (simp add: postMessages_request_def)
  show ?thesis
    using assms(2) by (simp add: flushMessages_def Let_def postMessages_exact [OF fb] req)
qed

lemma until_rejected_all_resolve:
  "(\<forall>c \<in> set cs. fb c = None) \<Longrightarrow> until_rejected fb cs = cs \<and> first_rejection fb cs = None"
  by (induction cs) simp_all

lemma until_rejected_stops:
  "(\<forall>c \<in> set cs. fb c = None) \<Longrightarrow> fb c = Some e \<Longrightarrow>
   until_rejected fb (cs @ c # cs') = cs @ [c] \<and> first_rejection fb (cs @ c # cs') = Some e"
  by (induction cs) simp_all

lemma example_guard:
  "ensureHasValue example_externals [] = False"
  "ensureHasValue example_externals ''Error while posting to slack.'' = True"
  "ensureHasValue example_externals ''Original messages below'' = True"
  "ensureHasValue example_externals ''Error: at <anonymous>'' = True"
  "ensureHasValue example_externals ''boom'' = True"
  by (simp_all add: example_externals_def isEmptyOrWhiteSpace_def isWhiteSpace_char_def)

text \<open>
  Claim C3, as stated, fails: with the file sink of this repository as the fallback, a
  batch of an Info event with an empty message (which the Slack sink buffers without
  a check) followed by an Error event is not replayed in full. The file sink rejects
  the empty message, that rejection ends \<^verbatim>\<open>_postMessages\<close>, and the Error event never
  reaches the fallback.
\<close>

theorem fallback_replay_stops_at_rejection:
  "p_fallbackLogger file_backed_SlackLogger
     = Some (FileLogger_as_fallback example_externals example_clock
               (example_FileLogger, example_world))
   \<and> fst (FileLogger_logInfo example_externals example_clock []
            (example_FileLogger, example_world)) = Some (ArgumentError ''message'')
   \<and> map replay_call
        (p_messages (fst (snd (SlackLogger_logError example_clock (StringValue ''boom'')
           (snd (SlackLogger_logInfo example_clock []
              (file_backed_SlackLogger, example_world)))))))
       = [FallbackInfo [], FallbackError (Text ''boom'')]
   \<and> fst (flushMessages (Some (Thrown ''slack is down''))
        (snd (SlackLogger_logError example_clock (StringValue ''boom'')
           (snd (SlackLogger_logInfo example_clock []
              (file_backed_SlackLogger, example_world))))))
       = Some (ArgumentError ''message'')
   \<and> fallback_calls (snd (snd (flushMessages (Some (Thrown ''slack is down''))
        (snd (SlackLogger_logError example_clock (StringValue ''boom'')
           (snd (SlackLogger_logInfo example_clock []
              (file_backed_SlackLogger, example_world))))))))
       = [FallbackWarning (Text ''Error while posting to slack.''),
          FallbackError (Caught (Thrown ''slack is down'')),
          FallbackWarning (Text ''Original messages below''),
          FallbackInfo []]"
proof -
  let ?fb = "FileLogger_as_fallback example_externals example_clock
               (example_FileLogger, example_world)"
  define s2 where "s2 = snd (SlackLogger_logError example_clock (StringValue ''boom'')
           (snd (SlackLogger_logInfo example_clock [] (file_backed_SlackLogger, example_world))))"
  have fb0: "p_fallbackLogger file_backed_SlackLogger = Some ?fb"
    by (simp add: file_backed_SlackLogger_def)
  have rej: "fst (FileLogger_logInfo example_externals example_clock []
            (example_FileLogger, example_world)) = Some (ArgumentError ''message'')"
    by (simp add: FileLogger_logInfo_def writeToLog_outcome example_guard)
  have s2_eq: "s2 = (fst s2, example_world)" and fb2: "p_fallbackLogger (fst s2) = Some ?fb"
    and calls: "map replay_call (p_messages (fst s2))
                = [FallbackInfo [], FallbackError (Text ''boom'')]"
    by (simp_all add: s2_def SlackLogger_logInfo_def SlackLogger_logError_def Let_def
          file_backed_SlackLogger_def example_SlackLogger_def getErrorMessage_def
          SlackLogger_record_def apply_logInjector_def BaseLogger_constructor_def push_def
          replay_call_def example_world_def)
  from calls have ne: "p_messages (fst s2) \<noteq> []" by auto
  have fl: "flushMessages (Some (Thrown ''slack is down'')) s2
     = (first_rejection ?fb (framing_calls (Thrown ''slack is down'')
                              @ [FallbackInfo [], FallbackError (Text ''boom'')]),
        (fst s2)\<lparr>p_messages := []\<rparr>,
        example_world\<lparr>outbound := outbound example_world
                          @ [postMessages_request (fst s2) (p_messages (fst s2))],
          fallback_calls := fallback_calls example_world
             @ until_rejected ?fb (framing_calls (Thrown ''slack is down'')
                              @ [FallbackInfo [], FallbackError (Text ''boom'')])\<rparr>)"
    using flushMessages_exact [OF fb2 ne, of "Thrown ''slack is down''" example_world]
    by (subst s2_eq) (simp add: calls)
  have r: "first_rejection ?fb (framing_calls (Thrown ''slack is down'')
                              @ [FallbackInfo [], FallbackError (Text ''boom'')])
           = Some (ArgumentError ''message'')"
    and u: "until_rejected ?fb (framing_calls (Thrown ''slack is down'')
                              @ [FallbackInfo [], FallbackError (Text ''boom'')])
           = [FallbackWarning (Text ''Error while posting to slack.''),
              FallbackError (Caught (Thrown ''slack is down'')),
              FallbackWarning (Text ''Original messages below''),
              FallbackInfo []]"
    by (simp_all add: framing_calls_def FileLogger_as_fallback_outcome example_guard
          del: FileLogger_as_fallback.simps)
  have ew: "fallback_calls example_world = []" by (simp add: example_world_def)
  have "fst (flushMessages (Some (Thrown ''slack is down'')) s2) = Some (ArgumentError ''message'')"
    and "fallback_calls (snd (snd (flushMessages (Some (Thrown ''slack is down'')) s2)))
       = [FallbackWarning (Text ''Error while posting to slack.''),
          FallbackError (Caught (Thrown ''slack is down'')),
          FallbackWarning (Text ''Original messages below''),
          FallbackInfo []]"
    by (simp_all add: fl r u ew)
  with fb0 rej calls show ?thesis unfolding s2_def by blast
qed

text \<open>
  Claim C3, amended. When \<^verbatim>\<open>chat.postMessage\<close> fails and a fallback logger is
  configured, the fallback receives, one after the other and in this order: the
  warning "Error while posting to slack.", the error, the warning "Original messages
  below", and then one call per event of the batch, in the order of the batch:
  \<^verbatim>\<open>logDebug\<close> for a Debug event, \<^verbatim>\<open>logInfo\<close> for Info, \<^verbatim>\<open>logWarning\<close> for Warn,
  \<^verbatim>\<open>logError\<close> for Error. The sequence ends with the first call that rejects, whose
  rejection is that of \<^verbatim>\<open>_postMessages\<close>; when no call rejects, \<^verbatim>\<open>_postMessages\<close>
  resolves and every event of the batch has been replayed exactly once. The same
  holds of a flush of a batch that is not empty.
\<close>

theorem fallback_replay_until_rejection:
  assumes "p_fallbackLogger this = Some fb"
  shows "postMessages this msgs (Some error) w
           = (first_rejection fb (framing_calls error @ map replay_call msgs),
              w\<lparr>outbound := outbound w @ [postMessages_request this msgs],
                fallback_calls := fallback_calls w
                  @ until_rejected fb (framing_calls error @ map replay_call msgs)\<rparr>)
         \<and> (p_messages this \<noteq> [] \<longrightarrow>
              flushMessages (Some error) (this, w)
                = (first_rejection fb (framing_calls error @ map replay_call (p_messages this)),
                   this\<lparr>p_messages := []\<rparr>,
                   w\<lparr>outbound := outbound w @ [postMessages_request this (p_messages this)],
                     fallback_calls := fallback_calls w
                       @ until_rejected fb
                           (framing_calls error @ map replay_call (p_messages this))\<rparr>))
         \<and> framing_calls error
             = [FallbackWarning (Text ''Error while posting to slack.''),
                FallbackError (Caught error),
                FallbackWarning (Text ''Original messages below'')]
         \<and> (\<forall>cs. (\<forall>c \<in> set cs. fb c = None) \<longrightarrow>
                until_rejected fb cs = cs \<and> first_rejection fb cs = None)
         \<and> (\<forall>cs c cs' e. (\<forall>c \<in> set cs. fb c = None) \<and> fb c = Some e \<longrightarrow>
                until_rejected fb (cs @ c # cs') = cs @ [c]
                \<and> first_rejection fb (cs @ c # cs') = Some e)
         \<and> (\<forall>logRecord. level logRecord = ''Debug'' \<longrightarrow>
                replay_call logRecord = FallbackDebug (message logRecord))
         \<and> (\<forall>logRecord. level logRecord = ''Info'' \<longrightarrow>
                replay_call logRecord = FallbackInfo (message logRecord))
         \<and> (\<forall>logRecord. level logRecord = ''Warn'' \<longrightarrow>
                replay_call logRecord = FallbackWarning (Text (message logRecord)))
         \<and> (\<forall>logRecord. level logRecord = ''Error'' \<longrightarrow>
                replay_call logRecord = FallbackError (Text (message logRecord)))"
proof -
  show ?thesis
    apply (intro conjI impI allI)
    subgoal by (rule postMessages_exact [OF assms])
    subgoal by (rule flushMessages_exact [OF assms])
    subgoal by (simp add: framing_calls_def)
    subgoal using until_rejected_all_resolve by blast
    subgoal using until_rejected_all_resolve by blast
    subgoal using until_rejected_stops by blast
    subgoal using until_rejected_stops by blast
    subgoal by (simp add: replay_call_def)
    subgoal by (simp add: replay_call_def)
    subgoal by (simp add: replay_call_def)
    subgoal by (simp add: replay_call_def)
    done
qed

theorem fallback_replay_until_rejection_witness:
  "p_fallbackLogger example_SlackLogger = Some (\<lambda>_. None)
   \<and> postMessages example_SlackLogger
        [example_event ''Warn'' ''disk almost full'', example_event ''Debug'' ''tick'',
         example_event ''Info'' ''started'', example_event ''Error'' ''boom'']
        (Some (Thrown ''slack is down'')) example_world
     = (None,
        example_world
          \<lparr>outbound := [postMessages_request example_SlackLogger
              [example_event ''Warn'' ''disk almost full'', example_event ''Debug'' ''tick'',
               example_event ''Info'' ''started'', example_event ''Error'' ''boom'']],
           fallback_calls :=
             [FallbackWarning (Text ''Error while posting to slack.''),
              FallbackError (Caught (Thrown ''slack is down'')),
              FallbackWarning (Text ''Original messages below''),
              FallbackWarning (Text ''disk almost full''),
              FallbackDebug ''tick'',
              FallbackInfo ''started'',
              FallbackError (Text ''boom'')]\<rparr>)"
proof -
  have fb: "p_fallbackLogger example_SlackLogger = Some (\<lambda>_. None)"
    by (simp add: example_SlackLogger_def)
  note t = fallback_replay_until_rejection [OF fb,
      of "[example_event ''Warn'' ''disk almost full'', example_event ''Debug'' ''tick'',
           example_event ''Info'' ''started'', example_event ''Error'' ''boom'']"
         "Thrown ''slack is down''" example_world]
  from t have post: "postMessages example_SlackLogger
        [example_event ''Warn'' ''disk almost full'', example_event ''Debug'' ''tick'',
         example_event ''Info'' ''started'', example_event ''Error'' ''boom'']
        (Some (Thrown ''slack is down'')) example_world
     = (first_rejection (\<lambda>_. None) (framing_calls (Thrown ''slack is down'') @ map replay_call
          [example_event ''Warn'' ''disk almost full'', example_event ''Debug'' ''tick'',
           example_event ''Info'' ''started'', example_event ''Error'' ''boom'']),
        example_world\<lparr>outbound := outbound example_world @ [postMessages_request example_SlackLogger
              [example_event ''Warn'' ''disk almost full'', example_event ''Debug'' ''tick'',
               example_event ''Info'' ''started'', example_event ''Error'' ''boom'']],
          fallback_calls := fallback_calls example_world
            @ until_rejected (\<lambda>_. None) (framing_calls (Thrown ''slack is down'') @ map replay_call
          [example_event ''Warn'' ''disk almost full'', example_event ''Debug'' ''tick'',
           example_event ''Info'' ''started'', example_event ''Error'' ''boom''])\<rparr>)"
    by (rule conjunct1)
  show ?thesis
    unfolding post using fb
    by (simp add: framing_calls_def replay_call_def example_event_def example_world_def)
qed


text \<open>
  Claim C9, as stated, fails: the Slack sink has \<^verbatim>\<open>useJsonFormat\<close> false and still
  applies the injector to the event it buffers.
\<close>

theorem slack_applies_injector_without_json:
  "p_useJsonFormat (slack_base example_SlackLogger) = False
   \<and> message (SlackLogger_record example_SlackLogger example_clock ''Info'' ''started'' ''#259D2F'')
       = ''started''
   \<and> map message (p_messages (fst (snd (SlackLogger_logInfo example_clock ''started''
        (example_SlackLogger, example_world))))) = [''injected: started'']"
  by (simp add: SlackLogger_logInfo_def example_SlackLogger_def BaseLogger_constructor_def
        SlackLogger_record_def apply_logInjector_def example_injector_def push_def Let_def)

section \<open>Where the injector is applied\<close>

lemma writeToLog_line_plain:
  "\<not> p_useJsonFormat (base this) \<Longrightarrow>
   writeToLog_line ext clk (this\<lparr>base := (base this)\<lparr>p_logInjector := injector\<rparr>\<rparr>) status msg
     = (getDateTime (base this) clk @ '' '' @ LogPrefix_value status @ '' '' @ msg, None)"
  by (simp add: writeToLog_line_def getDateTime_def)

lemma writeToLog_line_json:
  "p_useJsonFormat (base this) \<Longrightarrow>
   fst (writeToLog_line ext clk this status msg)
     = stringify ext
         ((case p_logInjector (base this) of Some inject \<Rightarrow> inject | None \<Rightarrow> (\<lambda>r. r))
            (fst (injectTrace (base this) (active_span ext)
                    \<lparr> source = p_source (base this), service = p_service (base this),
                      env = p_env (base this), level = level_of status, message = msg,
                      dateTime = getDateTime (base this) clk, time = now_iso clk,
                      properties = [] \<rparr>
                    (level_of status = ''Error''))))"
  by (simp add: writeToLog_line_def Let_def split: prod.splits option.splits)

lemma ConsoleLogger_plain:
  assumes "\<not> p_useJsonFormat c"
  shows "ConsoleLogger_logDebug ext clk msg (c\<lparr>p_logInjector := injector\<rparr>, w)
           = ConsoleLogger_logDebug ext clk msg (c, w)"
    and "ConsoleLogger_logInfo ext clk msg (c\<lparr>p_logInjector := injector\<rparr>, w)
           = ConsoleLogger_logInfo ext clk msg (c, w)"
    and "ConsoleLogger_logWarning ext clk v (c\<lparr>p_logInjector := injector\<rparr>, w)
           = ConsoleLogger_logWarning ext clk v (c, w)"
    and "ConsoleLogger_logError ext clk v (c\<lparr>p_logInjector := injector\<rparr>, w)
           = ConsoleLogger_logError ext clk v (c, w)"
  using assms
  by (simp_all add: ConsoleLogger_logDebug_def ConsoleLogger_logInfo_def ConsoleLogger_logWarning_def
        ConsoleLogger_logError_def getDateTime_def split: sum.splits)

lemma ConsoleLogger_json_line:
  "fst (ConsoleLogger_json ext clk c lvl msg isError)
     = stringify ext
         ((case p_logInjector c of Some inject \<Rightarrow> inject | None \<Rightarrow> (\<lambda>r. r))
            (fst (injectTrace c (active_span ext)
                    \<lparr> source = p_source c, service = p_service c, env = p_env c, level = lvl,
                      message = msg, dateTime = getDateTime c clk, time = now_iso clk,
                      properties = [] \<rparr>
                    isError)))
       @ [CHR 0x0A]"
  by (simp add: ConsoleLogger_json_def Let_def split: prod.splits option.splits)

lemma ConsoleLogger_json_written:
  assumes "p_useJsonFormat c"
  shows "p_env c = ''dev'' \<Longrightarrow>
         stdout (snd (ConsoleLogger_logDebug ext clk msg (c, w)))
           = stdout w @ [fst (ConsoleLogger_json ext clk c ''Debug'' msg False)]"
    and "stdout (snd (ConsoleLogger_logInfo ext clk msg (c, w)))
           = stdout w @ [fst (ConsoleLogger_json ext clk c ''Info'' msg False)]"
    and "getErrorMessage v (console w) = Inr (m, c1) \<Longrightarrow>
         stdout (snd (ConsoleLogger_logWarning ext clk v (c, w)))
           = stdout w @ [fst (ConsoleLogger_json ext clk c ''Warn'' m False)]"
    and "getErrorMessage v (console w) = Inr (m, c1) \<Longrightarrow>
         stdout (snd (ConsoleLogger_logError ext clk v (c, w)))
           = stdout w @ [fst (ConsoleLogger_json ext clk c ''Error'' m True)]"
  using assms
  by (simp_all add: ConsoleLogger_logDebug_def ConsoleLogger_logInfo_def
        ConsoleLogger_logWarning_def ConsoleLogger_logError_def stream_write_def Let_def
        split: option.splits)

lemma FileLogger_operations:
  shows "p_env (base this) = ''dev'' \<Longrightarrow>
         FileLogger_logDebug ext clk msg (this, w) = writeToLog ext clk LogPrefix_debug msg (this, w)"
    and "FileLogger_logInfo ext clk msg (this, w) = writeToLog ext clk LogPrefix_info msg (this, w)"
    and "getErrorMessage v (console w) = Inr (m, c1) \<Longrightarrow>
         FileLogger_logWarning ext clk v (this, w)
           = writeToLog ext clk LogPrefix_warning m (this, w\<lparr>console := c1\<rparr>)"
    and "getErrorMessage v (console w) = Inr (m, c1) \<Longrightarrow>
         FileLogger_logError ext clk v (this, w)
           = writeToLog ext clk LogPrefix_error m (this, w\<lparr>console := c1\<rparr>)"
  by (simp_all add: FileLogger_logDebug_def FileLogger_logInfo_def FileLogger_logWarning_def
        FileLogger_logError_def)

lemma SlackLogger_buffers_injected:
  shows "p_env (slack_base slack) = ''dev'' \<Longrightarrow>
         p_messages (fst (snd (SlackLogger_logDebug clk msg (slack, w))))
           = p_messages slack
             @ [apply_logInjector slack (SlackLogger_record slack clk ''Debug'' msg ''#F8F8F8'')]"
    and "p_includeInfo slack \<Longrightarrow> p_logFilter slack (SlackLogger_record slack clk ''Info'' msg ''#259D2F'') \<Longrightarrow>
         p_messages (fst (snd (SlackLogger_logInfo clk msg (slack, w))))
           = p_messages slack
             @ [apply_logInjector slack (SlackLogger_record slack clk ''Info'' msg ''#259D2F'')]"
    and "p_includeWarn slack \<Longrightarrow> getErrorMessage v (console w) = Inr (m, c1) \<Longrightarrow>
         p_logFilter slack (SlackLogger_record slack clk ''Warn'' m ''#F1AB2A'') \<Longrightarrow>
         p_messages (fst (snd (SlackLogger_logWarning clk v (slack, w))))
           = p_messages slack
             @ [apply_logInjector slack (SlackLogger_record slack clk ''Warn'' m ''#F1AB2A'')]"
    and "p_includeError slack \<Longrightarrow> getErrorMessage v (console w) = Inr (m, c1) \<Longrightarrow>
         p_logFilter slack (SlackLogger_record slack clk ''Error'' m ''#EF401D'') \<Longrightarrow>
         p_messages (fst (snd (SlackLogger_logError clk v (slack, w))))
           = p_messages slack
             @ [apply_logInjector slack (SlackLogger_record slack clk ''Error'' m ''#EF401D'')]"
  by (simp_all add: SlackLogger_logDebug_def SlackLogger_logInfo_def SlackLogger_logWarning_def
        SlackLogger_logError_def push_def Let_def)

text \<open>
  Claim C9, amended. In plain-text mode the line the file sink writes does not depend
  on the injector, and neither does anything the four operations of the console sink
  do. In JSON mode the file sink, whose four operations all write through
  \<^verbatim>\<open>_writeToLog\<close>, and each of the four operations of the console sink serialise the
  record the injector returns, applied to the record after trace injection: the
  injector is the last step before serialisation. The line is what the file sink
  hands to \<^verbatim>\<open>appendFile\<close>, and what the console sink writes to the stream, followed by
  a newline. The Slack sink, whose configuration has no JSON mode, applies the
  injector to every event it buffers, as the last step before the append.
\<close>

theorem logInjector_application:
  "(\<not> p_useJsonFormat (base this) \<longrightarrow>
      writeToLog_line ext clk (this\<lparr>base := (base this)\<lparr>p_logInjector := injector\<rparr>\<rparr>) status msg
        = (getDateTime (base this) clk @ '' '' @ LogPrefix_value status @ '' '' @ msg, None))
   \<and> (p_useJsonFormat (base this) \<longrightarrow>
        fst (writeToLog_line ext clk this status msg)
          = stringify ext
              ((case p_logInjector (base this) of Some inject \<Rightarrow> inject | None \<Rightarrow> (\<lambda>r. r))
                 (fst (injectTrace (base this) (active_span ext)
                         \<lparr> source = p_source (base this), service = p_service (base this),
                           env = p_env (base this), level = level_of status, message = msg,
                           dateTime = getDateTime (base this) clk, time = now_iso clk,
                           properties = [] \<rparr>
                         (level_of status = ''Error'')))))
   \<and> (ensureHasValue ext msg \<longrightarrow>
        filter is_AppendFile (fs_calls (snd (snd (writeToLog ext clk status msg (this, w)))))
          = filter is_AppendFile (fs_calls w)
            @ [AppendFile (take 13 (getDateTime (base this) clk) @ ''.log'')
                 (CHR 0x0A # fst (writeToLog_line ext clk this status msg))])
   \<and> (p_env (base this) = ''dev'' \<longrightarrow>
        FileLogger_logDebug ext clk msg (this, w) = writeToLog ext clk LogPrefix_debug msg (this, w))
   \<and> FileLogger_logInfo ext clk msg (this, w) = writeToLog ext clk LogPrefix_info msg (this, w)
   \<and> (getErrorMessage v (console w) = Inr (m, c1) \<longrightarrow>
        FileLogger_logWarning ext clk v (this, w)
          = writeToLog ext clk LogPrefix_warning m (this, w\<lparr>console := c1\<rparr>)
        \<and> FileLogger_logError ext clk v (this, w)
          = writeToLog ext clk LogPrefix_error m (this, w\<lparr>console := c1\<rparr>))
   \<and> (\<not> p_useJsonFormat c \<longrightarrow>
        ConsoleLogger_logDebug ext clk msg (c\<lparr>p_logInjector := cinj\<rparr>, w)
          = ConsoleLogger_logDebug ext clk msg (c, w)
        \<and> ConsoleLogger_logInfo ext clk msg (c\<lparr>p_logInjector := cinj\<rparr>, w)
          = ConsoleLogger_logInfo ext clk msg (c, w)
        \<and> ConsoleLogger_logWarning ext clk v (c\<lparr>p_logInjector := cinj\<rparr>, w)
          = ConsoleLogger_logWarning ext clk v (c, w)
        \<and> ConsoleLogger_logError ext clk v (c\<lparr>p_logInjector := cinj\<rparr>, w)
          = ConsoleLogger_logError ext clk v (c, w))
   \<and> (p_useJsonFormat c \<and> p_env c = ''dev'' \<longrightarrow>
        stdout (snd (ConsoleLogger_logDebug ext clk msg (c, w)))
          = stdout w
            @ [stringify ext
                 ((case p_logInjector c of Some inject \<Rightarrow> inject | None \<Rightarrow> (\<lambda>r. r))
                    (fst (injectTrace c (active_span ext)
                            \<lparr> source = p_source c, service = p_service c, env = p_env c,
                              level = ''Debug'', message = msg, dateTime = getDateTime c clk,
                              time = now_iso clk, properties = [] \<rparr>
                            False)))
               @ [CHR 0x0A]])
   \<and> (p_useJsonFormat c \<longrightarrow>
        stdout (snd (ConsoleLogger_logInfo ext clk msg (c, w)))
          = stdout w
            @ [stringify ext
                 ((case p_logInjector c of Some inject \<Rightarrow> inject | None \<Rightarrow> (\<lambda>r. r))
                    (fst (injectTrace c (active_span ext)
                            \<lparr> source = p_source c, service = p_service c, env = p_env c,
                              level = ''Info'', message = msg, dateTime = getDateTime c clk,
                              time = now_iso clk, properties = [] \<rparr>
                            False)))
               @ [CHR 0x0A]])
   \<and> (p_useJsonFormat c \<and> getErrorMessage v (console w) = Inr (m, c1) \<longrightarrow>
        stdout (snd (ConsoleLogger_logWarning ext clk v (c, w)))
          = stdout w
            @ [stringify ext
                 ((case p_logInjector c of Some inject \<Rightarrow> inject | None \<Rightarrow> (\<lambda>r. r))
                    (fst (injectTrace c (active_span ext)
                            \<lparr> source = p_source c, service = p_service c, env = p_env c,
                              level = ''Warn'', message = m, dateTime = getDateTime c clk,
                              time = now_iso clk, properties = [] \<rparr>
                            False)))
               @ [CHR 0x0A]])
   \<and> (p_useJsonFormat c \<and> getErrorMessage v (console w) = Inr (m, c1) \<longrightarrow>
        stdout (snd (ConsoleLogger_logError ext clk v (c, w)))
          = stdout w
            @ [stringify ext
                 ((case p_logInjector c of Some inject \<Rightarrow> inject | None \<Rightarrow> (\<lambda>r. r))
                    (fst (injectTrace c (active_span ext)
                            \<lparr> source = p_source c, service = p_service c, env = p_env c,
                              level = ''Error'', message = m, dateTime = getDateTime c clk,
                              time = now_iso clk, properties = [] \<rparr>
                            True)))
               @ [CHR 0x0A]])
   \<and> (p_env (slack_base slack) = ''dev'' \<longrightarrow>
        p_messages (fst (snd (SlackLogger_logDebug clk msg (slack, w))))
          = p_messages slack
            @ [apply_logInjector slack (SlackLogger_record slack clk ''Debug'' msg ''#F8F8F8'')])
   \<and> (p_includeInfo slack \<and> p_logFilter slack (SlackLogger_record slack clk ''Info'' msg ''#259D2F'') \<longrightarrow>
        p_messages (fst (snd (SlackLogger_logInfo clk msg (slack, w))))
          = p_messages slack
            @ [apply_logInjector slack (SlackLogger_record slack clk ''Info'' msg ''#259D2F'')])
   \<and> (p_includeWarn slack \<and> getErrorMessage v (console w) = Inr (m, c1)
        \<and> p_logFilter slack (SlackLogger_record slack clk ''Warn'' m ''#F1AB2A'') \<longrightarrow>
        p_messages (fst (snd (SlackLogger_logWarning clk v (slack, w))))
          = p_messages slack
            @ [apply_logInjector slack (SlackLogger_record slack clk ''Warn'' m ''#F1AB2A'')])
   \<and> (p_includeError slack \<and> getErrorMessage v (console w) = Inr (m, c1)
        \<and> p_logFilter slack (SlackLogger_record slack clk ''Error'' m ''#EF401D'') \<longrightarrow>
        p_messages (fst (snd (SlackLogger_logError clk v (slack, w))))
          = p_messages slack
            @ [apply_logInjector slack (SlackLogger_record slack clk ''Error'' m ''#EF401D'')])
   \<and> apply_logInjector slack
       = (case p_logInjector (slack_base slack) of Some inject \<Rightarrow> inject | None \<Rightarrow> (\<lambda>r. r))"
proof -
  have file_call: "ensureHasValue ext msg \<Longrightarrow>
        filter is_AppendFile (fs_calls (snd (snd (writeToLog ext clk status msg (this, w)))))
          = filter is_AppendFile (fs_calls w)
            @ [AppendFile (take 13 (getDateTime (base this) clk) @ ''.log'')
                 (CHR 0x0A # fst (writeToLog_line ext clk this status msg))]"
    using writeToLog_result [of ext msg clk status this w] by auto
  have unfolded: "apply_logInjector slack
       = (case p_logInjector (slack_base slack) of Some inject \<Rightarrow> inject | None \<Rightarrow> (\<lambda>r. r))"
    by (rule ext) (simp add: apply_logInjector_def split: option.splits)
  show ?thesis
    apply (intro conjI impI)
    subgoal by (rule writeToLog_line_plain)
    subgoal by (rule writeToLog_line_json)
    subgoal by (rule file_call)
    subgoal by (rule FileLogger_operations)
    subgoal by (rule FileLogger_operations)
    subgoal by (rule FileLogger_operations)
    subgoal by (rule FileLogger_operations)
    subgoal by (rule ConsoleLogger_plain)
    subgoal by (rule ConsoleLogger_plain)
    subgoal by (rule ConsoleLogger_plain)
    subgoal by (rule ConsoleLogger_plain)
    subgoal by (simp add: ConsoleLogger_json_written(1) ConsoleLogger_json_line)
    subgoal by (simp add: ConsoleLogger_json_written(2) ConsoleLogger_json_line)
    subgoal by (simp add: ConsoleLogger_json_written(3) [of _ _ _ _ c1] ConsoleLogger_json_line)
    subgoal by (simp add: ConsoleLogger_json_written(4) [of _ _ _ _ c1] ConsoleLogger_json_line)
    subgoal by (rule SlackLogger_buffers_injected)
    subgoal by (rule SlackLogger_buffers_injected) simp_all
    subgoal by (rule SlackLogger_buffers_injected(3) [of _ _ _ _ c1]) simp_all
    subgoal by (rule SlackLogger_buffers_injected(4) [of _ _ _ _ c1]) simp_all
    subgoal by (rule unfolded)
    done
qed

theorem logInjector_application_witness:
  "\<not> p_useJsonFormat (base example_FileLogger)
   \<and> fst (writeToLog_line example_externals example_clock
            (example_FileLogger\<lparr>base := (base example_FileLogger)
                                   \<lparr>p_logInjector := Some example_file_injector\<rparr>\<rparr>)
            LogPrefix_info ''started'')
       = ''2026-01-02T03:04:05.000Z APP INFO: started''
   \<and> p_useJsonFormat (base json_FileLogger)
   \<and> fst (writeToLog_line example_externals example_clock json_FileLogger LogPrefix_info ''started'')
       = ''injected: started''
   \<and> p_env (base json_FileLogger) = ''dev''
   \<and> getErrorMessage (StringValue ''started'') (console example_world) = Inr (''started'', [])
   \<and> stdout (snd (ConsoleLogger_logDebug example_externals example_clock ''started''
        (base json_FileLogger, example_world))) = [''injected: started'' @ [CHR 0x0A]]
   \<and> stdout (snd (ConsoleLogger_logInfo example_externals example_clock ''started''
        (base json_FileLogger, example_world))) = [''injected: started'' @ [CHR 0x0A]]
   \<and> stdout (snd (ConsoleLogger_logWarning example_externals example_clock (StringValue ''started'')
        (base json_FileLogger, example_world))) = [''injected: started'' @ [CHR 0x0A]]
   \<and> stdout (snd (ConsoleLogger_logError example_externals example_clock (StringValue ''started'')
        (base json_FileLogger, example_world))) = [''injected: started'' @ [CHR 0x0A]]
   \<and> ConsoleLogger_logError example_externals example_clock (StringValue ''started'')
        ((base example_FileLogger)\<lparr>p_logInjector := Some example_file_injector\<rparr>, example_world)
       = ConsoleLogger_logError example_externals example_clock (StringValue ''started'')
           (base example_FileLogger, example_world)
   \<and> p_includeInfo example_SlackLogger
   \<and> map message (p_messages (fst (snd (SlackLogger_logInfo example_clock ''started''
        (example_SlackLogger, example_world))))) = [''injected: started'']"
proof -
  have plain: "\<not> p_useJsonFormat (base example_FileLogger)"
    and json: "p_useJsonFormat (base json_FileLogger)"
    and dev: "p_env (base json_FileLogger) = ''dev''"
    by (simp_all add: example_FileLogger_def json_FileLogger_def BaseLogger_constructor_def
          example_FileLoggerConfig_def example_manager_def)
  have dt: "getDateTime (base example_FileLogger) example_clock = ''2026-01-02T03:04:05.000Z''"
    by (simp add: example_FileLogger_def BaseLogger_constructor_def example_FileLoggerConfig_def
          getDateTime_def example_clock_def LogDateTimeZone_utc_def)
  have inj: "p_logInjector (base json_FileLogger) = Some example_file_injector"
    and span: "active_span example_externals = None"
    and str: "stringify example_externals = message"
    by (simp_all add: json_FileLogger_def example_externals_def)
  have gm: "getErrorMessage (StringValue ''started'') (console example_world) = Inr (''started'', [])"
    and out: "stdout example_world = []"
    by (simp_all add: getErrorMessage_def example_world_def)
  have sl: "p_includeInfo example_SlackLogger" "p_logFilter example_SlackLogger = (\<lambda>_. True)"
    "p_messages example_SlackLogger = []"
    "p_logInjector (slack_base example_SlackLogger) = Some example_injector"
    by (simp_all add: example_SlackLogger_def BaseLogger_constructor_def)
  note t1 = logInjector_application [where this = example_FileLogger and ext = example_externals
      and clk = example_clock and injector = "Some example_file_injector" and status = LogPrefix_info
      and msg = "''started''" and w = example_world and slack = example_SlackLogger
      and c = "base example_FileLogger" and cinj = "Some example_file_injector"
      and v = "StringValue ''started''" and m = "''started''" and ?c1.0 = "[]"]
  note t2 = logInjector_application [where this = json_FileLogger and ext = example_externals
      and clk = example_clock and injector = None and status = LogPrefix_info
      and msg = "''started''" and w = example_world and slack = example_SlackLogger
      and c = "base json_FileLogger" and cinj = None
      and v = "StringValue ''started''" and m = "''started''" and ?c1.0 = "[]"]
  from t1 plain dt have a: "fst (writeToLog_line example_externals example_clock
            (example_FileLogger\<lparr>base := (base example_FileLogger)
                                   \<lparr>p_logInjector := Some example_file_injector\<rparr>\<rparr>)
            LogPrefix_info ''started'')
       = ''2026-01-02T03:04:05.000Z APP INFO: started''"
    by simp
  from t2 json have b: "fst (writeToLog_line example_externals example_clock json_FileLogger
                               LogPrefix_info ''started'') = ''injected: started''"
    by (simp add: inj span str injectTrace_def example_file_injector_def)
  from t2 json dev gm
  have c: "stdout (snd (ConsoleLogger_logDebug example_externals example_clock ''started''
        (base json_FileLogger, example_world))) = [''injected: started'' @ [CHR 0x0A]]"
    and d: "stdout (snd (ConsoleLogger_logInfo example_externals example_clock ''started''
        (base json_FileLogger, example_world))) = [''injected: started'' @ [CHR 0x0A]]"
    and e: "stdout (snd (ConsoleLogger_logWarning example_externals example_clock (StringValue ''started'')
        (base json_FileLogger, example_world))) = [''injected: started'' @ [CHR 0x0A]]"
    and f: "stdout (snd (ConsoleLogger_logError example_externals example_clock (StringValue ''started'')
        (base json_FileLogger, example_world))) = [''injected: started'' @ [CHR 0x0A]]"
    by (simp_all add: inj span str injectTrace_def example_file_injector_def out)
  from t1 plain
  have g: "ConsoleLogger_logError example_externals example_clock (StringValue ''started'')
        ((base example_FileLogger)\<lparr>p_logInjector := Some example_file_injector\<rparr>, example_world)
       = ConsoleLogger_logError example_externals example_clock (StringValue ''started'')
           (base example_FileLogger, example_world)"
    by blast
  from t1 sl have h: "map message (p_messages (fst (snd (SlackLogger_logInfo example_clock ''started''
        (example_SlackLogger, example_world))))) = [''injected: started'']"
    by (simp add: example_injector_def SlackLogger_record_def)
  from plain json dev gm a b c d e f g h sl(1) show ?thesis by blast
qed

theorem constructor_validation_witness:
  "isAbsolute example_externals (logDirPath (example_FileLoggerConfig (Num 2)))
   \<and> greater_than_zero (Num 2)
   \<and> FileLogger_constructor example_externals example_manager (example_FileLoggerConfig (Num 2))
       = Inr (example_FileLogger, [])
   \<and> p_retentionDays example_FileLogger = Some 2
   \<and> \<not> isAbsolute example_externals ''logs''
   \<and> FileLogger_constructor example_externals example_manager
         ((example_FileLoggerConfig (Num 2))\<lparr>logDirPath := ''logs''\<rparr>)
       = Inl (ArgumentError ''logDirPath'')
   \<and> \<not> greater_than_zero (Num 0)
   \<and> FileLogger_constructor example_externals example_manager (example_FileLoggerConfig (Num 0))
       = Inl (ArgumentError ''retentionDays'')"
proof -
  have ok: "FileLogger_constructor example_externals example_manager (example_FileLoggerConfig (Num 2))
            = Inr (example_FileLogger, [])"
    by (simp add: FileLogger_constructor_def example_externals_def example_FileLoggerConfig_def
        example_FileLogger_def isEmptyOrWhiteSpace_def isWhiteSpace_char_def Let_def)
  have rel: "\<not> isAbsolute example_externals (logDirPath ((example_FileLoggerConfig (Num 2))\<lparr>logDirPath := ''logs''\<rparr>))"
    by (simp add: example_externals_def)
  have zero: "ensureHasValue example_externals (logDirPath (example_FileLoggerConfig (Num 0)))
              \<and> isAbsolute example_externals (logDirPath (example_FileLoggerConfig (Num 0)))
              \<and> \<not> greater_than_zero (retentionDays (example_FileLoggerConfig (Num 0)))"
    by (simp add: example_externals_def example_FileLoggerConfig_def isEmptyOrWhiteSpace_def
          isWhiteSpace_char_def)
  note t = constructor_validation [of example_externals _ example_manager]
  from t [of "example_FileLoggerConfig (Num 2)"] ok
  have a: "isAbsolute example_externals (logDirPath (example_FileLoggerConfig (Num 2)))"
    and b: "p_retentionDays example_FileLogger = Some 2"
    by (auto simp: example_FileLoggerConfig_def)
  from t [of "(example_FileLoggerConfig (Num 2))\<lparr>logDirPath := ''logs''\<rparr>"] rel
  have c: "FileLogger_constructor example_externals example_manager
         ((example_FileLoggerConfig (Num 2))\<lparr>logDirPath := ''logs''\<rparr>)
       = Inl (ArgumentError ''logDirPath'')"
    by blast
  from t [of "example_FileLoggerConfig (Num 0)"] zero
  have d: "FileLogger_constructor example_externals example_manager (example_FileLoggerConfig (Num 0))
       = Inl (ArgumentError ''retentionDays'')"
    by blast
  show ?thesis using ok a b c d rel by simp
qed

end
